theory Spec2Isabelle
  imports Complex_Main
begin

section \<open>Reference data and stored entities\<close>

text \<open>
  The interfaces of \<^verbatim>\<open>src/types\<close>. Identifiers are strings, counts and periods are
  natural numbers, hour amounts are rationals. Field names carry a prefix per
  interface, since several interfaces share the names \<^verbatim>\<open>id\<close>, \<^verbatim>\<open>name\<close>,
  \<^verbatim>\<open>subjectId\<close>. Optional fields that no modelled function reads or writes
  (\<^verbatim>\<open>alternativeRooms\<close>, \<^verbatim>\<open>distance\<close>) are left out.
\<close>

record Subject =
  sub_id :: string
  sub_name :: string
  sub_code :: string
  sub_color :: string

record ClassSection =
  cs_id :: string
  cs_name :: string
  cs_gradeId :: string
  cs_studentCount :: nat

record Teacher =
  t_id :: string
  t_name :: string
  t_email :: string
  t_subjects :: "string list"
  t_weeklyHourLimit :: rat
  t_currentWeeklyHours :: rat

record Room =
  rm_id :: string
  rm_name :: string
  rm_capacity :: nat
  rm_type :: string

record TimeSlot =
  ts_id :: string
  ts_day :: string
  ts_period :: nat
  ts_startTime :: string
  ts_endTime :: string

record GradeSubjectAllocation =
  al_id :: string
  al_gradeId :: string
  al_subjectId :: string
  al_weeklyHours :: rat
  al_semesterWeeks :: rat
  al_totalHours :: rat

record TimetableEntry =
  te_id :: string
  te_classId :: string
  te_teacherId :: string
  te_subjectId :: string
  te_roomId :: "string option"
  te_timeSlotId :: string
  te_day :: string
  te_period :: nat

record ClassSubjectTeacher =
  cst_id :: string
  cst_classId :: string
  cst_subjectId :: string
  cst_teacherId :: string
  cst_isActive :: bool
  cst_createdAt :: string
  cst_updatedAt :: string

record Classroom =
  cr_id :: string
  cr_name :: string
  cr_code :: string
  cr_roomTypeId :: string
  cr_capacity :: nat
  cr_floor :: string
  cr_building :: string
  cr_features :: "string list"
  cr_equipment :: "string list"
  cr_isActive :: bool
  cr_notes :: string
  cr_createdAt :: string
  cr_updatedAt :: string

record SubjectRoomType =
  srt_id :: string
  srt_subjectId :: string
  srt_roomTypeId :: string
  srt_priority :: int
  srt_isRequired :: bool
  srt_createdAt :: string
  srt_updatedAt :: string

datatype conflictStatus = StatusNone | StatusWarning | StatusError

record RoomAssignment =
  ra_id :: string
  ra_timetableEntryId :: string
  ra_roomId :: string
  ra_isAutoAssigned :: bool
  ra_assignedAt :: string
  ra_assignedBy :: string
  ra_conflictStatus :: conflictStatus

record RoomSuggestion =
  sg_roomId :: string
  sg_roomName :: string
  sg_suitabilityScore :: int
  sg_reasons :: "string list"
  sg_warnings :: "string list"

section \<open>Decimal rendering of numbers in template strings\<close>

definition digit :: "nat \<Rightarrow> char" where
  "digit d = ''0123456789'' ! d"

fun show_nat :: "nat \<Rightarrow> string" where
  "show_nat n = (if n < 10 then [digit n] else show_nat (n div 10) @ [digit (n mod 10)])"

declare show_nat.simps [simp del]

section \<open>Room assignment engine (room-assignment-engine.tsx)\<close>

text \<open>
  The component's props and state that the modelled callbacks read: the module-level
  \<^verbatim>\<open>subjects\<close> and \<^verbatim>\<open>classSections\<close>, the \<^verbatim>\<open>classrooms\<close> and
  \<^verbatim>\<open>subjectRoomTypes\<close> state, the \<^verbatim>\<open>timetableEntries\<close> prop and the
  \<^verbatim>\<open>roomAssignments\<close> state. A callback sees the values of the render in which
  it was created; the record is that snapshot.
\<close>

record engine =
  subjects :: "Subject list"
  classSections :: "ClassSection list"
  classrooms :: "Classroom list"
  subjectRoomTypes :: "SubjectRoomType list"
  timetableEntries :: "TimetableEntry list"
  roomAssignments :: "RoomAssignment list"

text \<open>The running \<^verbatim>\<open>score\<close>, \<^verbatim>\<open>reasons\<close> and \<^verbatim>\<open>warnings\<close> of one room.\<close>

type_synonym tally = "int \<times> string list \<times> string list"

text \<open>Lines 83-97: room type preference.\<close>

definition checkRoomType :: "SubjectRoomType list \<Rightarrow> Classroom \<Rightarrow> tally \<Rightarrow> tally" where
  "checkRoomType subjectRoomPreferences room = (\<lambda>(score, reasons, warnings).
     case find (\<lambda>srt. srt_roomTypeId srt = cr_roomTypeId room) subjectRoomPreferences of
       Some roomTypePreference \<Rightarrow>
         let priorityScore = 4 - srt_priority roomTypePreference;
             score1 = score + priorityScore * 30;
             reasons1 = reasons @
               [(if srt_priority roomTypePreference = 1 then ''Preferred'' else ''Suitable'')
                  @ '' room type'']
         in if srt_isRequired roomTypePreference
            then (score1 + 20, reasons1 @ [''Required room type''], warnings)
            else (score1, reasons1, warnings)
     | None \<Rightarrow>
         if length subjectRoomPreferences > 0
         then (score - 20, reasons, warnings @ [''Not a preferred room type for this subject''])
         else (score, reasons, warnings))"

text \<open>
  Lines 99-115: capacity. The quotient \<^verbatim>\<open>studentCount / capacity\<close> is taken in the
  rationals; \<^verbatim>\<open>0.8\<close> is \<open>4/5\<close>. For a room of capacity 0 and a class of 0 students
  JavaScript compares \<^verbatim>\<open>NaN\<close>, which is greater than nothing, and HOL compares
  \<open>0\<close>: both take the last branch.
\<close>

definition checkCapacity :: "ClassSection \<Rightarrow> Classroom \<Rightarrow> tally \<Rightarrow> tally" where
  "checkCapacity classSection room = (\<lambda>(score, reasons, warnings).
     if cr_capacity room \<ge> cs_studentCount classSection then
       let capacityRatio = (of_nat (cs_studentCount classSection) :: rat) / of_nat (cr_capacity room)
       in if capacityRatio > 4 / 5 then (score + 15, reasons @ [''Good capacity utilization''], warnings)
          else if capacityRatio > 1 / 2 then (score + 10, reasons @ [''Adequate capacity''], warnings)
          else (score + 5, reasons, warnings @ [''Room may be too large''])
     else (score - 50, reasons,
           warnings @ [''Insufficient capacity ('' @ show_nat (cr_capacity room) @ '' < ''
                         @ show_nat (cs_studentCount classSection) @ '')'']))"

text \<open>Lines 117-125: required features.\<close>

definition requiredFeatures :: "string list" where
  "requiredFeatures = [''Projector'', ''Whiteboard'']"

definition checkFeatures :: "Classroom \<Rightarrow> tally \<Rightarrow> tally" where
  "checkFeatures room = (\<lambda>(score, reasons, warnings).
     let hasRequiredFeatures = list_all (\<lambda>feature. feature \<in> set (cr_features room)) requiredFeatures
     in if hasRequiredFeatures then (score + 10, reasons @ [''Has required features''], warnings)
        else (score, reasons, warnings @ [''Missing some required features'']))"

text \<open>Lines 78-134: the body of the \<^verbatim>\<open>map\<close> over the available rooms.\<close>

definition scoreRoom :: "SubjectRoomType list \<Rightarrow> ClassSection \<Rightarrow> Classroom \<Rightarrow> RoomSuggestion" where
  "scoreRoom subjectRoomPreferences classSection room =
     (case checkFeatures room
             (checkCapacity classSection room
               (checkRoomType subjectRoomPreferences room (0, [], []))) of
        (score, reasons, warnings) \<Rightarrow>
          \<lparr>sg_roomId = cr_id room, sg_roomName = cr_name room,
           sg_suitabilityScore = max 0 score, sg_reasons = reasons, sg_warnings = warnings\<rparr>)"

text \<open>Lines 68-73: rooms taken at the entry's slot, read from the \<^verbatim>\<open>roomAssignments\<close> state.\<close>

definition occupiedRooms :: "engine \<Rightarrow> TimetableEntry \<Rightarrow> string list" where
  "occupiedRooms st entry =
     map ra_roomId
       (filter (\<lambda>ra. case find (\<lambda>te. te_id te = ra_timetableEntryId ra) (timetableEntries st) of
                        None \<Rightarrow> False
                      | Some assignedEntry \<Rightarrow>
                          te_day assignedEntry = te_day entry \<and> te_period assignedEntry = te_period entry)
          (roomAssignments st))"

definition availableRooms :: "engine \<Rightarrow> TimetableEntry \<Rightarrow> Classroom list" where
  "availableRooms st entry =
     filter (\<lambda>room. cr_isActive room \<and> cr_id room \<notin> set (occupiedRooms st entry)) (classrooms st)"

definition subjectRoomPreferences :: "engine \<Rightarrow> TimetableEntry \<Rightarrow> SubjectRoomType list" where
  "subjectRoomPreferences st entry =
     sort_key srt_priority (filter (\<lambda>srt. srt_subjectId srt = te_subjectId entry) (subjectRoomTypes st))"

text \<open>
  Lines 55-139. \<^verbatim>\<open>Array.prototype.sort\<close> is stable, and so is \<^const>\<open>sort_key\<close>; the
  comparator \<^verbatim>\<open>b.suitabilityScore - a.suitabilityScore\<close> orders by descending score.
\<close>

definition generateRoomSuggestions :: "engine \<Rightarrow> TimetableEntry \<Rightarrow> RoomSuggestion list" where
  "generateRoomSuggestions st entry =
     (case (find (\<lambda>s. sub_id s = te_subjectId entry) (subjects st),
            find (\<lambda>c. cs_id c = te_classId entry) (classSections st)) of
        (Some subject, Some classSection) \<Rightarrow>
          sort_key (\<lambda>s. - sg_suitabilityScore s)
            (map (scoreRoom (subjectRoomPreferences st entry) classSection) (availableRooms st entry))
      | _ \<Rightarrow> [])"

text \<open>
  Lines 146-164: the body of \<^verbatim>\<open>timetableEntries.forEach\<close>, pushing onto
  \<^verbatim>\<open>newAssignments\<close>. \<^verbatim>\<open>now\<close> is the reading of \<^verbatim>\<open>new Date().toISOString()\<close>.
\<close>

definition assignEntry :: "engine \<Rightarrow> string \<Rightarrow> RoomAssignment list \<Rightarrow> TimetableEntry \<Rightarrow> RoomAssignment list" where
  "assignEntry st now newAssignments entry =
     (if list_ex (\<lambda>ra. ra_timetableEntryId ra = te_id entry) (roomAssignments st) then newAssignments
      else case generateRoomSuggestions st entry of
             [] \<Rightarrow> newAssignments
           | bestSuggestion # _ \<Rightarrow>
               if sg_suitabilityScore bestSuggestion > 0
               then newAssignments @
                      [\<lparr>ra_id = ''auto-'' @ te_id entry,
                        ra_timetableEntryId = te_id entry,
                        ra_roomId = sg_roomId bestSuggestion,
                        ra_isAutoAssigned = True,
                        ra_assignedAt = now,
                        ra_assignedBy = ''system'',
                        ra_conflictStatus =
                          (if length (sg_warnings bestSuggestion) > 0 then StatusWarning else StatusNone)\<rparr>]
               else newAssignments)"

text \<open>Lines 142-172: the new value of the \<^verbatim>\<open>roomAssignments\<close> state.\<close>

definition autoAssignRooms :: "engine \<Rightarrow> string \<Rightarrow> RoomAssignment list" where
  "autoAssignRooms st now =
     (let newAssignments = foldl (assignEntry st now) [] (timetableEntries st)
      in roomAssignments st @ newAssignments)"


text \<open>
  Lines 282-319. \<^verbatim>\<open>selectedEntry\<close> and \<^verbatim>\<open>manualRoomSelection\<close> are the dialog's
  state. The function returns nothing; the model returns the new \<^verbatim>\<open>roomAssignments\<close>
  state, or the reason why the state was left as it is: \<open>Ignored\<close> for the silent
  \<^verbatim>\<open>return\<close>, \<open>RoomOccupied\<close> for the alert "This room is already occupied at this time!".
\<close>

datatype error = Ignored | FullyScheduled | NoTeacherAssigned | RoomOccupied | MissingSelection

definition conflictingAssignment :: "engine \<Rightarrow> TimetableEntry \<Rightarrow> string \<Rightarrow> RoomAssignment option" where
  "conflictingAssignment st selectedEntry manualRoomSelection =
     find (\<lambda>ra. case find (\<lambda>te. te_id te = ra_timetableEntryId ra) (timetableEntries st) of
                   None \<Rightarrow> False
                 | Some entry \<Rightarrow>
                     ra_roomId ra = manualRoomSelection \<and>
                     te_day entry = te_day selectedEntry \<and>
                     te_period entry = te_period selectedEntry)
       (roomAssignments st)"

definition saveManualAssignment ::
  "engine \<Rightarrow> string \<Rightarrow> TimetableEntry option \<Rightarrow> string \<Rightarrow> error + RoomAssignment list" where
  "saveManualAssignment st now selectedEntryOpt manualRoomSelection =
     (case selectedEntryOpt of
        None \<Rightarrow> Inl Ignored
      | Some selectedEntry \<Rightarrow>
          if manualRoomSelection = [] then Inl Ignored
          else case conflictingAssignment st selectedEntry manualRoomSelection of
                 Some _ \<Rightarrow> Inl RoomOccupied
               | None \<Rightarrow>
                   let updatedAssignments =
                         filter (\<lambda>ra. ra_timetableEntryId ra \<noteq> te_id selectedEntry) (roomAssignments st)
                   in Inr (updatedAssignments @
                             [\<lparr>ra_id = ''manual-'' @ te_id selectedEntry,
                               ra_timetableEntryId = te_id selectedEntry,
                               ra_roomId = manualRoomSelection,
                               ra_isAutoAssigned = False,
                               ra_assignedAt = now,
                               ra_assignedBy = ''user'',
                               ra_conflictStatus = StatusNone\<rparr>]))"

section \<open>Timetable grid (timetable-grid.tsx)\<close>

datatype viewMode = ClassMode | TeacherMode

datatype conflictType = teacher_double_booking | room_clash | teacher_overload | subject_hours_exceeded

datatype severity = Warning | Error

text \<open>
  The \<^verbatim>\<open>message\<close> of a conflict is a template string. The model keeps which template
  it is and the values filled in, not the rendered text:
  \<^verbatim>\<open>Teacher ${name} is double-booked on ${day} period ${period}\<close>,
  \<^verbatim>\<open>${name} exceeds weekly limit: ${hours.toFixed(1)}/${weeklyHourLimit} hours\<close>,
  \<^verbatim>\<open>Room ${name} is double-booked on ${day} period ${period}\<close>.
  A name that \<^verbatim>\<open>find(...)?.name\<close> does not find is \<open>None\<close>.
\<close>

datatype message =
    TeacherDoubleBooked "string option" string nat
  | ExceedsWeeklyLimit string rat rat
  | RoomDoubleBooked "string option" string nat

record Conflict =
  cf_type :: conflictType
  cf_message :: message
  cf_severity :: severity
  cf_affectedEntries :: "string list"

record progress =
  pr_scheduled :: rat
  pr_total :: rat
  pr_percentage :: int

text \<open>
  The props, state and module-level data of the grid component. \<^verbatim>\<open>periodDuration\<close>
  is minutes; its initial value is 45 and no code of the component changes it.
\<close>

record grid =
  g_subjects :: "Subject list"
  g_classSections :: "ClassSection list"
  g_teachers :: "Teacher list"
  g_rooms :: "Room list"
  g_allocations :: "GradeSubjectAllocation list"
  g_assignments :: "ClassSubjectTeacher list"
  g_viewMode :: viewMode
  g_selectedEntity :: string
  g_timetableEntries :: "TimetableEntry list"
  g_conflicts :: "Conflict list"
  g_selectedSubject :: "string option"
  g_timeSlots :: "TimeSlot list"
  g_periodDuration :: nat

definition PERIODS :: "nat list" where
  "PERIODS = [1, 2, 3, 4, 5]"

definition DAYS :: "string list" where
  "DAYS = [''Monday'', ''Tuesday'', ''Wednesday'', ''Thursday'', ''Friday'']"

text \<open>\<^verbatim>\<open>Math.round\<close>: the nearest integer, a half rounded up.\<close>

definition Math_round :: "rat \<Rightarrow> int" where
  "Math_round x = \<lfloor>x + 1 / 2\<rfloor>"

text \<open>Lines 71-83.\<close>

definition availableSubjects :: "grid \<Rightarrow> Subject list" where
  "availableSubjects g =
     (if g_selectedEntity g \<noteq> [] then
        (if g_viewMode g = ClassMode then
           filter (\<lambda>subject.
               case find (\<lambda>c. cs_id c = g_selectedEntity g) (g_classSections g) of
                 None \<Rightarrow> False
               | Some classSection \<Rightarrow>
                   list_ex (\<lambda>a. al_gradeId a = cs_gradeId classSection \<and> al_subjectId a = sub_id subject)
                     (g_allocations g))
             (g_subjects g)
         else
           filter (\<lambda>subject.
               case find (\<lambda>t. t_id t = g_selectedEntity g) (g_teachers g) of
                 None \<Rightarrow> False
               | Some teacher \<Rightarrow> sub_id subject \<in> set (t_subjects teacher))
             (g_subjects g))
      else [])"

text \<open>Lines 91-92 and 102-103: \<^verbatim>\<open>allocation?.weeklyHours || 0\<close>.\<close>

definition allocatedWeeklyHours :: "grid \<Rightarrow> ClassSection \<Rightarrow> Subject \<Rightarrow> rat" where
  "allocatedWeeklyHours g classSection subject =
     (case find (\<lambda>a. al_gradeId a = cs_gradeId classSection \<and> al_subjectId a = sub_id subject)
             (g_allocations g) of
        None \<Rightarrow> 0
      | Some allocation \<Rightarrow> al_weeklyHours allocation)"

text \<open>Lines 86-106.\<close>

definition totalHours :: "grid \<Rightarrow> Subject \<Rightarrow> rat" where
  "totalHours g subject =
     (if g_viewMode g = ClassMode then
        (case find (\<lambda>c. cs_id c = g_selectedEntity g) (g_classSections g) of
           None \<Rightarrow> 0
         | Some classSection \<Rightarrow> allocatedWeeklyHours g classSection subject)
      else
        foldl (\<lambda>totalHours assignment.
                 case find (\<lambda>c. cs_id c = cst_classId assignment) (g_classSections g) of
                   None \<Rightarrow> totalHours
                 | Some classSection \<Rightarrow> totalHours + allocatedWeeklyHours g classSection subject)
          0
          (filter (\<lambda>a. cst_teacherId a = g_selectedEntity g \<and> cst_subjectId a = sub_id subject \<and>
                        cst_isActive a)
             (g_assignments g)))"

text \<open>Lines 109-115.\<close>

definition scheduledEntries :: "grid \<Rightarrow> Subject \<Rightarrow> TimetableEntry list" where
  "scheduledEntries g subject =
     filter (\<lambda>entry.
         if g_viewMode g = ClassMode
         then te_classId entry = g_selectedEntity g \<and> te_subjectId entry = sub_id subject
         else te_teacherId entry = g_selectedEntity g \<and> te_subjectId entry = sub_id subject)
       (g_timetableEntries g)"

text \<open>
  Lines 117-123. The hours are rationals here and binary floating-point numbers in
  the source; with the period of 45 minutes every scheduled amount is a multiple of
  \<open>3/4\<close>, which the source computes exactly.
\<close>

definition subjectProgressOf :: "grid \<Rightarrow> Subject \<Rightarrow> progress" where
  "subjectProgressOf g subject =
     (let scheduledHours = of_nat (length (scheduledEntries g subject)) * (of_nat (g_periodDuration g) / 60)
      in \<lparr>pr_scheduled = scheduledHours,
          pr_total = totalHours g subject,
          pr_percentage = (if totalHours g subject > 0
                        then Math_round ((scheduledHours / totalHours g subject) * 100) else 0)\<rparr>)"

text \<open>
  Lines 65-127: the object \<^verbatim>\<open>progress\<close>, keyed by subject id, written once per
  available subject in order.
\<close>

definition subjectProgress :: "grid \<Rightarrow> (string \<rightharpoonup> progress)" where
  "subjectProgress g =
     (if g_selectedEntity g = [] then Map.empty
      else foldl (\<lambda>progress subject. progress(sub_id subject \<mapsto> subjectProgressOf g subject))
             Map.empty (availableSubjects g))"

text \<open>Lines 141-147.\<close>

definition isOccupied :: "grid \<Rightarrow> string \<Rightarrow> nat \<Rightarrow> bool" where
  "isOccupied g day period =
     list_ex (\<lambda>entry.
         if g_viewMode g = ClassMode
         then te_classId entry = g_selectedEntity g \<and> te_day entry = day \<and> te_period entry = period
         else te_teacherId entry = g_selectedEntity g \<and> te_day entry = day \<and> te_period entry = period)
       (g_timetableEntries g)"

text \<open>
  Line 133: the read \<^verbatim>\<open>subjectProgress[selectedSubject]\<close>. The object is a plain
  JavaScript object, so the read follows the prototype chain. An id other than
  \<^verbatim>\<open>__proto__\<close> is written as an own property; the write of line 119 under the id
  \<^verbatim>\<open>__proto__\<close> installs the record as the prototype of the object instead, and the
  read of \<^verbatim>\<open>__proto__\<close> gives it back. The map \<^const>\<open>subjectProgress\<close> holds the
  records of both kinds under their ids. A key without a record of its own reads a
  number when it names a field of the installed prototype, a member of
  \<^verbatim>\<open>Object.prototype\<close> when it names one (for \<^verbatim>\<open>__proto__\<close> that object itself),
  and \<^verbatim>\<open>undefined\<close> otherwise.
\<close>

datatype jsValue = Undefined | ProgressRecord progress | NumberValue rat | PrototypeMember

text \<open>The property names of \<^verbatim>\<open>Object.prototype\<close> (ECMAScript, with its legacy accessors).\<close>

definition Object_prototype :: "string list" where
  "Object_prototype =
     [''constructor'', ''__defineGetter__'', ''__defineSetter__'', ''hasOwnProperty'',
      ''__lookupGetter__'', ''__lookupSetter__'', ''isPrototypeOf'', ''propertyIsEnumerable'',
      ''toString'', ''valueOf'', ''__proto__'', ''toLocaleString'']"

text \<open>The fields of a progress record (lines 119-123), read by name.\<close>

definition progressField :: "progress \<Rightarrow> string \<Rightarrow> rat option" where
  "progressField p key =
     (if key = ''scheduled'' then Some (pr_scheduled p)
      else if key = ''total'' then Some (pr_total p)
      else if key = ''percentage'' then Some (of_int (pr_percentage p))
      else None)"

definition readProgress :: "grid \<Rightarrow> string \<Rightarrow> jsValue" where
  "readProgress g key =
     (case subjectProgress g key of
        Some progress \<Rightarrow> ProgressRecord progress
      | None \<Rightarrow>
          (case (case subjectProgress g ''__proto__'' of
                   None \<Rightarrow> None
                 | Some prototype \<Rightarrow> progressField prototype key) of
             Some v \<Rightarrow> NumberValue v
           | None \<Rightarrow> if key \<in> set Object_prototype then PrototypeMember else Undefined))"

text \<open>\<^verbatim>\<open>!progress\<close> is the negation of this: an object or a function is truthy, a number unless it is zero.\<close>

fun truthy :: "jsValue \<Rightarrow> bool" where
  "truthy Undefined = False"
| "truthy (ProgressRecord p) = True"
| "truthy (NumberValue v) = (v \<noteq> 0)"
| "truthy PrototypeMember = True"

text \<open>
  \<^verbatim>\<open>progress.percentage\<close>: only a progress record has the property; on a number, a
  function or \<^verbatim>\<open>Object.prototype\<close> it is \<^verbatim>\<open>undefined\<close>, which is not \<^verbatim>\<open>>= 100\<close>.
\<close>

fun percentageOf :: "jsValue \<Rightarrow> int option" where
  "percentageOf (ProgressRecord p) = Some (pr_percentage p)"
| "percentageOf Undefined = None"
| "percentageOf (NumberValue v) = None"
| "percentageOf PrototypeMember = None"

text \<open>
  Lines 129-156. The two nested \<^verbatim>\<open>forEach\<close> loops push the free slots day by day,
  period by period. The modal (schedule-builder-modal.tsx, lines 123-150) has the same
  code, with the constant \<^verbatim>\<open>PERIOD_DURATION = 45\<close> for \<^verbatim>\<open>periodDuration\<close>.
\<close>

definition validSlots :: "grid \<Rightarrow> (string \<times> nat) list" where
  "validSlots g =
     (case g_selectedSubject g of
        None \<Rightarrow> []
      | Some selectedSubject \<Rightarrow>
          if selectedSubject = [] then []
          else
            let progress = readProgress g selectedSubject
            in if \<not> truthy progress \<or>
                  (case percentageOf progress of None \<Rightarrow> False | Some percentage \<Rightarrow> percentage \<ge> 100)
               then []
               else [(day, period). day \<leftarrow> DAYS, period \<leftarrow> PERIODS, \<not> isOccupied g day period])"

subsection \<open>validateConstraints\<close>

definition slotKey :: "string \<Rightarrow> nat \<Rightarrow> string" where
  "slotKey day period = day @ ''-'' @ show_nat period"

text \<open>Lines 164-180: one step of the first \<^verbatim>\<open>entries.forEach\<close>.\<close>

definition checkTeacherSlot ::
  "Teacher list \<Rightarrow> (string \<rightharpoonup> string set) \<times> Conflict list \<Rightarrow> TimetableEntry \<Rightarrow>
   (string \<rightharpoonup> string set) \<times> Conflict list" where
  "checkTeacherSlot teachers = (\<lambda>(teacherSlots, newConflicts) entry.
     let slots = (case teacherSlots (te_teacherId entry) of None \<Rightarrow> {} | Some s \<Rightarrow> s);
         newConflicts1 =
           (if slotKey (te_day entry) (te_period entry) \<in> slots
            then newConflicts @
                   [\<lparr>cf_type = teacher_double_booking,
                     cf_message = TeacherDoubleBooked
                        (map_option t_name (find (\<lambda>t. t_id t = te_teacherId entry) teachers))
                        (te_day entry) (te_period entry),
                     cf_severity = Error,
                     cf_affectedEntries = [te_id entry]\<rparr>]
            else newConflicts)
     in (teacherSlots(te_teacherId entry \<mapsto> insert (slotKey (te_day entry) (te_period entry)) slots),
         newConflicts1))"

text \<open>
  A \<^verbatim>\<open>Map\<close> that is iterated: an association list in insertion order. Setting a key
  that is present keeps its place.
\<close>

fun mapSet :: "('k \<times> 'v) list \<Rightarrow> 'k \<Rightarrow> 'v \<Rightarrow> ('k \<times> 'v) list" where
  "mapSet [] k v = [(k, v)]"
| "mapSet ((k', v') # m) k v = (if k' = k then (k, v) # m else (k', v') # mapSet m k v)"

text \<open>Lines 184-187: one step of the second \<^verbatim>\<open>entries.forEach\<close>.\<close>

definition addTeacherHours :: "nat \<Rightarrow> (string \<times> rat) list \<Rightarrow> TimetableEntry \<Rightarrow> (string \<times> rat) list" where
  "addTeacherHours periodDuration teacherHours entry =
     (let hours = of_nat periodDuration / 60
      in mapSet teacherHours (te_teacherId entry)
           ((case map_of teacherHours (te_teacherId entry) of None \<Rightarrow> 0 | Some h \<Rightarrow> h) + hours))"

text \<open>Lines 189-199: one step of \<^verbatim>\<open>teacherHours.forEach\<close>.\<close>

definition checkTeacherHours ::
  "Teacher list \<Rightarrow> TimetableEntry list \<Rightarrow> Conflict list \<Rightarrow> string \<times> rat \<Rightarrow> Conflict list" where
  "checkTeacherHours teachers entries newConflicts = (\<lambda>(teacherId, hours).
     case find (\<lambda>t. t_id t = teacherId) teachers of
       None \<Rightarrow> newConflicts
     | Some teacher \<Rightarrow>
         if hours > t_weeklyHourLimit teacher
         then newConflicts @
                [\<lparr>cf_type = teacher_overload,
                  cf_message = ExceedsWeeklyLimit (t_name teacher) hours (t_weeklyHourLimit teacher),
                  cf_severity = Warning,
                  cf_affectedEntries =
                    map te_id (filter (\<lambda>e. te_teacherId e = teacherId) entries)\<rparr>]
         else newConflicts)"

text \<open>
  Lines 203-221: one step of the third \<^verbatim>\<open>entries.forEach\<close>. \<^verbatim>\<open>if (entry.roomId)\<close>
  holds for a room id that is present and not the empty string.
\<close>

definition checkRoomSlot ::
  "Room list \<Rightarrow> (string \<rightharpoonup> string set) \<times> Conflict list \<Rightarrow> TimetableEntry \<Rightarrow>
   (string \<rightharpoonup> string set) \<times> Conflict list" where
  "checkRoomSlot rooms = (\<lambda>(roomSlots, newConflicts) entry.
     case te_roomId entry of
       None \<Rightarrow> (roomSlots, newConflicts)
     | Some roomId \<Rightarrow>
         if roomId = [] then (roomSlots, newConflicts)
         else
           let slots = (case roomSlots roomId of None \<Rightarrow> {} | Some s \<Rightarrow> s);
               newConflicts1 =
                 (if slotKey (te_day entry) (te_period entry) \<in> slots
                  then newConflicts @
                         [\<lparr>cf_type = room_clash,
                           cf_message = RoomDoubleBooked
                              (map_option rm_name (find (\<lambda>r. rm_id r = roomId) rooms))
                              (te_day entry) (te_period entry),
                           cf_severity = Error,
                           cf_affectedEntries = [te_id entry]\<rparr>]
                  else newConflicts)
           in (roomSlots(roomId \<mapsto> insert (slotKey (te_day entry) (te_period entry)) slots),
               newConflicts1))"

text \<open>
  Lines 158-226. \<^verbatim>\<open>teachers\<close> and \<^verbatim>\<open>rooms\<close> are module-level data and
  \<^verbatim>\<open>periodDuration\<close> is the component's state.
\<close>

definition validateConstraints :: "Teacher list \<Rightarrow> Room list \<Rightarrow> nat \<Rightarrow> TimetableEntry list \<Rightarrow> Conflict list" where
  "validateConstraints teachers rooms periodDuration entries =
     (let newConflicts1 = snd (foldl (checkTeacherSlot teachers) (Map.empty, []) entries);
          teacherHours = foldl (addTeacherHours periodDuration) [] entries;
          newConflicts2 = foldl (checkTeacherHours teachers entries) newConflicts1 teacherHours;
          newConflicts3 = snd (foldl (checkRoomSlot rooms) (Map.empty, newConflicts2) entries)
      in newConflicts3)"

subsection \<open>Placing an entry\<close>

text \<open>Lines 240-248 (and lines 157-165 of the modal).\<close>

definition resolveTeacher :: "grid \<Rightarrow> string \<Rightarrow> string" where
  "resolveTeacher g selectedSubject =
     (if g_viewMode g = ClassMode then
        (case find (\<lambda>a. cst_classId a = g_selectedEntity g \<and> cst_subjectId a = selectedSubject \<and>
                         cst_isActive a) (g_assignments g) of
           None \<Rightarrow> []
         | Some assignment \<Rightarrow> cst_teacherId assignment)
      else g_selectedEntity g)"

text \<open>Lines 255-263 (and 172-180 of the modal). \<^verbatim>\<open>now\<close> is the reading of \<^verbatim>\<open>Date.now()\<close>.\<close>

definition newEntry :: "grid \<Rightarrow> nat \<Rightarrow> string \<Rightarrow> string \<Rightarrow> string \<Rightarrow> nat \<Rightarrow> TimetableEntry" where
  "newEntry g now selectedSubject teacherId day period =
     \<lparr>te_id = show_nat now,
      te_classId = (if g_viewMode g = ClassMode then g_selectedEntity g else []),
      te_teacherId = teacherId,
      te_subjectId = selectedSubject,
      te_roomId = None,
      te_timeSlotId = (case find (\<lambda>ts. ts_day ts = day \<and> ts_period ts = period) (g_timeSlots g) of
                         None \<Rightarrow> []
                       | Some ts \<Rightarrow> ts_id ts),
      te_day = day,
      te_period = period\<rparr>"

text \<open>Lines 550-557: \<^verbatim>\<open>handleAddEntry\<close>, the modal's \<^verbatim>\<open>onAddEntry\<close>.\<close>

definition handleAddEntry :: "grid \<Rightarrow> TimetableEntry \<Rightarrow> grid" where
  "handleAddEntry g entry =
     (let updatedEntries = g_timetableEntries g @ [entry]
      in g\<lparr>g_timetableEntries := updatedEntries,
           g_conflicts := validateConstraints (g_teachers g) (g_rooms g) (g_periodDuration g) updatedEntries\<rparr>)"

text \<open>
  Lines 228-269 of the grid. The result is the new state of the component, or the
  reason why nothing was added: \<open>Ignored\<close> for the silent \<^verbatim>\<open>return\<close>,
  \<open>FullyScheduled\<close> and \<open>NoTeacherAssigned\<close> for the two alerts.
\<close>

definition handleSlotClick :: "grid \<Rightarrow> nat \<Rightarrow> string \<Rightarrow> nat \<Rightarrow> error + grid" where
  "handleSlotClick g now day period =
     (case g_selectedSubject g of
        None \<Rightarrow> Inl Ignored
      | Some selectedSubject \<Rightarrow>
          if selectedSubject = [] \<or> g_selectedEntity g = [] then Inl Ignored
          else if (case subjectProgress g selectedSubject of
                     None \<Rightarrow> False
                   | Some progress \<Rightarrow> pr_percentage progress \<ge> 100)
          then Inl FullyScheduled
          else
            let teacherId = resolveTeacher g selectedSubject
            in if teacherId = [] then Inl NoTeacherAssigned
               else Inr ((handleAddEntry g (newEntry g now selectedSubject teacherId day period))
                           \<lparr>g_selectedSubject := None\<rparr>))"

text \<open>
  Lines 152-187 of the modal: the same without the check of the progress. The modal
  reads the entity, the view mode, the assignments and the entries from its props and
  hands the new entry to \<^verbatim>\<open>onAddEntry\<close>; its own \<^verbatim>\<open>selectedSubject\<close> is the
  field \<open>g_selectedSubject\<close> here.
\<close>

definition modalHandleSlotClick :: "grid \<Rightarrow> nat \<Rightarrow> string \<Rightarrow> nat \<Rightarrow> error + grid" where
  "modalHandleSlotClick g now day period =
     (case g_selectedSubject g of
        None \<Rightarrow> Inl Ignored
      | Some selectedSubject \<Rightarrow>
          if selectedSubject = [] \<or> g_selectedEntity g = [] then Inl Ignored
          else
            let teacherId = resolveTeacher g selectedSubject
            in if teacherId = [] then Inl NoTeacherAssigned
               else Inr ((handleAddEntry g (newEntry g now selectedSubject teacherId day period))
                           \<lparr>g_selectedSubject := None\<rparr>))"

section \<open>Teaching assignment table (TeacherAssignmentManager)\<close>

text \<open>
  \<^verbatim>\<open>addAssignment\<close> (lines 116-155) reads the three selections of the form;
  \<^verbatim>\<open>nowMs\<close> is the reading of \<^verbatim>\<open>Date.now()\<close> and \<^verbatim>\<open>nowIso\<close> that of
  \<^verbatim>\<open>new Date().toISOString()\<close>. The result is the new \<^verbatim>\<open>assignments\<close> state.
\<close>

definition addAssignment ::
  "ClassSubjectTeacher list \<Rightarrow> string \<Rightarrow> string \<Rightarrow> string \<Rightarrow> nat \<Rightarrow> string \<Rightarrow>
   error + ClassSubjectTeacher list" where
  "addAssignment assignments selectedClass selectedSubject selectedTeacher nowMs nowIso =
     (if selectedClass = [] \<or> selectedSubject = [] \<or> selectedTeacher = [] then Inl MissingSelection
      else case find (\<lambda>a. cst_classId a = selectedClass \<and> cst_subjectId a = selectedSubject \<and>
                           cst_isActive a) assignments of
             Some existingAssignment \<Rightarrow>
               Inr (map (\<lambda>a. if cst_id a = cst_id existingAssignment
                             then a\<lparr>cst_teacherId := selectedTeacher, cst_updatedAt := nowIso\<rparr>
                             else a) assignments)
           | None \<Rightarrow>
               Inr (assignments @
                      [\<lparr>cst_id = show_nat nowMs,
                        cst_classId = selectedClass,
                        cst_subjectId = selectedSubject,
                        cst_teacherId = selectedTeacher,
                        cst_isActive = True,
                        cst_createdAt = nowIso,
                        cst_updatedAt = nowIso\<rparr>]))"

text \<open>Lines 157-165.\<close>

definition removeAssignment :: "ClassSubjectTeacher list \<Rightarrow> string \<Rightarrow> string \<Rightarrow> ClassSubjectTeacher list" where
  "removeAssignment assignments assignmentId nowIso =
     map (\<lambda>a. if cst_id a = assignmentId then a\<lparr>cst_isActive := False, cst_updatedAt := nowIso\<rparr> else a)
       assignments"

text \<open>
  A sequence of clicks on the table. A call of \<^verbatim>\<open>addAssignment\<close> that only shows
  the error toast leaves the state as it is.
\<close>

datatype tableOp =
    Add string string string nat string
  | Remove string string

fun applyOp :: "ClassSubjectTeacher list \<Rightarrow> tableOp \<Rightarrow> ClassSubjectTeacher list" where
  "applyOp assignments (Add c s t nowMs nowIso) =
     (case addAssignment assignments c s t nowMs nowIso of
        Inl _ \<Rightarrow> assignments
      | Inr updatedAssignments \<Rightarrow> updatedAssignments)"
| "applyOp assignments (Remove assignmentId nowIso) = removeAssignment assignments assignmentId nowIso"

text \<open>The invariant of the table: the active rows have distinct (class, subject) pairs.\<close>

definition oneActivePerPair :: "ClassSubjectTeacher list \<Rightarrow> bool" where
  "oneActivePerPair assignments =
     distinct (map (\<lambda>a. (cst_classId a, cst_subjectId a)) (filter cst_isActive assignments))"

section \<open>The scoring rules in the words of the specification\<close>

text \<open>
  The three contributions to the score of a room as the specification words them, to
  be compared with the running tally of the code. \<open>prefs\<close> are the preference rows
  of the lesson's subject, the row of lowest priority number first.
\<close>

definition roomTypeScore :: "SubjectRoomType list \<Rightarrow> Classroom \<Rightarrow> int" where
  "roomTypeScore prefs room =
     (case find (\<lambda>srt. srt_roomTypeId srt = cr_roomTypeId room) prefs of
        Some p \<Rightarrow> (4 - srt_priority p) * 30 + (if srt_isRequired p then 20 else 0)
      | None \<Rightarrow> if prefs \<noteq> [] then - 20 else 0)"

definition capacityScore :: "ClassSection \<Rightarrow> Classroom \<Rightarrow> int" where
  "capacityScore classSection room =
     (if cr_capacity room < cs_studentCount classSection then - 50
      else if 4 / 5 < (of_nat (cs_studentCount classSection) :: rat) / of_nat (cr_capacity room) then 15
      else if 1 / 2 < (of_nat (cs_studentCount classSection) :: rat) / of_nat (cr_capacity room) then 10
      else 5)"

definition featureScore :: "Classroom \<Rightarrow> int" where
  "featureScore room =
     (if ''Projector'' \<in> set (cr_features room) \<and> ''Whiteboard'' \<in> set (cr_features room) then 10 else 0)"

section \<open>The hours of a teacher in the words of the specification\<close>

text \<open>The number of the teacher's entries times the duration of a period in hours.\<close>

definition scheduledHours :: "nat \<Rightarrow> TimetableEntry list \<Rightarrow> string \<Rightarrow> rat" where
  "scheduledHours periodDuration entries teacherId =
     of_nat (length (filter (\<lambda>e. te_teacherId e = teacherId) entries)) * (of_nat periodDuration / 60)"

section \<open>Example data\<close>

text \<open>
  Rows of \<^verbatim>\<open>src/lib/timetable-data.ts\<close> and \<^verbatim>\<open>src/lib/room-assignment-data.ts\<close>,
  and three classrooms. The examples below are built from them.
\<close>

definition mathematics :: Subject where
  "mathematics = \<lparr>sub_id = ''1'', sub_name = ''Mathematics'', sub_code = ''MATH'', sub_color = ''#3b82f6''\<rparr>"

definition art :: Subject where
  "art = \<lparr>sub_id = ''6'', sub_name = ''Art'', sub_code = ''ART'', sub_color = ''#ec4899''\<rparr>"

definition grade9A :: ClassSection where
  "grade9A = \<lparr>cs_id = ''1'', cs_name = ''Grade 9A'', cs_gradeId = ''9'', cs_studentCount = 30\<rparr>"

definition grade9B :: ClassSection where
  "grade9B = \<lparr>cs_id = ''2'', cs_name = ''Grade 9B'', cs_gradeId = ''9'', cs_studentCount = 28\<rparr>"

definition grade10A :: ClassSection where
  "grade10A = \<lparr>cs_id = ''3'', cs_name = ''Grade 10A'', cs_gradeId = ''10'', cs_studentCount = 32\<rparr>"

definition grade10B :: ClassSection where
  "grade10B = \<lparr>cs_id = ''4'', cs_name = ''Grade 10B'', cs_gradeId = ''10'', cs_studentCount = 29\<rparr>"

definition grade11A :: ClassSection where
  "grade11A = \<lparr>cs_id = ''5'', cs_name = ''Grade 11A'', cs_gradeId = ''11'', cs_studentCount = 25\<rparr>"

definition sarahJohnson :: Teacher where
  "sarahJohnson = \<lparr>t_id = ''1'', t_name = ''Dr. Sarah Johnson'', t_email = ''sarah.johnson@school.edu'',
     t_subjects = [''1'', ''3''], t_weeklyHourLimit = 25, t_currentWeeklyHours = 0\<rparr>"

definition michaelBrown :: Teacher where
  "michaelBrown = \<lparr>t_id = ''4'', t_name = ''Prof. Michael Brown'', t_email = ''michael.brown@school.edu'',
     t_subjects = [''8''], t_weeklyHourLimit = 20, t_currentWeeklyHours = 0\<rparr>"

definition mathPreference :: SubjectRoomType where
  "mathPreference = \<lparr>srt_id = ''1'', srt_subjectId = ''1'', srt_roomTypeId = ''1'', srt_priority = 1,
     srt_isRequired = False, srt_createdAt = ''2024-01-01T00:00:00Z'',
     srt_updatedAt = ''2024-01-01T00:00:00Z''\<rparr>"

definition classroom :: "string \<Rightarrow> string \<Rightarrow> string \<Rightarrow> nat \<Rightarrow> string list \<Rightarrow> Classroom" where
  "classroom i n ty cap fs =
     \<lparr>cr_id = i, cr_name = n, cr_code = n, cr_roomTypeId = ty, cr_capacity = cap, cr_floor = ''1'',
      cr_building = ''Main'', cr_features = fs, cr_equipment = [], cr_isActive = True, cr_notes = [],
      cr_createdAt = ''2024-01-01T00:00:00Z'', cr_updatedAt = ''2024-01-01T00:00:00Z''\<rparr>"

definition room101 :: Classroom where
  "room101 = classroom ''r1'' ''Room 101'' ''1'' 35 [''Projector'', ''Whiteboard'']"

definition room102 :: Classroom where
  "room102 = classroom ''r2'' ''Room 102'' ''1'' 35 [''Projector'', ''Whiteboard'']"

definition hall :: Classroom where
  "hall = classroom ''r3'' ''Hall'' ''7'' 100 [''Projector'', ''Whiteboard'']"

definition lesson :: "string \<Rightarrow> string \<Rightarrow> string \<Rightarrow> string \<Rightarrow> string \<Rightarrow> nat \<Rightarrow> TimetableEntry" where
  "lesson i c t s d p =
     \<lparr>te_id = i, te_classId = c, te_teacherId = t, te_subjectId = s, te_roomId = None,
      te_timeSlotId = [], te_day = d, te_period = p\<rparr>"

text \<open>Five mathematics lessons of five classes on Monday, period 1; three active rooms; no room assigned yet.\<close>

definition mondayFirst :: "TimetableEntry list" where
  "mondayFirst =
     [lesson ''e1'' ''1'' ''1'' ''1'' ''Monday'' 1,
      lesson ''e2'' ''2'' ''2'' ''1'' ''Monday'' 1,
      lesson ''e3'' ''3'' ''3'' ''1'' ''Monday'' 1,
      lesson ''e4'' ''4'' ''4'' ''1'' ''Monday'' 1,
      lesson ''e5'' ''5'' ''5'' ''1'' ''Monday'' 1]"

definition exhaustion :: engine where
  "exhaustion =
     \<lparr>subjects = [mathematics],
      classSections = [grade9A, grade9B, grade10A, grade10B, grade11A],
      classrooms = [room101, room102, hall],
      subjectRoomTypes = [mathPreference],
      timetableEntries = mondayFirst,
      roomAssignments = []\<rparr>"

text \<open>The same timetable after the first lesson was given Room 101 by hand.\<close>

definition firstBooked :: RoomAssignment where
  "firstBooked =
     \<lparr>ra_id = ''manual-e1'', ra_timetableEntryId = ''e1'', ra_roomId = ''r1'', ra_isAutoAssigned = False,
      ra_assignedAt = ''2024-01-01T00:00:00Z'', ra_assignedBy = ''user'', ra_conflictStatus = StatusNone\<rparr>"

definition booked :: engine where
  "booked = exhaustion\<lparr>roomAssignments := [firstBooked]\<rparr>"

text \<open>\<^verbatim>\<open>defaultClassSubjectTeachers\<close> of \<^verbatim>\<open>src/lib/teacher-assignment-data.ts\<close>.\<close>

definition binding :: "string \<Rightarrow> string \<Rightarrow> string \<Rightarrow> string \<Rightarrow> ClassSubjectTeacher" where
  "binding i c s t =
     \<lparr>cst_id = i, cst_classId = c, cst_subjectId = s, cst_teacherId = t, cst_isActive = True,
      cst_createdAt = ''2024-01-01T00:00:00Z'', cst_updatedAt = ''2024-01-01T00:00:00Z''\<rparr>"

definition defaultClassSubjectTeachers :: "ClassSubjectTeacher list" where
  "defaultClassSubjectTeachers =
     [binding ''1'' ''1'' ''1'' ''1'', binding ''2'' ''1'' ''2'' ''2'', binding ''3'' ''1'' ''3'' ''1'',
      binding ''4'' ''1'' ''4'' ''3'', binding ''5'' ''1'' ''5'' ''5'', binding ''6'' ''2'' ''1'' ''1'',
      binding ''7'' ''2'' ''2'' ''2'', binding ''8'' ''2'' ''8'' ''4'']"

text \<open>
  A grid for class Grade 9A (id 1) of grade 9, which has Mathematics allocated with five
  weekly hours and nothing else; the teaching assignments are the default ones; no
  lesson is placed yet. Mathematics is the selected subject.
\<close>

definition classView :: grid where
  "classView =
     \<lparr>g_subjects = [mathematics, art],
      g_classSections = [grade9A, grade9B],
      g_teachers = [sarahJohnson, michaelBrown],
      g_rooms = [],
      g_allocations =
        [\<lparr>al_id = ''1'', al_gradeId = ''9'', al_subjectId = ''1'', al_weeklyHours = 5,
          al_semesterWeeks = 18, al_totalHours = 90\<rparr>],
      g_assignments = defaultClassSubjectTeachers,
      g_viewMode = ClassMode,
      g_selectedEntity = ''1'',
      g_timetableEntries = [],
      g_conflicts = [],
      g_selectedSubject = Some ''1'',
      g_timeSlots =
        [\<lparr>ts_id = ''1'', ts_day = ''Monday'', ts_period = 1, ts_startTime = ''08:00'', ts_endTime = ''08:45''\<rparr>,
         \<lparr>ts_id = ''2'', ts_day = ''Monday'', ts_period = 2, ts_startTime = ''08:50'', ts_endTime = ''09:35''\<rparr>],
      g_periodDuration = 45\<rparr>"

text \<open>The same grid in teacher view, for Dr. Sarah Johnson (id 1), who teaches Mathematics.\<close>

definition teacherView :: grid where
  "teacherView = classView\<lparr>g_viewMode := TeacherMode\<rparr>"

text \<open>The class view with Art selected, a subject that grade 9 has no allocation for.\<close>

definition artSelected :: grid where
  "artSelected = classView\<lparr>g_selectedSubject := Some ''6''\<rparr>"

text \<open>
  The class view with three lessons placed: Mathematics for Grade 9A on Monday, period
  1, and on Tuesday, period 2, and a lesson of Grade 9B on Monday, period 3. Grade 9A
  has 1.5 of its 5 hours of Mathematics, 30 percent.
\<close>

definition partlyScheduled :: grid where
  "partlyScheduled =
     classView\<lparr>g_timetableEntries :=
       [lesson ''m1'' ''1'' ''1'' ''1'' ''Monday'' 1,
        lesson ''m2'' ''1'' ''1'' ''1'' ''Tuesday'' 2,
        lesson ''x1'' ''2'' ''1'' ''1'' ''Monday'' 3]\<rparr>"

text \<open>
  The class view with seven lessons of Mathematics placed for Grade 9A: 5.25 hours
  against 5 required, 105 percent. Eighteen slots of the class are free.
\<close>

definition mathematicsComplete :: grid where
  "mathematicsComplete =
     classView\<lparr>g_timetableEntries :=
       [lesson ''m1'' ''1'' ''1'' ''1'' ''Monday'' 1,
        lesson ''m2'' ''1'' ''1'' ''1'' ''Monday'' 2,
        lesson ''m3'' ''1'' ''1'' ''1'' ''Monday'' 3,
        lesson ''m4'' ''1'' ''1'' ''1'' ''Monday'' 4,
        lesson ''m5'' ''1'' ''1'' ''1'' ''Monday'' 5,
        lesson ''m6'' ''1'' ''1'' ''1'' ''Tuesday'' 1,
        lesson ''m7'' ''1'' ''1'' ''1'' ''Tuesday'' 2]\<rparr>"

text \<open>The grid with the lessons of \<^const>\<open>partlyScheduled\<close> and the key \<^verbatim>\<open>constructor\<close> selected, which is the id of no subject.\<close>

definition constructorSelected :: grid where
  "constructorSelected = partlyScheduled\<lparr>g_selectedSubject := Some ''constructor''\<rparr>"

text \<open>The class view with no subject selected.\<close>

definition nothingSelected :: grid where
  "nothingSelected = partlyScheduled\<lparr>g_selectedSubject := None\<rparr>"

text \<open>
  A class view whose only subject has the id \<^verbatim>\<open>__proto__\<close>, allocated to grade 9 with
  five weekly hours, and no lesson placed; the key \<^verbatim>\<open>total\<close> is selected, and in the
  second grid the key \<^verbatim>\<open>scheduled\<close>.
\<close>

definition prototypeTotal :: grid where
  "prototypeTotal =
     classView\<lparr>g_subjects := [mathematics\<lparr>sub_id := ''__proto__''\<rparr>],
               g_allocations :=
                 [\<lparr>al_id = ''1'', al_gradeId = ''9'', al_subjectId = ''__proto__'', al_weeklyHours = 5,
                   al_semesterWeeks = 18, al_totalHours = 90\<rparr>],
               g_selectedSubject := Some ''total''\<rparr>"

definition prototypeScheduled :: grid where
  "prototypeScheduled = prototypeTotal\<lparr>g_selectedSubject := Some ''scheduled''\<rparr>"

text \<open>One room of the preferred type, with both features, much larger than the class.\<close>

definition auditorium :: Classroom where
  "auditorium = classroom ''r4'' ''Auditorium'' ''1'' 100 [''Projector'', ''Whiteboard'']"

definition oversized :: engine where
  "oversized = exhaustion\<lparr>classrooms := [auditorium]\<rparr>"

text \<open>
  Thirty lessons of Prof. Michael Brown (id 4, weekly limit 20 hours): six periods on
  each of the five days.
\<close>

definition thirtyLessons :: "TimetableEntry list" where
  "thirtyLessons =
     [lesson (day @ [digit p]) ''1'' ''4'' ''8'' day p. day \<leftarrow> DAYS, p \<leftarrow> [1, 2, 3, 4, 5, 6]]"

section \<open>Properties of the room assignment engine\<close>

lemma assignEntry_extends:
  "\<exists>added. assignEntry st now acc entry = acc @ added \<and>
     (\<forall>a\<in>set added. ra_timetableEntryId a = te_id entry \<and>
        te_id entry \<notin> ra_timetableEntryId ` set (roomAssignments st))"
  by (auto simp: assignEntry_def list_ex_iff split: list.splits)

lemma foldl_assignEntry_extends:
  "\<exists>added. foldl (assignEntry st now) acc es = acc @ added \<and>
     (\<forall>a\<in>set added. ra_timetableEntryId a \<in> te_id ` set es \<and>
        ra_timetableEntryId a \<notin> ra_timetableEntryId ` set (roomAssignments st))"
proof (induction es arbitrary: acc)
  case Nil
  show ?case by simp
next
  case (Cons e es)
  obtain a1 where a1: "assignEntry st now acc e = acc @ a1"
    and p1: "\<forall>a\<in>set a1. ra_timetableEntryId a = te_id e \<and>
        te_id e \<notin> ra_timetableEntryId ` set (roomAssignments st)"
    using assignEntry_extends by blast
  obtain a2 where a2: "foldl (assignEntry st now) (acc @ a1) es = (acc @ a1) @ a2"
    and p2: "\<forall>a\<in>set a2. ra_timetableEntryId a \<in> te_id ` set es \<and>
        ra_timetableEntryId a \<notin> ra_timetableEntryId ` set (roomAssignments st)"
    using Cons.IH by blast
  have "foldl (assignEntry st now) acc (e # es) = acc @ (a1 @ a2)"
    using a1 a2 by simp
  moreover have "\<forall>a\<in>set (a1 @ a2). ra_timetableEntryId a \<in> te_id ` set (e # es) \<and>
        ra_timetableEntryId a \<notin> ra_timetableEntryId ` set (roomAssignments st)"
    using p1 p2 by fastforce
  ultimately show ?case by blast
qed

text \<open>
  Claim C10. \<^verbatim>\<open>autoAssignRooms\<close> keeps the existing assignments as they are, in
  their order, and only appends assignments; every appended assignment belongs to an
  entry of the timetable that had no assignment before the call.
\<close>

theorem autoAssignRooms_frame:
  "\<exists>newAssignments.
     autoAssignRooms st now = roomAssignments st @ newAssignments \<and>
     (\<forall>a\<in>set newAssignments.
        ra_timetableEntryId a \<in> te_id ` set (timetableEntries st) \<and>
        ra_timetableEntryId a \<notin> ra_timetableEntryId ` set (roomAssignments st))"
  unfolding autoAssignRooms_def Let_def
  using foldl_assignEntry_extends [of st now "[]" "timetableEntries st"] by simp

lemmas example_defs =
  exhaustion_def booked_def firstBooked_def mondayFirst_def lesson_def room101_def room102_def hall_def
  classroom_def mathPreference_def grade9A_def grade9B_def grade10A_def grade10B_def grade11A_def
  mathematics_def art_def sarahJohnson_def michaelBrown_def

lemmas scorer_defs =
  generateRoomSuggestions_def subjectRoomPreferences_def availableRooms_def occupiedRooms_def
  scoreRoom_def checkFeatures_def checkCapacity_def checkRoomType_def requiredFeatures_def

theorem autoAssignRooms_frame_witness:
  "(\<exists>newAssignments.
      autoAssignRooms booked ''2024-01-02T00:00:00Z'' = roomAssignments booked @ newAssignments \<and>
      (\<forall>a\<in>set newAssignments.
         ra_timetableEntryId a \<in> te_id ` set (timetableEntries booked) \<and>
         ra_timetableEntryId a \<notin> ra_timetableEntryId ` set (roomAssignments booked))) \<and>
   map ra_timetableEntryId (autoAssignRooms booked ''2024-01-02T00:00:00Z'')
     = [''e1'', ''e2'', ''e3'', ''e4'', ''e5''] \<and>
   hd (autoAssignRooms booked ''2024-01-02T00:00:00Z'') = firstBooked"
proof -
  have run: "map ra_timetableEntryId (autoAssignRooms booked ''2024-01-02T00:00:00Z'')
               = [''e1'', ''e2'', ''e3'', ''e4'', ''e5''] \<and>
             hd (autoAssignRooms booked ''2024-01-02T00:00:00Z'') = firstBooked"
    by (simp add: autoAssignRooms_def assignEntry_def scorer_defs example_defs)
  show ?thesis
    using autoAssignRooms_frame [of booked "''2024-01-02T00:00:00Z''"] run by blast
qed

text \<open>
  Claim C1, at the scenario of the specification: five lessons at the same slot, none
  with a room, three active rooms. Every lesson is scored against the assignments that
  existed before the call, so Room 101 is free for each of them: the call creates five
  assignments, all to Room 101, where the claim has three assignments to three rooms.
\<close>

theorem autoAssignRooms_exhaustion:
  "map (\<lambda>a. (ra_timetableEntryId a, ra_roomId a)) (autoAssignRooms exhaustion now)
     = [(''e1'', ''r1''), (''e2'', ''r1''), (''e3'', ''r1''), (''e4'', ''r1''), (''e5'', ''r1'')]"
  by (simp add: autoAssignRooms_def assignEntry_def scorer_defs example_defs)

section \<open>The decimal rendering determines the number\<close>

lemma digit_inj: "a < 10 \<Longrightarrow> b < 10 \<Longrightarrow> digit a = digit b \<Longrightarrow> a = b"
proof -
  assume a: "a < 10" and b: "b < 10" and e: "digit a = digit b"
  have "distinct ''0123456789''" by simp
  moreover have "a < length ''0123456789''" "b < length ''0123456789''" using a b by simp_all
  ultimately show "a = b" using e unfolding digit_def by (simp only: nth_eq_iff_index_eq)
qed

lemma digit_not_dash: "d < 10 \<Longrightarrow> digit d \<noteq> CHR ''-''"
proof
  assume d: "d < 10" and e: "digit d = CHR ''-''"
  have "d < length ''0123456789''" using d by simp
  then have "''0123456789'' ! d \<in> set ''0123456789''" by (rule nth_mem)
  then have "CHR ''-'' \<in> set ''0123456789''" using e by (simp only: digit_def)
  then show False by simp
qed

lemma show_nat_not_Nil: "show_nat n \<noteq> []"
  by (subst show_nat.simps) simp

lemma show_nat_small: "n < 10 \<Longrightarrow> show_nat n = [digit n]"
  by (subst show_nat.simps) simp

lemma show_nat_large: "\<not> n < 10 \<Longrightarrow> show_nat n = show_nat (n div 10) @ [digit (n mod 10)]"
  by (subst show_nat.simps) simp

lemma dash_notin_show_nat: "CHR ''-'' \<notin> set (show_nat n)"
proof (induction n rule: show_nat.induct)
  case (1 n)
  show ?case
  proof (cases "n < 10")
    case True
    then show ?thesis using digit_not_dash [of n] by (simp add: show_nat_small)
  next
    case False
    have "n mod 10 < 10" by simp
    then have "digit (n mod 10) \<noteq> CHR ''-''" by (rule digit_not_dash)
    with False 1 show ?thesis by (simp add: show_nat_large)
  qed
qed

lemma show_nat_inj: "show_nat m = show_nat n \<Longrightarrow> m = n"
proof (induction m arbitrary: n rule: show_nat.induct)
  case (1 m)
  show ?case
  proof (cases "m < 10")
    case m: True
    show ?thesis
    proof (cases "n < 10")
      case True
      with m 1(2) show ?thesis
        using digit_inj by (simp add: show_nat_small)
    next
      case False
      with m 1(2) show_nat_not_Nil [of "n div 10"] show ?thesis
        by (simp add: show_nat_small show_nat_large)
    qed
  next
    case m: False
    show ?thesis
    proof (cases "n < 10")
      case True
      with m 1(2) show_nat_not_Nil [of "m div 10"] show ?thesis
        by (simp add: show_nat_small show_nat_large)
    next
      case False
      with m 1(2) have eq: "show_nat (m div 10) = show_nat (n div 10)"
        and d: "digit (m mod 10) = digit (n mod 10)"
        by (simp_all add: show_nat_large)
      from eq m 1(1) have "m div 10 = n div 10" by blast
      moreover have "m mod 10 = n mod 10" using d digit_inj [of "m mod 10" "n mod 10"] by simp
      ultimately show ?thesis by (metis div_mult_mod_eq)
    qed
  qed
qed

lemma split_at_last:
  assumes "c \<notin> set s" "c \<notin> set s'" "a @ c # s = a' @ c # s'"
  shows "a = a' \<and> s = s'"
  using assms
proof (induction a arbitrary: a')
  case Nil
  then show ?case by (cases a') auto
next
  case (Cons x a)
  then show ?case by (cases a') auto
qed

lemma slotKey_inj: "slotKey d p = slotKey d' p' \<longleftrightarrow> d = d' \<and> p = p'"
proof
  assume "slotKey d p = slotKey d' p'"
  then have eq: "d @ CHR ''-'' # show_nat p = d' @ CHR ''-'' # show_nat p'"
    unfolding slotKey_def by (simp only: append_Cons append_Nil)
  have "d = d' \<and> show_nat p = show_nat p'"
    by (rule split_at_last [OF dash_notin_show_nat dash_notin_show_nat eq])
  then show "d = d' \<and> p = p'" using show_nat_inj by blast
next
  assume "d = d' \<and> p = p'"
  then show "slotKey d p = slotKey d' p'" by simp
qed

section \<open>Properties of the teaching assignment table\<close>

lemma active_removeAssignment:
  "filter cst_isActive (removeAssignment assignments i stamp)
     = filter (\<lambda>a. cst_id a \<noteq> i) (filter cst_isActive assignments)"
  by (induction assignments) (auto simp: removeAssignment_def)

lemma removeAssignment_invariant:
  "oneActivePerPair assignments \<Longrightarrow> oneActivePerPair (removeAssignment assignments i stamp)"
  unfolding oneActivePerPair_def active_removeAssignment by (rule distinct_map_filter)

lemma active_reassign:
  "map (\<lambda>a. (cst_classId a, cst_subjectId a))
     (filter cst_isActive
        (map (\<lambda>a. if cst_id a = i then a\<lparr>cst_teacherId := t, cst_updatedAt := stamp\<rparr> else a) assignments))
   = map (\<lambda>a. (cst_classId a, cst_subjectId a)) (filter cst_isActive assignments)"
  by (induction assignments) auto

lemma addAssignment_invariant:
  assumes "oneActivePerPair assignments" "addAssignment assignments c s t nowMs nowIso = Inr updated"
  shows "oneActivePerPair updated"
proof (cases "find (\<lambda>a. cst_classId a = c \<and> cst_subjectId a = s \<and> cst_isActive a) assignments")
  case None
  then have "(c, s) \<notin> set (map (\<lambda>a. (cst_classId a, cst_subjectId a)) (filter cst_isActive assignments))"
    by (auto simp: find_None_iff)
  with assms None show ?thesis
    by (auto simp: addAssignment_def oneActivePerPair_def split: if_splits)
next
  case (Some ex)
  with assms show ?thesis
    by (auto simp: addAssignment_def oneActivePerPair_def active_reassign split: if_splits)
qed

lemma applyOp_invariant:
  "oneActivePerPair assignments \<Longrightarrow> oneActivePerPair (applyOp assignments op)"
proof (cases op)
  case (Add c s t nowMs nowIso)
  assume inv: "oneActivePerPair assignments"
  show ?thesis
  proof (cases "addAssignment assignments c s t nowMs nowIso")
    case (Inl e)
    with Add inv show ?thesis by simp
  next
    case (Inr updated)
    with Add inv addAssignment_invariant [OF inv Inr] show ?thesis by simp
  qed
next
  case (Remove i stamp)
  assume "oneActivePerPair assignments"
  with Remove show ?thesis by (simp add: removeAssignment_invariant)
qed

lemma foldl_applyOp_invariant:
  "oneActivePerPair assignments \<Longrightarrow> oneActivePerPair (foldl applyOp assignments ops)"
  by (induction ops arbitrary: assignments) (simp_all add: applyOp_invariant)

lemma find_reassign:
  assumes "find (\<lambda>a. cst_classId a = c \<and> cst_subjectId a = s \<and> cst_isActive a) assignments = Some existing"
  shows "find (\<lambda>a. cst_classId a = c \<and> cst_subjectId a = s \<and> cst_isActive a)
           (map (\<lambda>a. if cst_id a = cst_id existing
                       then a\<lparr>cst_teacherId := t, cst_updatedAt := stamp\<rparr> else a) assignments)
         = Some (existing\<lparr>cst_teacherId := t, cst_updatedAt := stamp\<rparr>)"
  using assms by (induction assignments) (auto split: if_splits)


lemma addAssignment_in_place:
  assumes "find (\<lambda>a. cst_classId a = c \<and> cst_subjectId a = s \<and> cst_isActive a) assignments = Some existing"
    and "c \<noteq> []" "s \<noteq> []" "t \<noteq> []"
  shows "\<exists>updated. addAssignment assignments c s t nowMs stamp = Inr updated \<and>
           length updated = length assignments \<and>
           map cst_isActive updated = map cst_isActive assignments \<and>
           find (\<lambda>a. cst_classId a = c \<and> cst_subjectId a = s \<and> cst_isActive a) updated
             = Some (existing\<lparr>cst_teacherId := t, cst_updatedAt := stamp\<rparr>)"
proof -
  let ?upd = "map (\<lambda>a. if cst_id a = cst_id existing
                       then a\<lparr>cst_teacherId := t, cst_updatedAt := stamp\<rparr> else a) assignments"
  have "addAssignment assignments c s t nowMs stamp = Inr ?upd"
    using assms by (simp add: addAssignment_def)
  moreover have "length ?upd = length assignments" by simp
  moreover have "map cst_isActive ?upd = map cst_isActive assignments"
    by (induction assignments) auto
  ultimately show ?thesis using find_reassign [OF assms(1)] by blast
qed

lemma removeAssignment_keeps_rows:
  "map (\<lambda>a. (cst_id a, cst_classId a, cst_subjectId a, cst_teacherId a, cst_createdAt a))
     (removeAssignment assignments i stamp)
   = map (\<lambda>a. (cst_id a, cst_classId a, cst_subjectId a, cst_teacherId a, cst_createdAt a)) assignments"
  by (induction assignments) (auto simp: removeAssignment_def)

lemma removeAssignment_deactivates:
  "list_all (\<lambda>a. cst_id a = i \<longrightarrow> \<not> cst_isActive a) (removeAssignment assignments i stamp)"
  by (induction assignments) (simp_all add: removeAssignment_def)

lemma no_active_after_remove:
  assumes inv: "oneActivePerPair assignments"
    and ex: "find (\<lambda>a. cst_classId a = c \<and> cst_subjectId a = s \<and> cst_isActive a) assignments = Some existing"
  shows "find (\<lambda>a. cst_classId a = c \<and> cst_subjectId a = s \<and> cst_isActive a)
           (removeAssignment assignments (cst_id existing) stamp) = None"
proof (rule ccontr)
  assume "find (\<lambda>a. cst_classId a = c \<and> cst_subjectId a = s \<and> cst_isActive a)
           (removeAssignment assignments (cst_id existing) stamp) \<noteq> None"
  then obtain a where a: "a \<in> set (removeAssignment assignments (cst_id existing) stamp)"
    "cst_classId a = c" "cst_subjectId a = s" "cst_isActive a"
    by (auto simp: find_None_iff)
  from a(1,4) have "a \<in> set (filter cst_isActive (removeAssignment assignments (cst_id existing) stamp))"
    by simp
  then have a_in: "a \<in> set (filter cst_isActive assignments)" and a_id: "cst_id a \<noteq> cst_id existing"
    by (simp_all add: active_removeAssignment)
  from ex have e_in: "existing \<in> set (filter cst_isActive assignments)"
    and e_key: "cst_classId existing = c" "cst_subjectId existing = s"
    by (auto simp: find_Some_iff)
  from inv have "inj_on (\<lambda>a. (cst_classId a, cst_subjectId a)) (set (filter cst_isActive assignments))"
    unfolding oneActivePerPair_def by (simp only: distinct_map)
  with a_in e_in a(2,3) e_key have "a = existing" by (auto dest: inj_onD)
  with a_id show False by simp
qed


lemma remove_then_add:
  assumes inv: "oneActivePerPair assignments"
    and ex: "find (\<lambda>a. cst_classId a = c \<and> cst_subjectId a = s \<and> cst_isActive a) assignments = Some existing"
    and sel: "c \<noteq> []" "s \<noteq> []" "t \<noteq> []"
  shows "addAssignment (removeAssignment assignments (cst_id existing) stamp) c s t nowMs stamp'
         = Inr (removeAssignment assignments (cst_id existing) stamp @
                  [\<lparr>cst_id = show_nat nowMs, cst_classId = c, cst_subjectId = s, cst_teacherId = t,
                    cst_isActive = True, cst_createdAt = stamp', cst_updatedAt = stamp'\<rparr>])"
  using no_active_after_remove [OF inv ex] sel by (simp add: addAssignment_def)


text \<open>
  Claim C9, as the code has it. From a table with at most one active row per (class,
  subject), every sequence of \<^verbatim>\<open>addAssignment\<close> and \<^verbatim>\<open>removeAssignment\<close>
  leaves at most one active row per pair. \<^verbatim>\<open>addAssignment\<close> for a pair that has an
  active row overwrites the teacher of that row in place: no row is added and none is
  deactivated. \<^verbatim>\<open>removeAssignment\<close> keeps every row and only clears the flag of
  the rows with the given id; adding the pair again after that appends a new active row
  beside the inactive old one.
\<close>

theorem teaching_table_one_active_per_pair:
  assumes "oneActivePerPair assignments"
  shows "oneActivePerPair (foldl applyOp assignments ops) \<and>
    (\<forall>existing.
       find (\<lambda>a. cst_classId a = c \<and> cst_subjectId a = s \<and> cst_isActive a) assignments = Some existing \<and>
       c \<noteq> [] \<and> s \<noteq> [] \<and> t \<noteq> [] \<longrightarrow>
       (\<exists>updated. addAssignment assignments c s t nowMs stamp = Inr updated \<and>
          length updated = length assignments \<and>
          map cst_isActive updated = map cst_isActive assignments \<and>
          find (\<lambda>a. cst_classId a = c \<and> cst_subjectId a = s \<and> cst_isActive a) updated
            = Some (existing\<lparr>cst_teacherId := t, cst_updatedAt := stamp\<rparr>)) \<and>
       addAssignment (removeAssignment assignments (cst_id existing) stamp) c s t nowMs stamp
         = Inr (removeAssignment assignments (cst_id existing) stamp @
                  [\<lparr>cst_id = show_nat nowMs, cst_classId = c, cst_subjectId = s, cst_teacherId = t,
                    cst_isActive = True, cst_createdAt = stamp, cst_updatedAt = stamp\<rparr>])) \<and>
    map (\<lambda>a. (cst_id a, cst_classId a, cst_subjectId a, cst_teacherId a, cst_createdAt a))
      (removeAssignment assignments i stamp)
      = map (\<lambda>a. (cst_id a, cst_classId a, cst_subjectId a, cst_teacherId a, cst_createdAt a)) assignments \<and>
    list_all (\<lambda>a. cst_id a = i \<longrightarrow> \<not> cst_isActive a) (removeAssignment assignments i stamp)"
proof (intro conjI allI impI)
  show "oneActivePerPair (foldl applyOp assignments ops)"
    by (rule foldl_applyOp_invariant [OF assms])
next
  fix existing
  assume a: "find (\<lambda>a. cst_classId a = c \<and> cst_subjectId a = s \<and> cst_isActive a) assignments = Some existing \<and>
       c \<noteq> [] \<and> s \<noteq> [] \<and> t \<noteq> []"
  then have f: "find (\<lambda>a. cst_classId a = c \<and> cst_subjectId a = s \<and> cst_isActive a) assignments = Some existing"
    and sel: "c \<noteq> []" "s \<noteq> []" "t \<noteq> []" by simp_all
  show "\<exists>updated. addAssignment assignments c s t nowMs stamp = Inr updated \<and>
          length updated = length assignments \<and>
          map cst_isActive updated = map cst_isActive assignments \<and>
          find (\<lambda>a. cst_classId a = c \<and> cst_subjectId a = s \<and> cst_isActive a) updated
            = Some (existing\<lparr>cst_teacherId := t, cst_updatedAt := stamp\<rparr>)"
    by (rule addAssignment_in_place [OF f sel])
  show "addAssignment (removeAssignment assignments (cst_id existing) stamp) c s t nowMs stamp
         = Inr (removeAssignment assignments (cst_id existing) stamp @
                  [\<lparr>cst_id = show_nat nowMs, cst_classId = c, cst_subjectId = s, cst_teacherId = t,
                    cst_isActive = True, cst_createdAt = stamp, cst_updatedAt = stamp\<rparr>])"
    by (rule remove_then_add [OF assms f sel])
next
  show "map (\<lambda>a. (cst_id a, cst_classId a, cst_subjectId a, cst_teacherId a, cst_createdAt a))
      (removeAssignment assignments i stamp)
      = map (\<lambda>a. (cst_id a, cst_classId a, cst_subjectId a, cst_teacherId a, cst_createdAt a)) assignments"
    by (rule removeAssignment_keeps_rows)
next
  show "list_all (\<lambda>a. cst_id a = i \<longrightarrow> \<not> cst_isActive a) (removeAssignment assignments i stamp)"
    by (rule removeAssignment_deactivates)
qed

theorem teaching_table_one_active_per_pair_witness:
  "oneActivePerPair defaultClassSubjectTeachers \<and>
   oneActivePerPair
     (foldl applyOp defaultClassSubjectTeachers
        [Add ''1'' ''1'' ''2'' 1700000000000 ''2024-02-01T00:00:00Z'',
         Remove ''2'' ''2024-02-02T00:00:00Z'',
         Add ''1'' ''2'' ''3'' 1700000000001 ''2024-02-03T00:00:00Z''])"
proof -
  have h: "oneActivePerPair defaultClassSubjectTeachers"
    by (simp add: oneActivePerPair_def defaultClassSubjectTeachers_def binding_def)
  from teaching_table_one_active_per_pair [OF h]
  have "oneActivePerPair
     (foldl applyOp defaultClassSubjectTeachers
        [Add ''1'' ''1'' ''2'' 1700000000000 ''2024-02-01T00:00:00Z'',
         Remove ''2'' ''2024-02-02T00:00:00Z'',
         Add ''1'' ''2'' ''3'' 1700000000001 ''2024-02-03T00:00:00Z''])"
    by (rule conjunct1)
  with h show ?thesis by (rule conjI)
qed

text \<open>
  Claim C9 as stated fails: reassigning the pair (class 1, subject 1) from teacher 1 to
  teacher 2 leaves a single row, still active, now naming teacher 2. No inactive row
  keeps the previous binding.
\<close>

theorem reassign_overwrites_counterexample:
  "addAssignment [binding ''1'' ''1'' ''1'' ''1''] ''1'' ''1'' ''2'' 1700000000000 ''2024-02-01T00:00:00Z''
     = Inr [\<lparr>cst_id = ''1'', cst_classId = ''1'', cst_subjectId = ''1'', cst_teacherId = ''2'',
             cst_isActive = True, cst_createdAt = ''2024-01-01T00:00:00Z'',
             cst_updatedAt = ''2024-02-01T00:00:00Z''\<rparr>]"
  by (simp add: addAssignment_def binding_def)

section \<open>Manual room assignment\<close>

lemma conflictingAssignment_None_iff:
  "conflictingAssignment st selectedEntry manualRoomSelection = None \<longleftrightarrow>
     \<not> (\<exists>ra\<in>set (roomAssignments st). \<exists>entry.
          find (\<lambda>te. te_id te = ra_timetableEntryId ra) (timetableEntries st) = Some entry \<and>
          ra_roomId ra = manualRoomSelection \<and>
          te_day entry = te_day selectedEntry \<and> te_period entry = te_period selectedEntry)"
  unfolding conflictingAssignment_def find_None_iff
  by (auto split: option.splits)

lemma conflictingAssignment_Some_iff:
  "conflictingAssignment st selectedEntry manualRoomSelection \<noteq> None \<longleftrightarrow>
     (\<exists>ra\<in>set (roomAssignments st). \<exists>entry.
          find (\<lambda>te. te_id te = ra_timetableEntryId ra) (timetableEntries st) = Some entry \<and>
          ra_roomId ra = manualRoomSelection \<and>
          te_day entry = te_day selectedEntry \<and> te_period entry = te_period selectedEntry)"
  unfolding conflictingAssignment_None_iff by (rule not_not)

lemma saveManualAssignment_cases:
  assumes "manualRoomSelection \<noteq> []"
  shows "saveManualAssignment st now (Some selectedEntry) manualRoomSelection =
     (if conflictingAssignment st selectedEntry manualRoomSelection = None
      then Inr (filter (\<lambda>ra. ra_timetableEntryId ra \<noteq> te_id selectedEntry) (roomAssignments st) @
                  [\<lparr>ra_id = ''manual-'' @ te_id selectedEntry,
                    ra_timetableEntryId = te_id selectedEntry,
                    ra_roomId = manualRoomSelection,
                    ra_isAutoAssigned = False,
                    ra_assignedAt = now,
                    ra_assignedBy = ''user'',
                    ra_conflictStatus = StatusNone\<rparr>])
      else Inl RoomOccupied)"
  using assms by (simp add: saveManualAssignment_def split: option.splits)

text \<open>
  Claim C8, as the code has it. With a room chosen, \<^verbatim>\<open>saveManualAssignment\<close>
  refuses with the alert exactly when some assignment of the state, of any entry and
  the selected entry's own one included, whose entry is in the timetable, names the
  chosen room at the selected entry's day and period. The refusal leaves the state as
  it is. Otherwise the new state keeps the assignments of the other entries as they
  are and holds exactly one assignment of the selected entry: the manual one.
\<close>

theorem saveManualAssignment_occupied:
  assumes "manualRoomSelection \<noteq> []"
  shows "(saveManualAssignment st now (Some selectedEntry) manualRoomSelection = Inl RoomOccupied \<longleftrightarrow>
           (\<exists>ra\<in>set (roomAssignments st). \<exists>entry.
              find (\<lambda>te. te_id te = ra_timetableEntryId ra) (timetableEntries st) = Some entry \<and>
              ra_roomId ra = manualRoomSelection \<and>
              te_day entry = te_day selectedEntry \<and> te_period entry = te_period selectedEntry)) \<and>
         (saveManualAssignment st now (Some selectedEntry) manualRoomSelection \<noteq> Inl RoomOccupied \<longrightarrow>
           (\<exists>updatedAssignments.
              saveManualAssignment st now (Some selectedEntry) manualRoomSelection = Inr updatedAssignments \<and>
              filter (\<lambda>ra. ra_timetableEntryId ra \<noteq> te_id selectedEntry) updatedAssignments
                = filter (\<lambda>ra. ra_timetableEntryId ra \<noteq> te_id selectedEntry) (roomAssignments st) \<and>
              filter (\<lambda>ra. ra_timetableEntryId ra = te_id selectedEntry) updatedAssignments
                = [\<lparr>ra_id = ''manual-'' @ te_id selectedEntry,
                    ra_timetableEntryId = te_id selectedEntry,
                    ra_roomId = manualRoomSelection,
                    ra_isAutoAssigned = False,
                    ra_assignedAt = now,
                    ra_assignedBy = ''user'',
                    ra_conflictStatus = StatusNone\<rparr>]))"
proof (cases "conflictingAssignment st selectedEntry manualRoomSelection = None")
  case True
  then have "\<not> conflictingAssignment st selectedEntry manualRoomSelection \<noteq> None" by simp
  then have free: "\<not> (\<exists>ra\<in>set (roomAssignments st). \<exists>entry.
              find (\<lambda>te. te_id te = ra_timetableEntryId ra) (timetableEntries st) = Some entry \<and>
              ra_roomId ra = manualRoomSelection \<and>
              te_day entry = te_day selectedEntry \<and> te_period entry = te_period selectedEntry)"
    unfolding conflictingAssignment_Some_iff .
  show ?thesis
    unfolding saveManualAssignment_cases [OF assms] using True free by simp
next
  case False
  then have taken: "\<exists>ra\<in>set (roomAssignments st). \<exists>entry.
              find (\<lambda>te. te_id te = ra_timetableEntryId ra) (timetableEntries st) = Some entry \<and>
              ra_roomId ra = manualRoomSelection \<and>
              te_day entry = te_day selectedEntry \<and> te_period entry = te_period selectedEntry"
    unfolding conflictingAssignment_Some_iff .
  show ?thesis
    unfolding saveManualAssignment_cases [OF assms] using False taken by simp
qed

theorem saveManualAssignment_occupied_witness:
  "''r2'' \<noteq> [] \<and>
   saveManualAssignment booked ''2024-01-02T00:00:00Z'' (Some (lesson ''e2'' ''2'' ''2'' ''1'' ''Monday'' 1)) ''r2''
     = Inr [firstBooked,
            \<lparr>ra_id = ''manual-e2'', ra_timetableEntryId = ''e2'', ra_roomId = ''r2'',
             ra_isAutoAssigned = False, ra_assignedAt = ''2024-01-02T00:00:00Z'',
             ra_assignedBy = ''user'', ra_conflictStatus = StatusNone\<rparr>] \<and>
   \<not> (\<exists>ra\<in>set (roomAssignments booked). \<exists>entry.
         find (\<lambda>te. te_id te = ra_timetableEntryId ra) (timetableEntries booked) = Some entry \<and>
         ra_roomId ra = ''r2'' \<and>
         te_day entry = te_day (lesson ''e2'' ''2'' ''2'' ''1'' ''Monday'' 1) \<and>
         te_period entry = te_period (lesson ''e2'' ''2'' ''2'' ''1'' ''Monday'' 1))"
proof -
  have h: "''r2'' \<noteq> ([] :: string)" by simp
  have run: "saveManualAssignment booked ''2024-01-02T00:00:00Z''
               (Some (lesson ''e2'' ''2'' ''2'' ''1'' ''Monday'' 1)) ''r2''
     = Inr [firstBooked,
            \<lparr>ra_id = ''manual-e2'', ra_timetableEntryId = ''e2'', ra_roomId = ''r2'',
             ra_isAutoAssigned = False, ra_assignedAt = ''2024-01-02T00:00:00Z'',
             ra_assignedBy = ''user'', ra_conflictStatus = StatusNone\<rparr>]"
    by (simp add: saveManualAssignment_def conflictingAssignment_def example_defs)
  then have ok: "saveManualAssignment booked ''2024-01-02T00:00:00Z''
               (Some (lesson ''e2'' ''2'' ''2'' ''1'' ''Monday'' 1)) ''r2'' \<noteq> Inl RoomOccupied"
    by simp
  from saveManualAssignment_occupied [OF h, of booked "''2024-01-02T00:00:00Z''"
      "lesson ''e2'' ''2'' ''2'' ''1'' ''Monday'' 1"] ok
  have "\<not> (\<exists>ra\<in>set (roomAssignments booked). \<exists>entry.
         find (\<lambda>te. te_id te = ra_timetableEntryId ra) (timetableEntries booked) = Some entry \<and>
         ra_roomId ra = ''r2'' \<and>
         te_day entry = te_day (lesson ''e2'' ''2'' ''2'' ''1'' ''Monday'' 1) \<and>
         te_period entry = te_period (lesson ''e2'' ''2'' ''2'' ''1'' ''Monday'' 1))"
    by blast
  with h run show ?thesis by blast
qed

text \<open>
  Claim C8 as stated fails: the only assignment of the state is the one of lesson e1
  itself, to Room 101, so no other entry occupies Room 101; choosing Room 101 for e1
  again is refused.
\<close>

theorem saveManualAssignment_own_room_counterexample:
  "roomAssignments booked = [firstBooked] \<and>
   ra_timetableEntryId firstBooked = te_id (lesson ''e1'' ''1'' ''1'' ''1'' ''Monday'' 1) \<and>
   saveManualAssignment booked ''2024-01-02T00:00:00Z'' (Some (lesson ''e1'' ''1'' ''1'' ''1'' ''Monday'' 1)) ''r1''
     = Inl RoomOccupied"
  by (simp add: saveManualAssignment_def conflictingAssignment_def example_defs)

section \<open>Properties of the valid slots\<close>

lemmas grid_example_defs = classView_def teacherView_def artSelected_def

lemma foldl_upd_None:
  "foldl (\<lambda>m x. m(k x \<mapsto> f x)) m0 xs s = None \<longleftrightarrow> m0 s = None \<and> s \<notin> k ` set xs"
  by (induction xs arbitrary: m0) auto

lemma foldl_upd_Some:
  "foldl (\<lambda>m x. m(k x \<mapsto> f x)) m0 xs s = Some p \<Longrightarrow>
     m0 s = Some p \<or> (\<exists>x\<in>set xs. k x = s \<and> p = f x)"
proof (induction xs arbitrary: m0)
  case Nil
  then show ?case by simp
next
  case (Cons x xs)
  from Cons.prems have "foldl (\<lambda>m x. m(k x \<mapsto> f x)) (m0(k x \<mapsto> f x)) xs s = Some p"
    by (simp only: foldl_Cons)
  from Cons.IH [OF this]
  have "(m0(k x \<mapsto> f x)) s = Some p \<or> (\<exists>x\<in>set xs. k x = s \<and> p = f x)" .
  then show ?case by (cases "k x = s") auto
qed

lemma availableSubjects_no_entity: "g_selectedEntity g = [] \<Longrightarrow> availableSubjects g = []"
  by (simp add: availableSubjects_def)

lemma subjectProgress_None_iff:
  "subjectProgress g s = None \<longleftrightarrow> s \<notin> sub_id ` set (availableSubjects g)"
proof (cases "g_selectedEntity g = []")
  case True
  then show ?thesis by (simp add: subjectProgress_def availableSubjects_no_entity)
next
  case False
  then show ?thesis by (simp add: subjectProgress_def foldl_upd_None)
qed

lemma subjectProgress_Some:
  assumes "subjectProgress g s = Some p"
  shows "\<exists>subject\<in>set (availableSubjects g). sub_id subject = s \<and> p = subjectProgressOf g subject"
proof (cases "g_selectedEntity g = []")
  case True
  with assms show ?thesis by (simp add: subjectProgress_def)
next
  case False
  with assms have "foldl (\<lambda>progress subject. progress(sub_id subject \<mapsto> subjectProgressOf g subject))
             Map.empty (availableSubjects g) s = Some p"
    by (simp add: subjectProgress_def)
  from foldl_upd_Some [OF this] show ?thesis by simp
qed

lemma percentage_subjectProgressOf:
  "pr_percentage (subjectProgressOf g subject) =
     (if 0 < pr_total (subjectProgressOf g subject)
      then Math_round (pr_scheduled (subjectProgressOf g subject) / pr_total (subjectProgressOf g subject) * 100)
      else 0)"
  by (simp add: subjectProgressOf_def Let_def)

lemma Math_round_full: "1 \<le> x \<Longrightarrow> 100 \<le> Math_round (x * 100)"
proof -
  assume "1 \<le> x"
  then have "of_int 100 \<le> x * 100 + 1 / 2" by simp
  then show ?thesis unfolding Math_round_def by (simp only: le_floor_iff)
qed

lemma Math_round_zero: "Math_round 0 = 0"
  unfolding Math_round_def by (simp add: floor_eq_iff)

lemma fully_scheduled:
  assumes "subjectProgress g s = Some p" "0 < pr_total p" "1 \<le> pr_scheduled p / pr_total p"
  shows "100 \<le> pr_percentage p"
proof -
  from subjectProgress_Some [OF assms(1)] obtain subject where p: "p = subjectProgressOf g subject"
    by blast
  have "pr_percentage p = Math_round (pr_scheduled p / pr_total p * 100)"
    unfolding p using assms(2) [unfolded p] by (simp only: percentage_subjectProgressOf if_True)
  with Math_round_full [OF assms(3)] show ?thesis by simp
qed

lemma free_slots_set:
  "set [(day, period). day \<leftarrow> ds, period \<leftarrow> ps, \<not> isOccupied g day period]
     = {(day, period). day \<in> set ds \<and> period \<in> set ps \<and>
          \<not> (\<exists>entry\<in>set (g_timetableEntries g).
               (if g_viewMode g = ClassMode then te_classId entry else te_teacherId entry)
                 = g_selectedEntity g \<and>
               te_day entry = day \<and> te_period entry = period)}"
  by (auto simp: isOccupied_def list_ex_iff split: if_splits)

lemma progressField_prototype: "s \<in> set Object_prototype \<Longrightarrow> progressField p s = None"
  by (auto simp: Object_prototype_def progressField_def)

lemma Object_prototype_nonempty: "s \<in> set Object_prototype \<Longrightarrow> s \<noteq> []"
  by (auto simp: Object_prototype_def)

lemma readProgress_own: "subjectProgress g s = Some p \<Longrightarrow> readProgress g s = ProgressRecord p"
  by (simp add: readProgress_def)

lemma readProgress_member:
  assumes "subjectProgress g s = None" "s \<in> set Object_prototype"
  shows "readProgress g s = PrototypeMember"
  using assms progressField_prototype [OF assms(2)]
  by (simp add: readProgress_def split: option.splits)

lemma readProgress_undefined:
  assumes "subjectProgress g s = None" "s \<notin> set Object_prototype" "subjectProgress g ''__proto__'' = None"
  shows "readProgress g s = Undefined"
  using assms by (simp add: readProgress_def)

lemma readProgress_field:
  assumes "subjectProgress g s = None" "s \<notin> set Object_prototype" "subjectProgress g ''__proto__'' = Some p"
  shows "readProgress g s = (case progressField p s of None \<Rightarrow> Undefined | Some v \<Rightarrow> NumberValue v)"
  using assms by (simp add: readProgress_def split: option.splits)

text \<open>
  The test of lines 233-234, \<^verbatim>\<open>progress && progress.percentage >= 100\<close>, reads the same
  object; it holds of a progress record only, so it is decided by the map alone.
\<close>

lemma readProgress_gate:
  "(truthy (readProgress g s) \<and>
      (case percentageOf (readProgress g s) of None \<Rightarrow> False | Some percentage \<Rightarrow> percentage \<ge> 100))
   = (case subjectProgress g s of None \<Rightarrow> False | Some progress \<Rightarrow> pr_percentage progress \<ge> 100)"
  by (simp add: readProgress_def split: option.splits)

lemma validSlots_read:
  assumes "g_selectedSubject g = Some s" "s \<noteq> []"
  shows "validSlots g =
           (if \<not> truthy (readProgress g s) \<or>
               (case percentageOf (readProgress g s) of None \<Rightarrow> False | Some percentage \<Rightarrow> percentage \<ge> 100)
            then []
            else [(day, period). day \<leftarrow> DAYS, period \<leftarrow> PERIODS, \<not> isOccupied g day period])"
  using assms by (simp add: validSlots_def Let_def)

lemma validSlots_unselected:
  "g_selectedSubject g = None \<or> g_selectedSubject g = Some [] \<Longrightarrow> validSlots g = []"
  by (auto simp: validSlots_def)

lemma validSlots_closed:
  assumes "g_selectedSubject g = Some s" "subjectProgress g s = Some p" "100 \<le> pr_percentage p"
  shows "validSlots g = []"
proof (cases "s = []")
  case True
  with assms(1) show ?thesis by (simp add: validSlots_def)
next
  case False
  show ?thesis
    unfolding validSlots_read [OF assms(1) False] readProgress_own [OF assms(2)]
    using assms(3) by simp
qed

lemma validSlots_open:
  assumes "g_selectedSubject g = Some s" "s \<noteq> []" "subjectProgress g s = Some p" "pr_percentage p < 100"
  shows "validSlots g = [(day, period). day \<leftarrow> DAYS, period \<leftarrow> PERIODS, \<not> isOccupied g day period]"
  unfolding validSlots_read [OF assms(1,2)] readProgress_own [OF assms(3)]
  using assms(4) by simp

lemma validSlots_member:
  assumes "g_selectedSubject g = Some s" "subjectProgress g s = None" "s \<in> set Object_prototype"
  shows "validSlots g = [(day, period). day \<leftarrow> DAYS, period \<leftarrow> PERIODS, \<not> isOccupied g day period]"
  unfolding validSlots_read [OF assms(1) Object_prototype_nonempty [OF assms(3)]]
    readProgress_member [OF assms(2,3)]
  by simp

lemma validSlots_undefined:
  assumes "g_selectedSubject g = Some s" "subjectProgress g s = None" "s \<notin> set Object_prototype"
    "subjectProgress g ''__proto__'' = None"
  shows "validSlots g = []"
proof (cases "s = []")
  case True
  with assms(1) show ?thesis by (simp add: validSlots_def)
next
  case False
  show ?thesis
    unfolding validSlots_read [OF assms(1) False] readProgress_undefined [OF assms(2,3,4)]
    by simp
qed

lemma validSlots_field:
  assumes "g_selectedSubject g = Some s" "subjectProgress g s = None" "s \<notin> set Object_prototype"
    "subjectProgress g ''__proto__'' = Some p"
  shows "validSlots g =
           (case progressField p s of
              None \<Rightarrow> []
            | Some v \<Rightarrow> if v = 0 then [] else [(day, period). day \<leftarrow> DAYS, period \<leftarrow> PERIODS, \<not> isOccupied g day period])"
proof (cases "s = []")
  case True
  then have "progressField p s = None" by (simp add: progressField_def)
  with True assms(1) show ?thesis by (simp add: validSlots_def)
next
  case False
  show ?thesis
    unfolding validSlots_read [OF assms(1) False] readProgress_field [OF assms(2,3,4)]
    by (cases "progressField p s") simp_all
qed

text \<open>
  Claim C6, as the code has it. The list of valid slots is empty when no subject is
  selected and when the selected subject has a progress record of a percentage of at
  least 100, in particular when hours are required and the scheduled hours reach them.
  When the record has a percentage below 100, the list is the list of the pairs of the
  grid of \<^const>\<open>DAYS\<close> and \<^const>\<open>PERIODS\<close>, day by day, at which the entity has no
  entry. A selected key that is the id of no available subject has no record of its
  own, and the read of the progress object decides: a property name of
  \<^verbatim>\<open>Object.prototype\<close> reads an inherited member, which has no percentage, and the
  list is the list of the free pairs again; any other key reads \<^verbatim>\<open>undefined\<close> and the
  list is empty, unless a subject of the id \<^verbatim>\<open>__proto__\<close> is available: then the
  key reads a field of the record of that subject if it names one, and the list is
  empty for any other key and for a field that is zero, and the list of the free pairs
  for a field that is not zero.
\<close>

theorem validSlots_characterisation:
  "(g_selectedSubject g = None \<or> g_selectedSubject g = Some [] \<longrightarrow> validSlots g = []) \<and>
   (\<forall>s p. g_selectedSubject g = Some s \<and> subjectProgress g s = Some p \<and> 100 \<le> pr_percentage p \<longrightarrow>
        validSlots g = []) \<and>
   (\<forall>s p. g_selectedSubject g = Some s \<and> subjectProgress g s = Some p \<and>
          0 < pr_total p \<and> 1 \<le> pr_scheduled p / pr_total p \<longrightarrow>
        validSlots g = []) \<and>
   (\<forall>s p. g_selectedSubject g = Some s \<and> s \<noteq> [] \<and> subjectProgress g s = Some p \<and>
          pr_percentage p < 100 \<longrightarrow>
        validSlots g = [(day, period). day \<leftarrow> DAYS, period \<leftarrow> PERIODS, \<not> isOccupied g day period] \<and>
        set (validSlots g)
          = {(day, period). day \<in> set DAYS \<and> period \<in> set PERIODS \<and>
               \<not> (\<exists>entry\<in>set (g_timetableEntries g).
                    (if g_viewMode g = ClassMode then te_classId entry else te_teacherId entry)
                      = g_selectedEntity g \<and>
                    te_day entry = day \<and> te_period entry = period)}) \<and>
   (\<forall>s. s \<notin> sub_id ` set (availableSubjects g) \<longrightarrow> subjectProgress g s = None) \<and>
   (\<forall>s. g_selectedSubject g = Some s \<and> s \<notin> sub_id ` set (availableSubjects g) \<and>
        s \<in> set Object_prototype \<longrightarrow>
        validSlots g = [(day, period). day \<leftarrow> DAYS, period \<leftarrow> PERIODS, \<not> isOccupied g day period]) \<and>
   (\<forall>s. g_selectedSubject g = Some s \<and> s \<notin> sub_id ` set (availableSubjects g) \<and>
        s \<notin> set Object_prototype \<and> ''__proto__'' \<notin> sub_id ` set (availableSubjects g) \<longrightarrow>
        validSlots g = []) \<and>
   (\<forall>s p. g_selectedSubject g = Some s \<and> s \<notin> sub_id ` set (availableSubjects g) \<and>
        s \<notin> set Object_prototype \<and> subjectProgress g ''__proto__'' = Some p \<longrightarrow>
        validSlots g =
          (case progressField p s of
             None \<Rightarrow> []
           | Some v \<Rightarrow>
               if v = 0 then []
               else [(day, period). day \<leftarrow> DAYS, period \<leftarrow> PERIODS, \<not> isOccupied g day period]))"
proof (intro conjI allI impI)
  assume "g_selectedSubject g = None \<or> g_selectedSubject g = Some []"
  then show "validSlots g = []" by (rule validSlots_unselected)
next
  fix s p
  assume a: "g_selectedSubject g = Some s \<and> subjectProgress g s = Some p \<and> 100 \<le> pr_percentage p"
  show "validSlots g = []"
    by (rule validSlots_closed [OF a [THEN conjunct1] a [THEN conjunct2, THEN conjunct1]
          a [THEN conjunct2, THEN conjunct2]])
next
  fix s p
  assume a: "g_selectedSubject g = Some s \<and> subjectProgress g s = Some p \<and>
          0 < pr_total p \<and> 1 \<le> pr_scheduled p / pr_total p"
  then have sel: "g_selectedSubject g = Some s" and rec: "subjectProgress g s = Some p"
    and pos: "0 < pr_total p" and full: "1 \<le> pr_scheduled p / pr_total p"
    by simp_all
  show "validSlots g = []"
    by (rule validSlots_closed [OF sel rec fully_scheduled [OF rec pos full]])
next
  fix s p
  assume a: "g_selectedSubject g = Some s \<and> s \<noteq> [] \<and> subjectProgress g s = Some p \<and>
          pr_percentage p < 100"
  then have sel: "g_selectedSubject g = Some s" and ne: "s \<noteq> []"
    and rec: "subjectProgress g s = Some p" and low: "pr_percentage p < 100"
    by simp_all
  show eq: "validSlots g = [(day, period). day \<leftarrow> DAYS, period \<leftarrow> PERIODS, \<not> isOccupied g day period]"
    by (rule validSlots_open [OF sel ne rec low])
  show "set (validSlots g)
          = {(day, period). day \<in> set DAYS \<and> period \<in> set PERIODS \<and>
               \<not> (\<exists>entry\<in>set (g_timetableEntries g).
                    (if g_viewMode g = ClassMode then te_classId entry else te_teacherId entry)
                      = g_selectedEntity g \<and>
                    te_day entry = day \<and> te_period entry = period)}"
    unfolding eq by (rule free_slots_set)
next
  fix s
  assume "s \<notin> sub_id ` set (availableSubjects g)"
  then show "subjectProgress g s = None" by (rule subjectProgress_None_iff [THEN iffD2])
next
  fix s
  assume a: "g_selectedSubject g = Some s \<and> s \<notin> sub_id ` set (availableSubjects g) \<and>
        s \<in> set Object_prototype"
  then have sel: "g_selectedSubject g = Some s" and mem: "s \<in> set Object_prototype"
    and none: "subjectProgress g s = None"
    by (simp_all add: subjectProgress_None_iff)
  show "validSlots g = [(day, period). day \<leftarrow> DAYS, period \<leftarrow> PERIODS, \<not> isOccupied g day period]"
    by (rule validSlots_member [OF sel none mem])
next
  fix s
  assume a: "g_selectedSubject g = Some s \<and> s \<notin> sub_id ` set (availableSubjects g) \<and>
        s \<notin> set Object_prototype \<and> ''__proto__'' \<notin> sub_id ` set (availableSubjects g)"
  then have sel: "g_selectedSubject g = Some s" and out: "s \<notin> set Object_prototype"
    and none: "subjectProgress g s = None" and plain: "subjectProgress g ''__proto__'' = None"
    by (simp_all add: subjectProgress_None_iff)
  show "validSlots g = []"
    by (rule validSlots_undefined [OF sel none out plain])
next
  fix s p
  assume a: "g_selectedSubject g = Some s \<and> s \<notin> sub_id ` set (availableSubjects g) \<and>
        s \<notin> set Object_prototype \<and> subjectProgress g ''__proto__'' = Some p"
  then have sel: "g_selectedSubject g = Some s" and out: "s \<notin> set Object_prototype"
    and proto: "subjectProgress g ''__proto__'' = Some p"
    by simp_all
  from a have none: "subjectProgress g s = None" by (simp add: subjectProgress_None_iff)
  show "validSlots g =
          (case progressField p s of
             None \<Rightarrow> []
           | Some v \<Rightarrow>
               if v = 0 then []
               else [(day, period). day \<leftarrow> DAYS, period \<leftarrow> PERIODS, \<not> isOccupied g day period])"
    by (rule validSlots_field [OF sel none out proto])
qed

lemma subjectProgress_classView:
  "subjectProgress classView ''1'' = Some \<lparr>pr_scheduled = 0, pr_total = 5, pr_percentage = 0\<rparr>"
  by (simp add: subjectProgress_def availableSubjects_def subjectProgressOf_def scheduledEntries_def
      totalHours_def allocatedWeeklyHours_def Math_round_zero grid_example_defs example_defs)

lemmas slot_example_defs =
  partlyScheduled_def mathematicsComplete_def constructorSelected_def nothingSelected_def
  prototypeTotal_def prototypeScheduled_def

lemma Math_round_numeral: "Math_round (numeral k) = numeral k"
  unfolding Math_round_def by (simp add: floor_eq_iff)

lemma availableSubjects_classView:
  "availableSubjects (classView\<lparr>g_timetableEntries := es, g_selectedSubject := sel\<rparr>) = [mathematics]"
  by (simp add: availableSubjects_def grid_example_defs example_defs)

lemma subjectProgress_partlyScheduled:
  "subjectProgress partlyScheduled ''1'' = Some \<lparr>pr_scheduled = 3 / 2, pr_total = 5, pr_percentage = 30\<rparr>"
  by (simp add: subjectProgress_def availableSubjects_def subjectProgressOf_def scheduledEntries_def
      totalHours_def allocatedWeeklyHours_def Math_round_numeral slot_example_defs grid_example_defs
      example_defs)

lemma subjectProgress_mathematicsComplete:
  "subjectProgress mathematicsComplete ''1''
     = Some \<lparr>pr_scheduled = 21 / 4, pr_total = 5, pr_percentage = 105\<rparr>"
  by (simp add: subjectProgress_def availableSubjects_def subjectProgressOf_def scheduledEntries_def
      totalHours_def allocatedWeeklyHours_def Math_round_numeral slot_example_defs grid_example_defs
      example_defs)

lemma availableSubjects_constructorSelected:
  "sub_id ` set (availableSubjects constructorSelected) = {''1''}"
  by (simp add: availableSubjects_def slot_example_defs grid_example_defs example_defs)

lemma subjectProgress_prototypeTotal:
  "subjectProgress prototypeTotal ''__proto__''
     = Some \<lparr>pr_scheduled = 0, pr_total = 5, pr_percentage = 0\<rparr>"
  by (simp add: subjectProgress_def availableSubjects_def subjectProgressOf_def scheduledEntries_def
      totalHours_def allocatedWeeklyHours_def Math_round_zero slot_example_defs grid_example_defs
      example_defs)

lemma subjectProgress_prototypeScheduled:
  "subjectProgress prototypeScheduled ''__proto__''
     = Some \<lparr>pr_scheduled = 0, pr_total = 5, pr_percentage = 0\<rparr>"
  by (simp add: subjectProgress_def availableSubjects_def subjectProgressOf_def scheduledEntries_def
      totalHours_def allocatedWeeklyHours_def Math_round_zero slot_example_defs grid_example_defs
      example_defs)

lemma availableSubjects_prototype:
  "sub_id ` set (availableSubjects prototypeTotal) = {''__proto__''}"
  "sub_id ` set (availableSubjects prototypeScheduled) = {''__proto__''}"
  by (simp_all add: availableSubjects_def slot_example_defs grid_example_defs example_defs)

lemma free_partlyScheduled:
  "[(day, period). day \<leftarrow> DAYS, period \<leftarrow> PERIODS, \<not> isOccupied partlyScheduled day period]
     = [(''Monday'', 2), (''Monday'', 3), (''Monday'', 4), (''Monday'', 5), (''Tuesday'', 1),
        (''Tuesday'', 3), (''Tuesday'', 4), (''Tuesday'', 5), (''Wednesday'', 1), (''Wednesday'', 2),
        (''Wednesday'', 3), (''Wednesday'', 4), (''Wednesday'', 5), (''Thursday'', 1), (''Thursday'', 2),
        (''Thursday'', 3), (''Thursday'', 4), (''Thursday'', 5), (''Friday'', 1), (''Friday'', 2),
        (''Friday'', 3), (''Friday'', 4), (''Friday'', 5)]"
  by (simp add: DAYS_def PERIODS_def isOccupied_def slot_example_defs grid_example_defs lesson_def)

lemma free_constructorSelected:
  "[(day, period). day \<leftarrow> DAYS, period \<leftarrow> PERIODS, \<not> isOccupied constructorSelected day period]
     = [(''Monday'', 2), (''Monday'', 3), (''Monday'', 4), (''Monday'', 5), (''Tuesday'', 1),
        (''Tuesday'', 3), (''Tuesday'', 4), (''Tuesday'', 5), (''Wednesday'', 1), (''Wednesday'', 2),
        (''Wednesday'', 3), (''Wednesday'', 4), (''Wednesday'', 5), (''Thursday'', 1), (''Thursday'', 2),
        (''Thursday'', 3), (''Thursday'', 4), (''Thursday'', 5), (''Friday'', 1), (''Friday'', 2),
        (''Friday'', 3), (''Friday'', 4), (''Friday'', 5)]"
  by (simp add: DAYS_def PERIODS_def isOccupied_def slot_example_defs grid_example_defs lesson_def)

lemma free_prototypeTotal:
  "length [(day, period). day \<leftarrow> DAYS, period \<leftarrow> PERIODS, \<not> isOccupied prototypeTotal day period] = 25"
  by (simp add: DAYS_def PERIODS_def isOccupied_def slot_example_defs grid_example_defs)

lemma free_mathematicsComplete:
  "length [(day, period). day \<leftarrow> DAYS, period \<leftarrow> PERIODS, \<not> isOccupied mathematicsComplete day period] = 18"
  by (simp add: DAYS_def PERIODS_def isOccupied_def slot_example_defs grid_example_defs lesson_def)

theorem validSlots_characterisation_witness:
  "g_selectedSubject nothingSelected = None \<and> validSlots nothingSelected = [] \<and>
   subjectProgress partlyScheduled ''1''
     = Some \<lparr>pr_scheduled = 3 / 2, pr_total = 5, pr_percentage = 30\<rparr> \<and>
   validSlots partlyScheduled
     = [(''Monday'', 2), (''Monday'', 3), (''Monday'', 4), (''Monday'', 5), (''Tuesday'', 1),
        (''Tuesday'', 3), (''Tuesday'', 4), (''Tuesday'', 5), (''Wednesday'', 1), (''Wednesday'', 2),
        (''Wednesday'', 3), (''Wednesday'', 4), (''Wednesday'', 5), (''Thursday'', 1), (''Thursday'', 2),
        (''Thursday'', 3), (''Thursday'', 4), (''Thursday'', 5), (''Friday'', 1), (''Friday'', 2),
        (''Friday'', 3), (''Friday'', 4), (''Friday'', 5)] \<and>
   subjectProgress mathematicsComplete ''1''
     = Some \<lparr>pr_scheduled = 21 / 4, pr_total = 5, pr_percentage = 105\<rparr> \<and>
   length [(day, period). day \<leftarrow> DAYS, period \<leftarrow> PERIODS, \<not> isOccupied mathematicsComplete day period] = 18 \<and>
   validSlots mathematicsComplete = [] \<and>
   g_selectedSubject constructorSelected = Some ''constructor'' \<and>
   subjectProgress constructorSelected ''constructor'' = None \<and>
   validSlots constructorSelected
     = [(''Monday'', 2), (''Monday'', 3), (''Monday'', 4), (''Monday'', 5), (''Tuesday'', 1),
        (''Tuesday'', 3), (''Tuesday'', 4), (''Tuesday'', 5), (''Wednesday'', 1), (''Wednesday'', 2),
        (''Wednesday'', 3), (''Wednesday'', 4), (''Wednesday'', 5), (''Thursday'', 1), (''Thursday'', 2),
        (''Thursday'', 3), (''Thursday'', 4), (''Thursday'', 5), (''Friday'', 1), (''Friday'', 2),
        (''Friday'', 3), (''Friday'', 4), (''Friday'', 5)] \<and>
   g_selectedSubject prototypeTotal = Some ''total'' \<and>
   subjectProgress prototypeTotal ''total'' = None \<and>
   length (validSlots prototypeTotal) = 25 \<and>
   g_selectedSubject prototypeScheduled = Some ''scheduled'' \<and>
   validSlots prototypeScheduled = []"
proof -
  have sel0: "g_selectedSubject nothingSelected = None" by (simp add: slot_example_defs)
  from validSlots_characterisation [of nothingSelected, THEN conjunct1] sel0
  have v0: "validSlots nothingSelected = []" by simp
  have sel1: "g_selectedSubject partlyScheduled = Some ''1''"
    by (simp add: slot_example_defs grid_example_defs)
  have ne: "''1'' \<noteq> ([] :: string)" by simp
  have low: "pr_percentage \<lparr>pr_scheduled = 3 / 2, pr_total = 5, pr_percentage = 30\<rparr> < 100" by simp
  from validSlots_characterisation [of partlyScheduled, THEN conjunct2, THEN conjunct2, THEN conjunct2,
      THEN conjunct1, rule_format, OF conjI [OF sel1 conjI [OF ne conjI [OF subjectProgress_partlyScheduled low]]],
      THEN conjunct1]
  have v1: "validSlots partlyScheduled = [(''Monday'', 2), (''Monday'', 3), (''Monday'', 4), (''Monday'', 5), (''Tuesday'', 1),
        (''Tuesday'', 3), (''Tuesday'', 4), (''Tuesday'', 5), (''Wednesday'', 1), (''Wednesday'', 2),
        (''Wednesday'', 3), (''Wednesday'', 4), (''Wednesday'', 5), (''Thursday'', 1), (''Thursday'', 2),
        (''Thursday'', 3), (''Thursday'', 4), (''Thursday'', 5), (''Friday'', 1), (''Friday'', 2),
        (''Friday'', 3), (''Friday'', 4), (''Friday'', 5)]"
    unfolding free_partlyScheduled .
  have sel2: "g_selectedSubject mathematicsComplete = Some ''1''"
    by (simp add: slot_example_defs grid_example_defs)
  have pos: "0 < pr_total \<lparr>pr_scheduled = 21 / 4, pr_total = 5, pr_percentage = 105\<rparr>" by simp
  have full: "1 \<le> pr_scheduled \<lparr>pr_scheduled = 21 / 4, pr_total = 5, pr_percentage = 105\<rparr>
                   / pr_total \<lparr>pr_scheduled = 21 / 4, pr_total = 5, pr_percentage = 105\<rparr>" by simp
  from validSlots_characterisation [of mathematicsComplete, THEN conjunct2, THEN conjunct2, THEN conjunct1,
      rule_format, OF conjI [OF sel2 conjI [OF subjectProgress_mathematicsComplete conjI [OF pos full]]]]
  have v2: "validSlots mathematicsComplete = []" .
  have sel3: "g_selectedSubject constructorSelected = Some ''constructor''"
    by (simp add: slot_example_defs)
  have out3: "''constructor'' \<notin> sub_id ` set (availableSubjects constructorSelected)"
    unfolding availableSubjects_constructorSelected by simp
  have in3: "''constructor'' \<in> set Object_prototype" by (simp add: Object_prototype_def)
  note T3 = validSlots_characterisation [of constructorSelected, THEN conjunct2, THEN conjunct2,
      THEN conjunct2, THEN conjunct2]
  from T3 [THEN conjunct1, rule_format, OF out3]
  have none3: "subjectProgress constructorSelected ''constructor'' = None" .
  from T3 [THEN conjunct2, THEN conjunct1, rule_format, OF conjI [OF sel3 conjI [OF out3 in3]]]
  have v3: "validSlots constructorSelected = [(''Monday'', 2), (''Monday'', 3), (''Monday'', 4), (''Monday'', 5), (''Tuesday'', 1),
        (''Tuesday'', 3), (''Tuesday'', 4), (''Tuesday'', 5), (''Wednesday'', 1), (''Wednesday'', 2),
        (''Wednesday'', 3), (''Wednesday'', 4), (''Wednesday'', 5), (''Thursday'', 1), (''Thursday'', 2),
        (''Thursday'', 3), (''Thursday'', 4), (''Thursday'', 5), (''Friday'', 1), (''Friday'', 2),
        (''Friday'', 3), (''Friday'', 4), (''Friday'', 5)]"
    unfolding free_constructorSelected .
  have sel4: "g_selectedSubject prototypeTotal = Some ''total''" by (simp add: slot_example_defs)
  have out4: "''total'' \<notin> sub_id ` set (availableSubjects prototypeTotal)"
    unfolding availableSubjects_prototype by simp
  have no4: "''total'' \<notin> set Object_prototype" by (simp add: Object_prototype_def)
  note T4 = validSlots_characterisation [of prototypeTotal, THEN conjunct2, THEN conjunct2,
      THEN conjunct2, THEN conjunct2]
  from T4 [THEN conjunct1, rule_format, OF out4]
  have none4: "subjectProgress prototypeTotal ''total'' = None" .
  from T4 [THEN conjunct2, THEN conjunct2, THEN conjunct2, rule_format,
      OF conjI [OF sel4 conjI [OF out4 conjI [OF no4 subjectProgress_prototypeTotal]]]]
  have v4: "length (validSlots prototypeTotal) = 25"
    by (simp add: progressField_def free_prototypeTotal)
  have sel5: "g_selectedSubject prototypeScheduled = Some ''scheduled''" by (simp add: slot_example_defs)
  have out5: "''scheduled'' \<notin> sub_id ` set (availableSubjects prototypeScheduled)"
    unfolding availableSubjects_prototype by simp
  have no5: "''scheduled'' \<notin> set Object_prototype" by (simp add: Object_prototype_def)
  from validSlots_characterisation [of prototypeScheduled, THEN conjunct2, THEN conjunct2,
      THEN conjunct2, THEN conjunct2, THEN conjunct2, THEN conjunct2, THEN conjunct2, rule_format,
      OF conjI [OF sel5 conjI [OF out5 conjI [OF no5 subjectProgress_prototypeScheduled]]]]
  have v5: "validSlots prototypeScheduled = []"
    by (simp add: progressField_def)
  from sel0 v0 subjectProgress_partlyScheduled v1 subjectProgress_mathematicsComplete
    free_mathematicsComplete v2 sel3 none3 v3 sel4 none4 v4 sel5 v5
  show ?thesis by (intro conjI)
qed

text \<open>
  Claim C6 as stated fails: Art is not allocated to grade 9, so it has no progress
  record in the view of class Grade 9A and no percentage of 100 or more, and
  \<^verbatim>\<open>6\<close> names no inherited property; the grid is empty, all 25 slots are free, and
  the list of valid slots is empty.
\<close>

theorem validSlots_unavailable_subject_counterexample:
  "g_selectedSubject artSelected = Some ''6'' \<and>
   subjectProgress artSelected ''6'' = None \<and>
   readProgress artSelected ''6'' = Undefined \<and>
   g_timetableEntries artSelected = [] \<and>
   validSlots artSelected = []"
  by (simp add: validSlots_def readProgress_def Object_prototype_def subjectProgress_def
      availableSubjects_def grid_example_defs example_defs)

section \<open>Properties of placing an entry\<close>

lemma resolveTeacher_empty_iff:
  assumes "g_selectedEntity g \<noteq> []" "\<forall>a\<in>set (g_assignments g). cst_teacherId a \<noteq> []"
  shows "resolveTeacher g subj = [] \<longleftrightarrow>
           g_viewMode g = ClassMode \<and>
           \<not> (\<exists>a\<in>set (g_assignments g).
                cst_classId a = g_selectedEntity g \<and> cst_subjectId a = subj \<and> cst_isActive a)"
proof (cases "g_viewMode g")
  case TeacherMode
  with assms(1) show ?thesis by (simp add: resolveTeacher_def)
next
  case ClassMode
  show ?thesis
  proof (cases "find (\<lambda>a. cst_classId a = g_selectedEntity g \<and> cst_subjectId a = subj \<and> cst_isActive a)
                  (g_assignments g)")
    case None
    then have "\<not> (\<exists>a\<in>set (g_assignments g).
                cst_classId a = g_selectedEntity g \<and> cst_subjectId a = subj \<and> cst_isActive a)"
      by (auto simp: find_None_iff)
    with ClassMode None show ?thesis by (simp add: resolveTeacher_def)
  next
    case (Some a)
    then have a: "a \<in> set (g_assignments g)"
      "cst_classId a = g_selectedEntity g \<and> cst_subjectId a = subj \<and> cst_isActive a"
      by (auto simp: find_Some_iff)
    with assms(2) have "cst_teacherId a \<noteq> []" by blast
    with ClassMode Some a show ?thesis by (auto simp: resolveTeacher_def)
  qed
qed

lemma resolveTeacher_class:
  assumes "g_viewMode g = ClassMode" "resolveTeacher g subj \<noteq> []"
  shows "\<exists>a. find (\<lambda>a. cst_classId a = g_selectedEntity g \<and> cst_subjectId a = subj \<and> cst_isActive a)
               (g_assignments g) = Some a \<and> resolveTeacher g subj = cst_teacherId a"
  using assms by (auto simp: resolveTeacher_def split: option.splits)

lemma clock_reading_fresh:
  assumes "\<forall>e\<in>set entries. \<exists>m<now. te_id e = show_nat m"
  shows "show_nat now \<notin> te_id ` set entries"
proof
  assume "show_nat now \<in> te_id ` set entries"
  then obtain e where e: "e \<in> set entries" "te_id e = show_nat now" by auto
  with assms obtain m where m: "m < now" "te_id e = show_nat m" by blast
  with e have "show_nat now = show_nat m" by simp
  then have "now = m" by (rule show_nat_inj)
  with m show False by simp
qed

text \<open>
  Claim C7, as the code has it. With a subject and an entity selected, the progress of
  the subject below 100 and no teaching assignment with an empty teacher id, a click on
  a slot fails with the alert of the missing teacher exactly in class view when the
  class has no active assignment for the subject; the modal does the same as the grid.
  Otherwise one entry is appended: its id is the reading of the clock, its class is the
  entity in class view and the empty string in teacher view, its teacher is the one of
  the first active assignment in class view and the entity in teacher view, its time
  slot is the first one of that day and period, or the empty string when there is
  none. The conflicts are those of the new list of entries. The id is fresh when the
  ids of the entries are earlier readings of the clock.
\<close>

theorem handleSlotClick_places_entry:
  assumes sel: "g_selectedSubject g = Some subj" and ne: "subj \<noteq> []" "g_selectedEntity g \<noteq> []"
    and below: "\<forall>p. subjectProgress g subj = Some p \<longrightarrow> pr_percentage p < 100"
    and named: "\<forall>a\<in>set (g_assignments g). cst_teacherId a \<noteq> []"
  shows "(handleSlotClick g now day period = Inl NoTeacherAssigned \<longleftrightarrow>
            g_viewMode g = ClassMode \<and>
            \<not> (\<exists>a\<in>set (g_assignments g).
                 cst_classId a = g_selectedEntity g \<and> cst_subjectId a = subj \<and> cst_isActive a)) \<and>
         modalHandleSlotClick g now day period = handleSlotClick g now day period \<and>
         (handleSlotClick g now day period \<noteq> Inl NoTeacherAssigned \<longrightarrow>
           (\<exists>g'. handleSlotClick g now day period = Inr g' \<and>
              g_timetableEntries g' = g_timetableEntries g @
                [\<lparr>te_id = show_nat now,
                  te_classId = (if g_viewMode g = ClassMode then g_selectedEntity g else []),
                  te_teacherId = resolveTeacher g subj,
                  te_subjectId = subj,
                  te_roomId = None,
                  te_timeSlotId = (case find (\<lambda>ts. ts_day ts = day \<and> ts_period ts = period) (g_timeSlots g) of
                                     None \<Rightarrow> [] | Some ts \<Rightarrow> ts_id ts),
                  te_day = day,
                  te_period = period\<rparr>] \<and>
              g_conflicts g' = validateConstraints (g_teachers g) (g_rooms g) (g_periodDuration g)
                                 (g_timetableEntries g') \<and>
              (g_viewMode g = ClassMode \<longrightarrow>
                 (\<exists>a. find (\<lambda>a. cst_classId a = g_selectedEntity g \<and> cst_subjectId a = subj \<and> cst_isActive a)
                        (g_assignments g) = Some a \<and> resolveTeacher g subj = cst_teacherId a)) \<and>
              (g_viewMode g = TeacherMode \<longrightarrow> resolveTeacher g subj = g_selectedEntity g))) \<and>
         ((\<forall>e\<in>set (g_timetableEntries g). \<exists>m<now. te_id e = show_nat m) \<longrightarrow>
            show_nat now \<notin> te_id ` set (g_timetableEntries g))"
proof -
  have gate: "\<not> (case subjectProgress g subj of None \<Rightarrow> False | Some progress \<Rightarrow> pr_percentage progress \<ge> 100)"
    using below by (cases "subjectProgress g subj") auto
  have grid: "handleSlotClick g now day period =
      (if resolveTeacher g subj = [] then Inl NoTeacherAssigned
       else Inr ((handleAddEntry g (newEntry g now subj (resolveTeacher g subj) day period))
                   \<lparr>g_selectedSubject := None\<rparr>))"
    using sel ne gate by (simp add: handleSlotClick_def Let_def)
  have modal: "modalHandleSlotClick g now day period =
      (if resolveTeacher g subj = [] then Inl NoTeacherAssigned
       else Inr ((handleAddEntry g (newEntry g now subj (resolveTeacher g subj) day period))
                   \<lparr>g_selectedSubject := None\<rparr>))"
    using sel ne by (simp add: modalHandleSlotClick_def Let_def)
  note rt = resolveTeacher_empty_iff [OF ne(2) named, of subj]
  have 1: "handleSlotClick g now day period = Inl NoTeacherAssigned \<longleftrightarrow>
            g_viewMode g = ClassMode \<and>
            \<not> (\<exists>a\<in>set (g_assignments g).
                 cst_classId a = g_selectedEntity g \<and> cst_subjectId a = subj \<and> cst_isActive a)"
    unfolding grid rt [symmetric] by simp
  have 2: "modalHandleSlotClick g now day period = handleSlotClick g now day period"
    unfolding grid modal ..
  have 3: "handleSlotClick g now day period \<noteq> Inl NoTeacherAssigned \<longrightarrow>
           (\<exists>g'. handleSlotClick g now day period = Inr g' \<and>
              g_timetableEntries g' = g_timetableEntries g @
                [\<lparr>te_id = show_nat now,
                  te_classId = (if g_viewMode g = ClassMode then g_selectedEntity g else []),
                  te_teacherId = resolveTeacher g subj,
                  te_subjectId = subj,
                  te_roomId = None,
                  te_timeSlotId = (case find (\<lambda>ts. ts_day ts = day \<and> ts_period ts = period) (g_timeSlots g) of
                                     None \<Rightarrow> [] | Some ts \<Rightarrow> ts_id ts),
                  te_day = day,
                  te_period = period\<rparr>] \<and>
              g_conflicts g' = validateConstraints (g_teachers g) (g_rooms g) (g_periodDuration g)
                                 (g_timetableEntries g') \<and>
              (g_viewMode g = ClassMode \<longrightarrow>
                 (\<exists>a. find (\<lambda>a. cst_classId a = g_selectedEntity g \<and> cst_subjectId a = subj \<and> cst_isActive a)
                        (g_assignments g) = Some a \<and> resolveTeacher g subj = cst_teacherId a)) \<and>
              (g_viewMode g = TeacherMode \<longrightarrow> resolveTeacher g subj = g_selectedEntity g))"
  proof
    assume "handleSlotClick g now day period \<noteq> Inl NoTeacherAssigned"
    then have t: "resolveTeacher g subj \<noteq> []" unfolding grid by (simp split: if_splits)
    have c: "g_viewMode g = ClassMode \<longrightarrow>
                 (\<exists>a. find (\<lambda>a. cst_classId a = g_selectedEntity g \<and> cst_subjectId a = subj \<and> cst_isActive a)
                        (g_assignments g) = Some a \<and> resolveTeacher g subj = cst_teacherId a)"
      using resolveTeacher_class [OF _ t] by blast
    have m: "g_viewMode g = TeacherMode \<longrightarrow> resolveTeacher g subj = g_selectedEntity g"
      by (simp add: resolveTeacher_def)
    show "\<exists>g'. handleSlotClick g now day period = Inr g' \<and>
              g_timetableEntries g' = g_timetableEntries g @
                [\<lparr>te_id = show_nat now,
                  te_classId = (if g_viewMode g = ClassMode then g_selectedEntity g else []),
                  te_teacherId = resolveTeacher g subj,
                  te_subjectId = subj,
                  te_roomId = None,
                  te_timeSlotId = (case find (\<lambda>ts. ts_day ts = day \<and> ts_period ts = period) (g_timeSlots g) of
                                     None \<Rightarrow> [] | Some ts \<Rightarrow> ts_id ts),
                  te_day = day,
                  te_period = period\<rparr>] \<and>
              g_conflicts g' = validateConstraints (g_teachers g) (g_rooms g) (g_periodDuration g)
                                 (g_timetableEntries g') \<and>
              (g_viewMode g = ClassMode \<longrightarrow>
                 (\<exists>a. find (\<lambda>a. cst_classId a = g_selectedEntity g \<and> cst_subjectId a = subj \<and> cst_isActive a)
                        (g_assignments g) = Some a \<and> resolveTeacher g subj = cst_teacherId a)) \<and>
              (g_viewMode g = TeacherMode \<longrightarrow> resolveTeacher g subj = g_selectedEntity g)"
      unfolding grid using t c m by (simp add: handleAddEntry_def newEntry_def Let_def)
  qed
  have 4: "(\<forall>e\<in>set (g_timetableEntries g). \<exists>m<now. te_id e = show_nat m) \<longrightarrow>
            show_nat now \<notin> te_id ` set (g_timetableEntries g)"
    using clock_reading_fresh by blast
  from 1 2 3 4 show ?thesis by (intro conjI)
qed

theorem handleSlotClick_places_entry_witness:
  "g_selectedSubject classView = Some ''1'' \<and> ''1'' \<noteq> [] \<and> g_selectedEntity classView \<noteq> [] \<and>
   subjectProgress classView ''1'' = Some \<lparr>pr_scheduled = 0, pr_total = 5, pr_percentage = 0\<rparr> \<and>
   list_all (\<lambda>a. cst_teacherId a \<noteq> []) (g_assignments classView) \<and>
   handleSlotClick classView 1700000000000 ''Monday'' 1 \<noteq> Inl NoTeacherAssigned"
proof -
  have sel: "g_selectedSubject classView = Some ''1''" by (simp add: grid_example_defs)
  have ne: "''1'' \<noteq> ([] :: string)" "g_selectedEntity classView \<noteq> []" by (simp_all add: grid_example_defs)
  have below: "\<forall>p. subjectProgress classView ''1'' = Some p \<longrightarrow> pr_percentage p < 100"
    by (simp add: subjectProgress_classView)
  have named: "\<forall>a\<in>set (g_assignments classView). cst_teacherId a \<noteq> []"
    by (simp add: grid_example_defs defaultClassSubjectTeachers_def binding_def)
  have row: "\<exists>a\<in>set (g_assignments classView).
               cst_classId a = g_selectedEntity classView \<and> cst_subjectId a = ''1'' \<and> cst_isActive a"
    by (simp add: grid_example_defs defaultClassSubjectTeachers_def binding_def)
  from handleSlotClick_places_entry [OF sel ne below named, of 1700000000000 "''Monday''" 1] row
  have "handleSlotClick classView 1700000000000 ''Monday'' 1 \<noteq> Inl NoTeacherAssigned"
    by blast
  moreover have "list_all (\<lambda>a. cst_teacherId a \<noteq> []) (g_assignments classView)"
    using named by (simp only: list_all_iff)
  ultimately show ?thesis using sel ne subjectProgress_classView by (intro conjI)
qed

text \<open>
  Claim C7 as stated fails: in teacher view the new entry carries no class. Dr. Sarah
  Johnson (id 1) teaches Mathematics to two classes; a click on Monday, period 1, with
  Mathematics selected appends an entry whose class id is the empty string, through the
  grid as through the modal.
\<close>

theorem handleSlotClick_teacher_view_counterexample:
  "handleSlotClick teacherView 1700000000000 ''Monday'' 1
     = Inr (teacherView
         \<lparr>g_timetableEntries :=
            [\<lparr>te_id = show_nat 1700000000000, te_classId = [], te_teacherId = ''1'', te_subjectId = ''1'',
              te_roomId = None, te_timeSlotId = ''1'', te_day = ''Monday'', te_period = 1\<rparr>],
          g_conflicts := [],
          g_selectedSubject := None\<rparr>) \<and>
   modalHandleSlotClick teacherView 1700000000000 ''Monday'' 1
     = handleSlotClick teacherView 1700000000000 ''Monday'' 1"
  by (simp add: handleSlotClick_def modalHandleSlotClick_def handleAddEntry_def newEntry_def
      resolveTeacher_def subjectProgress_def availableSubjects_def subjectProgressOf_def
      scheduledEntries_def totalHours_def allocatedWeeklyHours_def Math_round_zero
      validateConstraints_def checkTeacherSlot_def addTeacherHours_def checkTeacherHours_def
      checkRoomSlot_def Let_def grid_example_defs example_defs defaultClassSubjectTeachers_def binding_def)

section \<open>Properties of the room suitability scorer\<close>

lemma checkRoomType_tally:
  "checkRoomType prefs room (score, reasons, warnings) =
     (score + roomTypeScore prefs room,
      reasons @
        (case find (\<lambda>srt. srt_roomTypeId srt = cr_roomTypeId room) prefs of
           Some p \<Rightarrow> [if srt_priority p = 1 then ''Preferred room type'' else ''Suitable room type'']
                       @ (if srt_isRequired p then [''Required room type''] else [])
         | None \<Rightarrow> []),
      warnings @
        (if find (\<lambda>srt. srt_roomTypeId srt = cr_roomTypeId room) prefs = None \<and> prefs \<noteq> []
         then [''Not a preferred room type for this subject''] else []))"
  by (simp add: checkRoomType_def roomTypeScore_def Let_def split: option.splits)

lemma checkCapacity_tally:
  "checkCapacity classSection room (score, reasons, warnings) =
     (score + capacityScore classSection room,
      reasons @
        (if cs_studentCount classSection \<le> cr_capacity room \<and>
            4 / 5 < (of_nat (cs_studentCount classSection) :: rat) / of_nat (cr_capacity room)
         then [''Good capacity utilization'']
         else if cs_studentCount classSection \<le> cr_capacity room \<and>
            1 / 2 < (of_nat (cs_studentCount classSection) :: rat) / of_nat (cr_capacity room)
         then [''Adequate capacity''] else []),
      warnings @
        (if cr_capacity room < cs_studentCount classSection
         then [''Insufficient capacity ('' @ show_nat (cr_capacity room) @ '' < ''
                 @ show_nat (cs_studentCount classSection) @ '')'']
         else if (of_nat (cs_studentCount classSection) :: rat) / of_nat (cr_capacity room) \<le> 1 / 2
         then [''Room may be too large''] else []))"
  by (simp add: checkCapacity_def capacityScore_def Let_def not_less not_le)

lemma checkFeatures_tally:
  "checkFeatures room (score, reasons, warnings) =
     (score + featureScore room,
      reasons @ (if ''Projector'' \<in> set (cr_features room) \<and> ''Whiteboard'' \<in> set (cr_features room)
                 then [''Has required features''] else []),
      warnings @ (if ''Projector'' \<in> set (cr_features room) \<and> ''Whiteboard'' \<in> set (cr_features room)
                  then [] else [''Missing some required features'']))"
  by (simp add: checkFeatures_def featureScore_def requiredFeatures_def Let_def)

lemma scoreRoom_tally:
  "scoreRoom prefs classSection room =
     \<lparr>sg_roomId = cr_id room, sg_roomName = cr_name room,
      sg_suitabilityScore =
        max 0 (roomTypeScore prefs room + capacityScore classSection room + featureScore room),
      sg_reasons =
        (case find (\<lambda>srt. srt_roomTypeId srt = cr_roomTypeId room) prefs of
           Some p \<Rightarrow> [if srt_priority p = 1 then ''Preferred room type'' else ''Suitable room type'']
                       @ (if srt_isRequired p then [''Required room type''] else [])
         | None \<Rightarrow> []) @
        (if cs_studentCount classSection \<le> cr_capacity room \<and>
            4 / 5 < (of_nat (cs_studentCount classSection) :: rat) / of_nat (cr_capacity room)
         then [''Good capacity utilization'']
         else if cs_studentCount classSection \<le> cr_capacity room \<and>
            1 / 2 < (of_nat (cs_studentCount classSection) :: rat) / of_nat (cr_capacity room)
         then [''Adequate capacity''] else []) @
        (if ''Projector'' \<in> set (cr_features room) \<and> ''Whiteboard'' \<in> set (cr_features room)
         then [''Has required features''] else []),
      sg_warnings =
        (if find (\<lambda>srt. srt_roomTypeId srt = cr_roomTypeId room) prefs = None \<and> prefs \<noteq> []
         then [''Not a preferred room type for this subject''] else []) @
        (if cr_capacity room < cs_studentCount classSection
         then [''Insufficient capacity ('' @ show_nat (cr_capacity room) @ '' < ''
                 @ show_nat (cs_studentCount classSection) @ '')'']
         else if (of_nat (cs_studentCount classSection) :: rat) / of_nat (cr_capacity room) \<le> 1 / 2
         then [''Room may be too large''] else []) @
        (if ''Projector'' \<in> set (cr_features room) \<and> ''Whiteboard'' \<in> set (cr_features room)
         then [] else [''Missing some required features''])\<rparr>"
  unfolding scoreRoom_def checkRoomType_tally checkCapacity_tally checkFeatures_tally
  by simp

lemma generateRoomSuggestions_found:
  assumes "find (\<lambda>s. sub_id s = te_subjectId entry) (subjects st) = Some subject"
    and "find (\<lambda>c. cs_id c = te_classId entry) (classSections st) = Some classSection"
  shows "generateRoomSuggestions st entry =
           sort_key (\<lambda>s. - sg_suitabilityScore s)
             (map (scoreRoom (subjectRoomPreferences st entry) classSection) (availableRooms st entry))"
  using assms by (simp add: generateRoomSuggestions_def)

lemma generateRoomSuggestions_not_found:
  assumes "find (\<lambda>s. sub_id s = te_subjectId entry) (subjects st) = None \<or>
           find (\<lambda>c. cs_id c = te_classId entry) (classSections st) = None"
  shows "generateRoomSuggestions st entry = []"
  using assms by (auto simp: generateRoomSuggestions_def split: option.splits)

lemma descending_sort_key:
  "sorted_wrt (\<lambda>a b. sg_suitabilityScore b \<le> sg_suitabilityScore a)
     (sort_key (\<lambda>s. - sg_suitabilityScore s) xs)"
proof -
  have "sorted (map (\<lambda>s. - sg_suitabilityScore s) (sort_key (\<lambda>s. - sg_suitabilityScore s) xs))"
    by (rule sorted_sort_key)
  then show ?thesis by (simp add: sorted_map)
qed

lemma ties_sort_key:
  "filter (\<lambda>s. sg_suitabilityScore s = k) (sort_key (\<lambda>s. - sg_suitabilityScore s) xs)
     = filter (\<lambda>s. sg_suitabilityScore s = k) xs"
  using sort_key_stable [of "\<lambda>s. - sg_suitabilityScore s" "- k" xs] by simp

lemma preference_row_unique:
  assumes r: "r \<in> set (subjectRoomTypes st)" "srt_subjectId r = te_subjectId entry"
    and u: "\<forall>r'\<in>set (subjectRoomTypes st).
              srt_subjectId r' = te_subjectId entry \<and> srt_roomTypeId r' = srt_roomTypeId r \<longrightarrow> r' = r"
  shows "find (\<lambda>srt. srt_roomTypeId srt = srt_roomTypeId r) (subjectRoomPreferences st entry) = Some r"
proof (cases "find (\<lambda>srt. srt_roomTypeId srt = srt_roomTypeId r) (subjectRoomPreferences st entry)")
  case None
  with r show ?thesis by (auto simp: find_None_iff subjectRoomPreferences_def)
next
  case (Some x)
  then have "x \<in> set (subjectRoomPreferences st entry)" "srt_roomTypeId x = srt_roomTypeId r"
    by (auto simp: find_Some_iff)
  then have "x \<in> set (subjectRoomTypes st)" "srt_subjectId x = te_subjectId entry"
    "srt_roomTypeId x = srt_roomTypeId r"
    by (simp_all add: subjectRoomPreferences_def)
  with u have "x = r" by blast
  with Some show ?thesis by simp
qed

text \<open>
  Claim C4, as the code has it. For a lesson whose subject and class are found in the
  reference data, every active room that is not occupied at the lesson's slot is scored
  with the sum of the three contributions of the specification, clamped below at 0; the
  returned list is in descending order of score and keeps the rooms of equal score in
  the order of the room catalogue. In a table with one row per subject and room type
  the preference that counts for a room is that row. For a lesson whose subject or
  class is not found the list is empty.
\<close>

theorem generateRoomSuggestions_scores:
  "(\<forall>subject classSection.
      find (\<lambda>s. sub_id s = te_subjectId entry) (subjects st) = Some subject \<and>
      find (\<lambda>c. cs_id c = te_classId entry) (classSections st) = Some classSection \<longrightarrow>
      (\<exists>scored.
         map (\<lambda>s. (sg_roomId s, sg_roomName s, sg_suitabilityScore s)) scored
           = map (\<lambda>room. (cr_id room, cr_name room,
                    max 0 (roomTypeScore (subjectRoomPreferences st entry) room
                           + capacityScore classSection room + featureScore room)))
               (filter (\<lambda>room. cr_isActive room \<and> cr_id room \<notin> set (occupiedRooms st entry))
                  (classrooms st)) \<and>
         sorted_wrt (\<lambda>a b. sg_suitabilityScore b \<le> sg_suitabilityScore a) (generateRoomSuggestions st entry) \<and>
         (\<forall>k. filter (\<lambda>s. sg_suitabilityScore s = k) (generateRoomSuggestions st entry)
                = filter (\<lambda>s. sg_suitabilityScore s = k) scored))) \<and>
   (\<forall>r\<in>set (subjectRoomTypes st).
      srt_subjectId r = te_subjectId entry \<and>
      (\<forall>r'\<in>set (subjectRoomTypes st).
         srt_subjectId r' = te_subjectId entry \<and> srt_roomTypeId r' = srt_roomTypeId r \<longrightarrow> r' = r) \<longrightarrow>
      find (\<lambda>srt. srt_roomTypeId srt = srt_roomTypeId r) (subjectRoomPreferences st entry) = Some r) \<and>
   (find (\<lambda>s. sub_id s = te_subjectId entry) (subjects st) = None \<or>
    find (\<lambda>c. cs_id c = te_classId entry) (classSections st) = None \<longrightarrow>
      generateRoomSuggestions st entry = [])"
proof (intro conjI allI impI ballI)
  fix subject classSection
  assume found: "find (\<lambda>s. sub_id s = te_subjectId entry) (subjects st) = Some subject \<and>
      find (\<lambda>c. cs_id c = te_classId entry) (classSections st) = Some classSection"
  let ?scored = "map (scoreRoom (subjectRoomPreferences st entry) classSection) (availableRooms st entry)"
  have out: "generateRoomSuggestions st entry = sort_key (\<lambda>s. - sg_suitabilityScore s) ?scored"
    using found generateRoomSuggestions_found by blast
  have a: "map (\<lambda>s. (sg_roomId s, sg_roomName s, sg_suitabilityScore s)) ?scored
           = map (\<lambda>room. (cr_id room, cr_name room,
                    max 0 (roomTypeScore (subjectRoomPreferences st entry) room
                           + capacityScore classSection room + featureScore room)))
               (filter (\<lambda>room. cr_isActive room \<and> cr_id room \<notin> set (occupiedRooms st entry))
                  (classrooms st))"
    by (simp add: availableRooms_def scoreRoom_tally)
  have b: "sorted_wrt (\<lambda>a b. sg_suitabilityScore b \<le> sg_suitabilityScore a) (generateRoomSuggestions st entry)"
    unfolding out by (rule descending_sort_key)
  have c: "\<forall>k. filter (\<lambda>s. sg_suitabilityScore s = k) (generateRoomSuggestions st entry)
                = filter (\<lambda>s. sg_suitabilityScore s = k) ?scored"
    unfolding out by (simp only: ties_sort_key) simp
  from a b c show "\<exists>scored.
         map (\<lambda>s. (sg_roomId s, sg_roomName s, sg_suitabilityScore s)) scored
           = map (\<lambda>room. (cr_id room, cr_name room,
                    max 0 (roomTypeScore (subjectRoomPreferences st entry) room
                           + capacityScore classSection room + featureScore room)))
               (filter (\<lambda>room. cr_isActive room \<and> cr_id room \<notin> set (occupiedRooms st entry))
                  (classrooms st)) \<and>
         sorted_wrt (\<lambda>a b. sg_suitabilityScore b \<le> sg_suitabilityScore a) (generateRoomSuggestions st entry) \<and>
         (\<forall>k. filter (\<lambda>s. sg_suitabilityScore s = k) (generateRoomSuggestions st entry)
                = filter (\<lambda>s. sg_suitabilityScore s = k) scored)"
    by blast
next
  fix r
  assume "r \<in> set (subjectRoomTypes st)"
    and "srt_subjectId r = te_subjectId entry \<and>
      (\<forall>r'\<in>set (subjectRoomTypes st).
         srt_subjectId r' = te_subjectId entry \<and> srt_roomTypeId r' = srt_roomTypeId r \<longrightarrow> r' = r)"
  then show "find (\<lambda>srt. srt_roomTypeId srt = srt_roomTypeId r) (subjectRoomPreferences st entry) = Some r"
    using preference_row_unique by blast
next
  assume "find (\<lambda>s. sub_id s = te_subjectId entry) (subjects st) = None \<or>
    find (\<lambda>c. cs_id c = te_classId entry) (classSections st) = None"
  then show "generateRoomSuggestions st entry = []" by (rule generateRoomSuggestions_not_found)
qed

theorem generateRoomSuggestions_scores_witness:
  "find (\<lambda>s. sub_id s = te_subjectId (lesson ''e1'' ''1'' ''1'' ''1'' ''Monday'' 1)) (subjects exhaustion)
     = Some mathematics \<and>
   find (\<lambda>c. cs_id c = te_classId (lesson ''e1'' ''1'' ''1'' ''1'' ''Monday'' 1)) (classSections exhaustion)
     = Some grade9A \<and>
   sorted_wrt (\<lambda>a b. sg_suitabilityScore b \<le> sg_suitabilityScore a)
     (generateRoomSuggestions exhaustion (lesson ''e1'' ''1'' ''1'' ''1'' ''Monday'' 1)) \<and>
   map (\<lambda>s. (sg_roomId s, sg_suitabilityScore s))
     (generateRoomSuggestions exhaustion (lesson ''e1'' ''1'' ''1'' ''1'' ''Monday'' 1))
     = [(''r1'', 115), (''r2'', 115), (''r3'', 0)]"
proof -
  have s: "find (\<lambda>s. sub_id s = te_subjectId (lesson ''e1'' ''1'' ''1'' ''1'' ''Monday'' 1)) (subjects exhaustion)
     = Some mathematics"
    by (simp add: example_defs)
  have c: "find (\<lambda>c. cs_id c = te_classId (lesson ''e1'' ''1'' ''1'' ''1'' ''Monday'' 1)) (classSections exhaustion)
     = Some grade9A"
    by (simp add: example_defs)
  from generateRoomSuggestions_scores [of "lesson ''e1'' ''1'' ''1'' ''1'' ''Monday'' 1" exhaustion] s c
  have d: "sorted_wrt (\<lambda>a b. sg_suitabilityScore b \<le> sg_suitabilityScore a)
     (generateRoomSuggestions exhaustion (lesson ''e1'' ''1'' ''1'' ''1'' ''Monday'' 1))"
    by blast
  have run: "map (\<lambda>s. (sg_roomId s, sg_suitabilityScore s))
     (generateRoomSuggestions exhaustion (lesson ''e1'' ''1'' ''1'' ''1'' ''Monday'' 1))
     = [(''r1'', 115), (''r2'', 115), (''r3'', 0)]"
    by (simp add: scorer_defs example_defs)
  from s c d run show ?thesis by (intro conjI)
qed

text \<open>
  Claim C4 as stated fails for a lesson whose class is not found, such as a lesson
  placed in teacher view, which has the empty string for its class: three rooms are
  active and free at its slot, and none is scored.
\<close>

theorem generateRoomSuggestions_unknown_class_counterexample:
  "map cr_id (availableRooms exhaustion (lesson ''e9'' [] ''1'' ''1'' ''Tuesday'' 1)) = [''r1'', ''r2'', ''r3''] \<and>
   generateRoomSuggestions exhaustion (lesson ''e9'' [] ''1'' ''1'' ''Tuesday'' 1) = []"
  by (simp add: scorer_defs example_defs)

text \<open>
  Claim C5, as the code has it. The reasons and the warnings of a scored room are each
  the concatenation of what the three rules append. A rule that adds to the score
  appends a reason, except the capacity rule where the class fills at most half of the
  room: it adds 5 and appends the warning that the room may be too large. A rule that
  subtracts appends a warning, and so does the feature rule when a required feature is
  missing, which leaves the score as it is. Every suggestion returned for a lesson is
  a room scored in this way.
\<close>

theorem scoreRoom_explanations:
  "sg_reasons (scoreRoom prefs classSection room) =
        (case find (\<lambda>srt. srt_roomTypeId srt = cr_roomTypeId room) prefs of
           Some p \<Rightarrow> [if srt_priority p = 1 then ''Preferred room type'' else ''Suitable room type'']
                       @ (if srt_isRequired p then [''Required room type''] else [])
         | None \<Rightarrow> []) @
        (if cs_studentCount classSection \<le> cr_capacity room \<and>
            4 / 5 < (of_nat (cs_studentCount classSection) :: rat) / of_nat (cr_capacity room)
         then [''Good capacity utilization'']
         else if cs_studentCount classSection \<le> cr_capacity room \<and>
            1 / 2 < (of_nat (cs_studentCount classSection) :: rat) / of_nat (cr_capacity room)
         then [''Adequate capacity''] else []) @
        (if ''Projector'' \<in> set (cr_features room) \<and> ''Whiteboard'' \<in> set (cr_features room)
         then [''Has required features''] else []) \<and>
   sg_warnings (scoreRoom prefs classSection room) =
        (if find (\<lambda>srt. srt_roomTypeId srt = cr_roomTypeId room) prefs = None \<and> prefs \<noteq> []
         then [''Not a preferred room type for this subject''] else []) @
        (if cr_capacity room < cs_studentCount classSection
         then [''Insufficient capacity ('' @ show_nat (cr_capacity room) @ '' < ''
                 @ show_nat (cs_studentCount classSection) @ '')'']
         else if (of_nat (cs_studentCount classSection) :: rat) / of_nat (cr_capacity room) \<le> 1 / 2
         then [''Room may be too large''] else []) @
        (if ''Projector'' \<in> set (cr_features room) \<and> ''Whiteboard'' \<in> set (cr_features room)
         then [] else [''Missing some required features'']) \<and>
   (capacityScore classSection room = 5 \<longrightarrow>
      ''Room may be too large'' \<in> set (sg_warnings (scoreRoom prefs classSection room))) \<and>
   (featureScore room = 0 \<longrightarrow>
      ''Missing some required features'' \<in> set (sg_warnings (scoreRoom prefs classSection room))) \<and>
   (\<forall>s\<in>set (generateRoomSuggestions st entry).
      \<exists>classSection room. s = scoreRoom (subjectRoomPreferences st entry) classSection room)"
proof (intro conjI impI ballI)
  show "sg_reasons (scoreRoom prefs classSection room) =
        (case find (\<lambda>srt. srt_roomTypeId srt = cr_roomTypeId room) prefs of
           Some p \<Rightarrow> [if srt_priority p = 1 then ''Preferred room type'' else ''Suitable room type'']
                       @ (if srt_isRequired p then [''Required room type''] else [])
         | None \<Rightarrow> []) @
        (if cs_studentCount classSection \<le> cr_capacity room \<and>
            4 / 5 < (of_nat (cs_studentCount classSection) :: rat) / of_nat (cr_capacity room)
         then [''Good capacity utilization'']
         else if cs_studentCount classSection \<le> cr_capacity room \<and>
            1 / 2 < (of_nat (cs_studentCount classSection) :: rat) / of_nat (cr_capacity room)
         then [''Adequate capacity''] else []) @
        (if ''Projector'' \<in> set (cr_features room) \<and> ''Whiteboard'' \<in> set (cr_features room)
         then [''Has required features''] else [])"
    by (simp only: scoreRoom_tally RoomSuggestion.simps)
next
  show w: "sg_warnings (scoreRoom prefs classSection room) =
        (if find (\<lambda>srt. srt_roomTypeId srt = cr_roomTypeId room) prefs = None \<and> prefs \<noteq> []
         then [''Not a preferred room type for this subject''] else []) @
        (if cr_capacity room < cs_studentCount classSection
         then [''Insufficient capacity ('' @ show_nat (cr_capacity room) @ '' < ''
                 @ show_nat (cs_studentCount classSection) @ '')'']
         else if (of_nat (cs_studentCount classSection) :: rat) / of_nat (cr_capacity room) \<le> 1 / 2
         then [''Room may be too large''] else []) @
        (if ''Projector'' \<in> set (cr_features room) \<and> ''Whiteboard'' \<in> set (cr_features room)
         then [] else [''Missing some required features''])"
    by (simp only: scoreRoom_tally RoomSuggestion.simps)
  {
    assume "capacityScore classSection room = 5"
    then have "\<not> cr_capacity room < cs_studentCount classSection"
      and "(of_nat (cs_studentCount classSection) :: rat) / of_nat (cr_capacity room) \<le> 1 / 2"
      by (simp_all add: capacityScore_def not_less split: if_splits)
    then show "''Room may be too large'' \<in> set (sg_warnings (scoreRoom prefs classSection room))"
      unfolding w by simp
  }
  {
    assume "featureScore room = 0"
    then have "\<not> (''Projector'' \<in> set (cr_features room) \<and> ''Whiteboard'' \<in> set (cr_features room))"
      by (simp add: featureScore_def split: if_splits)
    then show "''Missing some required features'' \<in> set (sg_warnings (scoreRoom prefs classSection room))"
      unfolding w by simp
  }
next
  fix s
  assume "s \<in> set (generateRoomSuggestions st entry)"
  then show "\<exists>classSection room. s = scoreRoom (subjectRoomPreferences st entry) classSection room"
    by (auto simp: generateRoomSuggestions_def split: option.splits)
qed

theorem scoreRoom_explanations_witness:
  "capacityScore grade9A auditorium = 5 \<and>
   ''Room may be too large'' \<in> set (sg_warnings (scoreRoom [mathPreference] grade9A auditorium)) \<and>
   roomTypeScore [mathPreference] auditorium = 90 \<and> featureScore auditorium = 10"
proof -
  have h: "capacityScore grade9A auditorium = 5"
    by (simp add: capacityScore_def auditorium_def example_defs)
  from scoreRoom_explanations [of "[mathPreference]" grade9A auditorium] h
  have "''Room may be too large'' \<in> set (sg_warnings (scoreRoom [mathPreference] grade9A auditorium))"
    by blast
  moreover have "roomTypeScore [mathPreference] auditorium = 90"
    by (simp add: roomTypeScore_def auditorium_def example_defs)
  moreover have "featureScore auditorium = 10"
    by (simp add: featureScore_def auditorium_def example_defs)
  ultimately show ?thesis using h by (intro conjI)
qed

text \<open>
  Claim C5 as stated fails: for the first lesson and the auditorium every rule adds to
  the score, 90 for the preferred type, 5 for the capacity and 10 for the features, and
  the suggestion carries a warning.
\<close>

theorem generateRoomSuggestions_warning_counterexample:
  "generateRoomSuggestions oversized (lesson ''e1'' ''1'' ''1'' ''1'' ''Monday'' 1)
     = [\<lparr>sg_roomId = ''r4'', sg_roomName = ''Auditorium'', sg_suitabilityScore = 105,
         sg_reasons = [''Preferred room type'', ''Has required features''],
         sg_warnings = [''Room may be too large'']\<rparr>]"
  by (simp add: scorer_defs oversized_def auditorium_def example_defs)

section \<open>Properties of the constraint validation\<close>

lemma checkTeacherSlot_step:
  "checkTeacherSlot teachers (m, acc) e =
     (m(te_teacherId e \<mapsto>
          insert (slotKey (te_day e) (te_period e))
            (case m (te_teacherId e) of None \<Rightarrow> {} | Some s \<Rightarrow> s)),
      acc @ (if slotKey (te_day e) (te_period e) \<in> (case m (te_teacherId e) of None \<Rightarrow> {} | Some s \<Rightarrow> s)
             then [\<lparr>cf_type = teacher_double_booking,
                    cf_message = TeacherDoubleBooked
                       (map_option t_name (find (\<lambda>t. t_id t = te_teacherId e) teachers))
                       (te_day e) (te_period e),
                    cf_severity = Error,
                    cf_affectedEntries = [te_id e]\<rparr>]
             else []))"
  by (simp add: checkTeacherSlot_def Let_def)

lemma seen_slots_step:
  assumes "\<forall>t. (case m t of None \<Rightarrow> {} | Some s \<Rightarrow> s)
              = {slotKey (te_day x) (te_period x) | x. x \<in> (seen :: TimetableEntry set) \<and> te_teacherId x = t}"
  shows "\<forall>t. (case (m(te_teacherId e \<mapsto>
                    insert (slotKey (te_day e) (te_period e))
                      (case m (te_teacherId e) of None \<Rightarrow> {} | Some s \<Rightarrow> s))) t of
               None \<Rightarrow> {} | Some s \<Rightarrow> s)
              = {slotKey (te_day x) (te_period x) | x. x \<in> insert e seen \<and> te_teacherId x = t}"
proof
  fix t
  show "(case (m(te_teacherId e \<mapsto>
                    insert (slotKey (te_day e) (te_period e))
                      (case m (te_teacherId e) of None \<Rightarrow> {} | Some s \<Rightarrow> s))) t of
               None \<Rightarrow> {} | Some s \<Rightarrow> s)
              = {slotKey (te_day x) (te_period x) | x. x \<in> insert e seen \<and> te_teacherId x = t}"
  proof (cases "t = te_teacherId e")
    case True
    have "(case m (te_teacherId e) of None \<Rightarrow> {} | Some s \<Rightarrow> s)
            = {slotKey (te_day x) (te_period x) | x. x \<in> seen \<and> te_teacherId x = te_teacherId e}"
      using assms by blast
    with True show ?thesis by auto
  next
    case False
    have "(case m t of None \<Rightarrow> {} | Some s \<Rightarrow> s)
            = {slotKey (te_day x) (te_period x) | x. x \<in> seen \<and> te_teacherId x = t}"
      using assms by blast
    with False show ?thesis by auto
  qed
qed

lemma seen_slots_member:
  assumes "\<forall>t. (case m t of None \<Rightarrow> {} | Some s \<Rightarrow> s)
              = {slotKey (te_day x) (te_period x) | x. x \<in> (seen :: TimetableEntry set) \<and> te_teacherId x = t}"
  shows "slotKey (te_day e) (te_period e) \<in> (case m (te_teacherId e) of None \<Rightarrow> {} | Some s \<Rightarrow> s)
           \<longleftrightarrow> (\<exists>x\<in>seen. te_teacherId x = te_teacherId e \<and> te_day x = te_day e \<and> te_period x = te_period e)"
proof -
  have eq: "(case m (te_teacherId e) of None \<Rightarrow> {} | Some s \<Rightarrow> s)
            = {slotKey (te_day x) (te_period x) | x. x \<in> seen \<and> te_teacherId x = te_teacherId e}"
    using assms by blast
  show ?thesis unfolding eq by (simp add: slotKey_inj) metis
qed

lemma beyond_first_step:
  assumes ih: "filter P offs = (if \<exists>x\<in>insert e seen. P x then filter P es else tl (filter P es))"
    and off: "b \<longleftrightarrow> (\<exists>x\<in>seen. Q x)"
    and pq: "P e \<Longrightarrow> (\<forall>x. Q x \<longleftrightarrow> P x)"
  shows "filter P ((if b then [e] else []) @ offs)
           = (if \<exists>x\<in>seen. P x then filter P (e # es) else tl (filter P (e # es)))"
proof (cases "P e")
  case True
  then have "b \<longleftrightarrow> (\<exists>x\<in>seen. P x)" using off pq by simp
  moreover have "filter P offs = filter P es" using ih True by simp
  ultimately show ?thesis using True by simp
next
  case False
  then have "(\<exists>x\<in>insert e seen. P x) \<longleftrightarrow> (\<exists>x\<in>seen. P x)" by simp
  with ih False show ?thesis by simp
qed

lemma foldl_checkTeacherSlot:
  assumes "\<forall>t. (case m t of None \<Rightarrow> {} | Some s \<Rightarrow> s)
              = {slotKey (te_day x) (te_period x) | x. x \<in> (seen :: TimetableEntry set) \<and> te_teacherId x = t}"
  shows "\<exists>offending.
     snd (foldl (checkTeacherSlot teachers) (m, acc) es)
       = acc @ map (\<lambda>e. \<lparr>cf_type = teacher_double_booking,
                    cf_message = TeacherDoubleBooked
                       (map_option t_name (find (\<lambda>t. t_id t = te_teacherId e) teachers))
                       (te_day e) (te_period e),
                    cf_severity = Error,
                    cf_affectedEntries = [te_id e]\<rparr>) offending \<and>
     (\<forall>t d p. filter (\<lambda>e. te_teacherId e = t \<and> te_day e = d \<and> te_period e = p) offending
        = (if \<exists>x\<in>seen. te_teacherId x = t \<and> te_day x = d \<and> te_period x = p
           then filter (\<lambda>e. te_teacherId e = t \<and> te_day e = d \<and> te_period e = p) es
           else tl (filter (\<lambda>e. te_teacherId e = t \<and> te_day e = d \<and> te_period e = p) es)))"
  using assms
proof (induction es arbitrary: m acc seen)
  case Nil
  have "snd (foldl (checkTeacherSlot teachers) (m, acc) []) = acc @ map (\<lambda>e. \<lparr>cf_type = teacher_double_booking,
                    cf_message = TeacherDoubleBooked
                       (map_option t_name (find (\<lambda>t. t_id t = te_teacherId e) teachers))
                       (te_day e) (te_period e),
                    cf_severity = Error,
                    cf_affectedEntries = [te_id e]\<rparr>) []"
    by simp
  moreover have "\<forall>t d p. filter (\<lambda>e. te_teacherId e = t \<and> te_day e = d \<and> te_period e = p) []
        = (if \<exists>x\<in>seen. te_teacherId x = t \<and> te_day x = d \<and> te_period x = p
           then filter (\<lambda>e. te_teacherId e = t \<and> te_day e = d \<and> te_period e = p) []
           else tl (filter (\<lambda>e. te_teacherId e = t \<and> te_day e = d \<and> te_period e = p) []))"
    by simp
  ultimately show ?case by blast
next
  case (Cons e es)
  let ?mk = "\<lambda>e. \<lparr>cf_type = teacher_double_booking,
                    cf_message = TeacherDoubleBooked
                       (map_option t_name (find (\<lambda>t. t_id t = te_teacherId e) teachers))
                       (te_day e) (te_period e),
                    cf_severity = Error,
                    cf_affectedEntries = [te_id e]\<rparr>"
  let ?slots = "case m (te_teacherId e) of None \<Rightarrow> {} | Some s \<Rightarrow> s"
  let ?b = "slotKey (te_day e) (te_period e) \<in> ?slots"
  let ?m' = "m(te_teacherId e \<mapsto> insert (slotKey (te_day e) (te_period e)) ?slots)"
  let ?acc' = "acc @ (if ?b then [?mk e] else [])"
  have step: "foldl (checkTeacherSlot teachers) (m, acc) (e # es)
                = foldl (checkTeacherSlot teachers) (?m', ?acc') es"
    by (simp only: foldl_Cons checkTeacherSlot_step)
  from Cons.IH [OF seen_slots_step [OF Cons.prems, of e], of ?acc']
  obtain offs where run: "snd (foldl (checkTeacherSlot teachers) (?m', ?acc') es) = ?acc' @ map ?mk offs"
    and rest: "\<forall>t d p. filter (\<lambda>e. te_teacherId e = t \<and> te_day e = d \<and> te_period e = p) offs
        = (if \<exists>x\<in>insert e seen. te_teacherId x = t \<and> te_day x = d \<and> te_period x = p
           then filter (\<lambda>e. te_teacherId e = t \<and> te_day e = d \<and> te_period e = p) es
           else tl (filter (\<lambda>e. te_teacherId e = t \<and> te_day e = d \<and> te_period e = p) es))"
    by blast
  have a: "snd (foldl (checkTeacherSlot teachers) (m, acc) (e # es))
             = acc @ map ?mk ((if ?b then [e] else []) @ offs)"
    unfolding step run by simp
  have b: "\<forall>t d p. filter (\<lambda>e. te_teacherId e = t \<and> te_day e = d \<and> te_period e = p)
                       ((if ?b then [e] else []) @ offs)
        = (if \<exists>x\<in>seen. te_teacherId x = t \<and> te_day x = d \<and> te_period x = p
           then filter (\<lambda>e. te_teacherId e = t \<and> te_day e = d \<and> te_period e = p) (e # es)
           else tl (filter (\<lambda>e. te_teacherId e = t \<and> te_day e = d \<and> te_period e = p) (e # es)))"
  proof (intro allI)
    fix t d p
    show "filter (\<lambda>e. te_teacherId e = t \<and> te_day e = d \<and> te_period e = p)
                       ((if ?b then [e] else []) @ offs)
        = (if \<exists>x\<in>seen. te_teacherId x = t \<and> te_day x = d \<and> te_period x = p
           then filter (\<lambda>e. te_teacherId e = t \<and> te_day e = d \<and> te_period e = p) (e # es)
           else tl (filter (\<lambda>e. te_teacherId e = t \<and> te_day e = d \<and> te_period e = p) (e # es)))"
    proof (rule beyond_first_step
        [where Q = "\<lambda>x. te_teacherId x = te_teacherId e \<and> te_day x = te_day e \<and> te_period x = te_period e"])
      show "filter (\<lambda>e. te_teacherId e = t \<and> te_day e = d \<and> te_period e = p) offs
        = (if \<exists>x\<in>insert e seen. te_teacherId x = t \<and> te_day x = d \<and> te_period x = p
           then filter (\<lambda>e. te_teacherId e = t \<and> te_day e = d \<and> te_period e = p) es
           else tl (filter (\<lambda>e. te_teacherId e = t \<and> te_day e = d \<and> te_period e = p) es))"
        using rest by blast
      show "?b \<longleftrightarrow> (\<exists>x\<in>seen. te_teacherId x = te_teacherId e \<and> te_day x = te_day e \<and> te_period x = te_period e)"
        by (rule seen_slots_member [OF Cons.prems])
      show "te_teacherId e = t \<and> te_day e = d \<and> te_period e = p \<Longrightarrow>
            \<forall>x. (te_teacherId x = te_teacherId e \<and> te_day x = te_day e \<and> te_period x = te_period e)
              \<longleftrightarrow> (te_teacherId x = t \<and> te_day x = d \<and> te_period x = p)"
        by simp
    qed
  qed
  from a b show ?case by blast
qed

lemma checkTeacherHours_step:
  "checkTeacherHours teachers entries acc (tid, hours) =
     acc @ (case find (\<lambda>t. t_id t = tid) teachers of
              None \<Rightarrow> []
            | Some teacher \<Rightarrow>
                if t_weeklyHourLimit teacher < hours
                then [\<lparr>cf_type = teacher_overload,
                       cf_message = ExceedsWeeklyLimit (t_name teacher) hours (t_weeklyHourLimit teacher),
                       cf_severity = Warning,
                       cf_affectedEntries = map te_id (filter (\<lambda>e. te_teacherId e = tid) entries)\<rparr>]
                else [])"
  by (simp add: checkTeacherHours_def split: option.splits)

lemma foldl_checkTeacherHours:
  "foldl (checkTeacherHours teachers entries) acc hs =
     acc @ concat (map (\<lambda>(tid, hours).
            case find (\<lambda>t. t_id t = tid) teachers of
              None \<Rightarrow> []
            | Some teacher \<Rightarrow>
                if t_weeklyHourLimit teacher < hours
                then [\<lparr>cf_type = teacher_overload,
                       cf_message = ExceedsWeeklyLimit (t_name teacher) hours (t_weeklyHourLimit teacher),
                       cf_severity = Warning,
                       cf_affectedEntries = map te_id (filter (\<lambda>e. te_teacherId e = tid) entries)\<rparr>]
                else []) hs)"
proof (induction hs arbitrary: acc)
  case Nil
  show ?case by simp
next
  case (Cons h hs)
  obtain tid hours where h: "h = (tid, hours)" by (cases h)
  show ?case unfolding h by (simp only: foldl_Cons checkTeacherHours_step Cons.IH) simp
qed

lemma list_all_nil: "list_all P []"
  by simp

lemma checkRoomSlot_step:
  "\<exists>m' cs. checkRoomSlot rooms (m, acc) e = (m', acc @ cs) \<and> list_all (\<lambda>c. cf_type c = room_clash) cs"
proof (cases "te_roomId e")
  case None
  then have "checkRoomSlot rooms (m, acc) e = (m, acc @ [])" by (simp add: checkRoomSlot_def)
  then show ?thesis using list_all_nil [of "\<lambda>c. cf_type c = room_clash"] by blast
next
  case (Some roomId)
  show ?thesis
  proof (cases "roomId = []")
    case True
    with Some have "checkRoomSlot rooms (m, acc) e = (m, acc @ [])" by (simp add: checkRoomSlot_def)
    then show ?thesis using list_all_nil [of "\<lambda>c. cf_type c = room_clash"] by blast
  next
    case False
    show ?thesis
    proof (cases "slotKey (te_day e) (te_period e) \<in> (case m roomId of None \<Rightarrow> {} | Some s \<Rightarrow> s)")
      case True
      with Some False have "checkRoomSlot rooms (m, acc) e =
        (m(roomId \<mapsto> insert (slotKey (te_day e) (te_period e)) (case m roomId of None \<Rightarrow> {} | Some s \<Rightarrow> s)),
         acc @ [\<lparr>cf_type = room_clash,
                  cf_message = RoomDoubleBooked
                     (map_option rm_name (find (\<lambda>r. rm_id r = roomId) rooms))
                     (te_day e) (te_period e),
                  cf_severity = Error,
                  cf_affectedEntries = [te_id e]\<rparr>])"
        by (simp add: checkRoomSlot_def Let_def)
      moreover have "list_all (\<lambda>c. cf_type c = room_clash)
               [\<lparr>cf_type = room_clash,
                  cf_message = RoomDoubleBooked
                     (map_option rm_name (find (\<lambda>r. rm_id r = roomId) rooms))
                     (te_day e) (te_period e),
                  cf_severity = Error,
                  cf_affectedEntries = [te_id e]\<rparr>]"
        by simp
      ultimately show ?thesis by blast
    next
      case notin: False
      with Some False have "checkRoomSlot rooms (m, acc) e =
        (m(roomId \<mapsto> insert (slotKey (te_day e) (te_period e)) (case m roomId of None \<Rightarrow> {} | Some s \<Rightarrow> s)),
         acc @ [])"
        by (simp add: checkRoomSlot_def Let_def)
      then show ?thesis using list_all_nil [of "\<lambda>c. cf_type c = room_clash"] by blast
    qed
  qed
qed

lemma foldl_checkRoomSlot:
  "\<exists>cs. snd (foldl (checkRoomSlot rooms) (m, acc) es) = acc @ cs \<and>
         list_all (\<lambda>c. cf_type c = room_clash) cs"
proof (induction es arbitrary: m acc)
  case Nil
  have "snd (foldl (checkRoomSlot rooms) (m, acc) []) = acc @ []" by simp
  then show ?case using list_all_nil [of "\<lambda>c. cf_type c = room_clash"] by blast
next
  case (Cons e es)
  obtain m' cs1 where s: "checkRoomSlot rooms (m, acc) e = (m', acc @ cs1)"
    and c1: "list_all (\<lambda>c. cf_type c = room_clash) cs1"
    using checkRoomSlot_step by blast
  obtain cs2 where r: "snd (foldl (checkRoomSlot rooms) (m', acc @ cs1) es) = (acc @ cs1) @ cs2"
    and c2: "list_all (\<lambda>c. cf_type c = room_clash) cs2"
    using Cons.IH by blast
  have "snd (foldl (checkRoomSlot rooms) (m, acc) (e # es)) = acc @ (cs1 @ cs2)"
    by (simp only: foldl_Cons s r append_assoc)
  moreover have "list_all (\<lambda>c. cf_type c = room_clash) (cs1 @ cs2)"
    using c1 c2 by simp
  ultimately show ?case by blast
qed

lemma filter_none:
  "list_all P xs \<Longrightarrow> (\<And>x. P x \<Longrightarrow> \<not> Q x) \<Longrightarrow> filter Q xs = []"
  by (induction xs) auto

lemma filter_all:
  "list_all P xs \<Longrightarrow> (\<And>x. P x \<Longrightarrow> Q x) \<Longrightarrow> filter Q xs = xs"
  by (induction xs) auto

lemma overloads_typed:
  "list_all (\<lambda>c. cf_type c = teacher_overload)
     (concat (map (\<lambda>(tid, hours).
            case find (\<lambda>t. t_id t = tid) teachers of
              None \<Rightarrow> []
            | Some teacher \<Rightarrow>
                if t_weeklyHourLimit teacher < hours
                then [\<lparr>cf_type = teacher_overload,
                       cf_message = ExceedsWeeklyLimit (t_name teacher) hours (t_weeklyHourLimit teacher),
                       cf_severity = Warning,
                       cf_affectedEntries = map te_id (filter (\<lambda>e. te_teacherId e = tid) entries)\<rparr>]
                else []) hs))"
  by (induction hs) (auto split: option.splits)

lemma double_bookings_typed:
  "list_all (\<lambda>c. cf_type c = teacher_double_booking)
     (map (\<lambda>e. \<lparr>cf_type = teacher_double_booking,
                    cf_message = TeacherDoubleBooked
                       (map_option t_name (find (\<lambda>t. t_id t = te_teacherId e) teachers))
                       (te_day e) (te_period e),
                    cf_severity = Error,
                    cf_affectedEntries = [te_id e]\<rparr>) offending)"
  by (induction offending) simp_all

lemma validateConstraints_parts:
  "\<exists>offending clashes.
     validateConstraints teachers rooms periodDuration entries
       = map (\<lambda>e. \<lparr>cf_type = teacher_double_booking,
                    cf_message = TeacherDoubleBooked
                       (map_option t_name (find (\<lambda>t. t_id t = te_teacherId e) teachers))
                       (te_day e) (te_period e),
                    cf_severity = Error,
                    cf_affectedEntries = [te_id e]\<rparr>) offending
         @ concat (map (\<lambda>(tid, hours).
            case find (\<lambda>t. t_id t = tid) teachers of
              None \<Rightarrow> []
            | Some teacher \<Rightarrow>
                if t_weeklyHourLimit teacher < hours
                then [\<lparr>cf_type = teacher_overload,
                       cf_message = ExceedsWeeklyLimit (t_name teacher) hours (t_weeklyHourLimit teacher),
                       cf_severity = Warning,
                       cf_affectedEntries = map te_id (filter (\<lambda>e. te_teacherId e = tid) entries)\<rparr>]
                else []) (foldl (addTeacherHours periodDuration) [] entries))
         @ clashes \<and>
     list_all (\<lambda>c. cf_type c = room_clash) clashes \<and>
     (\<forall>t d p. filter (\<lambda>e. te_teacherId e = t \<and> te_day e = d \<and> te_period e = p) offending
        = tl (filter (\<lambda>e. te_teacherId e = t \<and> te_day e = d \<and> te_period e = p) entries))"
proof -
  let ?mk = "\<lambda>e. \<lparr>cf_type = teacher_double_booking,
                    cf_message = TeacherDoubleBooked
                       (map_option t_name (find (\<lambda>t. t_id t = te_teacherId e) teachers))
                       (te_day e) (te_period e),
                    cf_severity = Error,
                    cf_affectedEntries = [te_id e]\<rparr>"
  let ?ws = "concat (map (\<lambda>(tid, hours).
            case find (\<lambda>t. t_id t = tid) teachers of
              None \<Rightarrow> []
            | Some teacher \<Rightarrow>
                if t_weeklyHourLimit teacher < hours
                then [\<lparr>cf_type = teacher_overload,
                       cf_message = ExceedsWeeklyLimit (t_name teacher) hours (t_weeklyHourLimit teacher),
                       cf_severity = Warning,
                       cf_affectedEntries = map te_id (filter (\<lambda>e. te_teacherId e = tid) entries)\<rparr>]
                else []) (foldl (addTeacherHours periodDuration) [] entries))"
  have start: "\<forall>t. (case Map.empty t of None \<Rightarrow> {} | Some s \<Rightarrow> s)
              = {slotKey (te_day x) (te_period x) | x. x \<in> ({} :: TimetableEntry set) \<and> te_teacherId x = t}"
    by simp
  from foldl_checkTeacherSlot [OF start, of teachers "[]" entries]
  obtain offending where first: "snd (foldl (checkTeacherSlot teachers) (Map.empty, []) entries) = map ?mk offending"
    and beyond: "\<forall>t d p. filter (\<lambda>e. te_teacherId e = t \<and> te_day e = d \<and> te_period e = p) offending
        = tl (filter (\<lambda>e. te_teacherId e = t \<and> te_day e = d \<and> te_period e = p) entries)"
    by auto
  have second: "foldl (checkTeacherHours teachers entries) (map ?mk offending)
                  (foldl (addTeacherHours periodDuration) [] entries) = map ?mk offending @ ?ws"
    by (rule foldl_checkTeacherHours)
  from foldl_checkRoomSlot [of rooms Map.empty "map ?mk offending @ ?ws" entries]
  obtain clashes where third: "snd (foldl (checkRoomSlot rooms) (Map.empty, map ?mk offending @ ?ws) entries)
                                 = (map ?mk offending @ ?ws) @ clashes"
    and typed: "list_all (\<lambda>c. cf_type c = room_clash) clashes"
    by blast
  have "validateConstraints teachers rooms periodDuration entries = map ?mk offending @ ?ws @ clashes"
    unfolding validateConstraints_def Let_def first second third by simp
  with typed beyond show ?thesis by blast
qed

text \<open>
  Claim C2. The conflicts of type \<^verbatim>\<open>teacher_double_booking\<close> that
  \<^verbatim>\<open>validateConstraints\<close> returns are, in order, one conflict of severity error per
  offending entry, listing the id of that entry alone; and for every teacher, day and
  period the offending entries of that teacher at that slot are the teacher's entries
  at the slot without the first one: \<open>m - 1\<close> of them where the teacher has \<open>m\<close>
  entries at the slot.
\<close>

theorem validateConstraints_double_booking:
  "\<exists>offending.
     filter (\<lambda>c. cf_type c = teacher_double_booking)
       (validateConstraints teachers rooms periodDuration entries)
       = map (\<lambda>e. \<lparr>cf_type = teacher_double_booking,
                    cf_message = TeacherDoubleBooked
                       (map_option t_name (find (\<lambda>t. t_id t = te_teacherId e) teachers))
                       (te_day e) (te_period e),
                    cf_severity = Error,
                    cf_affectedEntries = [te_id e]\<rparr>) offending \<and>
     (\<forall>t d p.
        filter (\<lambda>e. te_teacherId e = t \<and> te_day e = d \<and> te_period e = p) offending
          = tl (filter (\<lambda>e. te_teacherId e = t \<and> te_day e = d \<and> te_period e = p) entries) \<and>
        length (filter (\<lambda>e. te_teacherId e = t \<and> te_day e = d \<and> te_period e = p) offending)
          = length (filter (\<lambda>e. te_teacherId e = t \<and> te_day e = d \<and> te_period e = p) entries) - 1)"
proof -
  let ?mk = "\<lambda>e. \<lparr>cf_type = teacher_double_booking,
                    cf_message = TeacherDoubleBooked
                       (map_option t_name (find (\<lambda>t. t_id t = te_teacherId e) teachers))
                       (te_day e) (te_period e),
                    cf_severity = Error,
                    cf_affectedEntries = [te_id e]\<rparr>"
  let ?ws = "concat (map (\<lambda>(tid, hours).
            case find (\<lambda>t. t_id t = tid) teachers of
              None \<Rightarrow> []
            | Some teacher \<Rightarrow>
                if t_weeklyHourLimit teacher < hours
                then [\<lparr>cf_type = teacher_overload,
                       cf_message = ExceedsWeeklyLimit (t_name teacher) hours (t_weeklyHourLimit teacher),
                       cf_severity = Warning,
                       cf_affectedEntries = map te_id (filter (\<lambda>e. te_teacherId e = tid) entries)\<rparr>]
                else []) (foldl (addTeacherHours periodDuration) [] entries))"
  from validateConstraints_parts [of teachers rooms periodDuration entries]
  obtain offending clashes
    where parts: "validateConstraints teachers rooms periodDuration entries = map ?mk offending @ ?ws @ clashes"
      and typed: "list_all (\<lambda>c. cf_type c = room_clash) clashes"
      and beyond: "\<forall>t d p. filter (\<lambda>e. te_teacherId e = t \<and> te_day e = d \<and> te_period e = p) offending
        = tl (filter (\<lambda>e. te_teacherId e = t \<and> te_day e = d \<and> te_period e = p) entries)"
    by blast
  have 1: "filter (\<lambda>c. cf_type c = teacher_double_booking) (map ?mk offending) = map ?mk offending"
    by (rule filter_all [OF double_bookings_typed]) simp
  have 2: "filter (\<lambda>c. cf_type c = teacher_double_booking) ?ws = []"
    by (rule filter_none [OF overloads_typed]) simp
  have 3: "filter (\<lambda>c. cf_type c = teacher_double_booking) clashes = []"
    by (rule filter_none [OF typed]) simp
  have a: "filter (\<lambda>c. cf_type c = teacher_double_booking)
             (validateConstraints teachers rooms periodDuration entries) = map ?mk offending"
    unfolding parts filter_append 1 2 3 by simp
  have b: "\<forall>t d p.
        filter (\<lambda>e. te_teacherId e = t \<and> te_day e = d \<and> te_period e = p) offending
          = tl (filter (\<lambda>e. te_teacherId e = t \<and> te_day e = d \<and> te_period e = p) entries) \<and>
        length (filter (\<lambda>e. te_teacherId e = t \<and> te_day e = d \<and> te_period e = p) offending)
          = length (filter (\<lambda>e. te_teacherId e = t \<and> te_day e = d \<and> te_period e = p) entries) - 1"
    using beyond by (simp only: length_tl) simp
  from a b show ?thesis by blast
qed

lemmas validate_defs =
  validateConstraints_def checkTeacherSlot_def addTeacherHours_def checkTeacherHours_def
  checkRoomSlot_def Let_def slotKey_inj

theorem validateConstraints_double_booking_witness:
  "(\<exists>offending :: TimetableEntry list.
     filter (\<lambda>c. cf_type c = teacher_double_booking)
       (validateConstraints [sarahJohnson] [] 45
          [lesson ''a'' ''1'' ''1'' ''1'' ''Monday'' 3, lesson ''b'' ''2'' ''1'' ''1'' ''Monday'' 3])
       = map (\<lambda>e. \<lparr>cf_type = teacher_double_booking,
                    cf_message = TeacherDoubleBooked
                       (map_option t_name (find (\<lambda>t. t_id t = te_teacherId e) [sarahJohnson]))
                       (te_day e) (te_period e),
                    cf_severity = Error,
                    cf_affectedEntries = [te_id e]\<rparr>) offending \<and>
     length (filter (\<lambda>e. te_teacherId e = ''1'' \<and> te_day e = ''Monday'' \<and> te_period e = 3) offending) = 1) \<and>
   validateConstraints [sarahJohnson] [] 45
      [lesson ''a'' ''1'' ''1'' ''1'' ''Monday'' 3, lesson ''b'' ''2'' ''1'' ''1'' ''Monday'' 3]
     = [\<lparr>cf_type = teacher_double_booking,
         cf_message = TeacherDoubleBooked (Some ''Dr. Sarah Johnson'') ''Monday'' 3,
         cf_severity = Error,
         cf_affectedEntries = [''b'']\<rparr>]"
proof -
  have two: "length (filter (\<lambda>e. te_teacherId e = ''1'' \<and> te_day e = ''Monday'' \<and> te_period e = 3)
               [lesson ''a'' ''1'' ''1'' ''1'' ''Monday'' 3, lesson ''b'' ''2'' ''1'' ''1'' ''Monday'' 3]) - 1 = 1"
    by (simp add: lesson_def)
  from validateConstraints_double_booking [of "[sarahJohnson]" "[]" 45
      "[lesson ''a'' ''1'' ''1'' ''1'' ''Monday'' 3, lesson ''b'' ''2'' ''1'' ''1'' ''Monday'' 3]"]
  obtain offending where both: "filter (\<lambda>c. cf_type c = teacher_double_booking)
       (validateConstraints [sarahJohnson] [] 45
          [lesson ''a'' ''1'' ''1'' ''1'' ''Monday'' 3, lesson ''b'' ''2'' ''1'' ''1'' ''Monday'' 3])
       = map (\<lambda>e. \<lparr>cf_type = teacher_double_booking,
                    cf_message = TeacherDoubleBooked
                       (map_option t_name (find (\<lambda>t. t_id t = te_teacherId e) [sarahJohnson]))
                       (te_day e) (te_period e),
                    cf_severity = Error,
                    cf_affectedEntries = [te_id e]\<rparr>) offending \<and>
     (\<forall>t d p.
        filter (\<lambda>e. te_teacherId e = t \<and> te_day e = d \<and> te_period e = p) offending
          = tl (filter (\<lambda>e. te_teacherId e = t \<and> te_day e = d \<and> te_period e = p)
                 [lesson ''a'' ''1'' ''1'' ''1'' ''Monday'' 3, lesson ''b'' ''2'' ''1'' ''1'' ''Monday'' 3]) \<and>
        length (filter (\<lambda>e. te_teacherId e = t \<and> te_day e = d \<and> te_period e = p) offending)
          = length (filter (\<lambda>e. te_teacherId e = t \<and> te_day e = d \<and> te_period e = p)
                 [lesson ''a'' ''1'' ''1'' ''1'' ''Monday'' 3, lesson ''b'' ''2'' ''1'' ''1'' ''Monday'' 3]) - 1)" ..
  note o = conjunct1 [OF both]
  note l = conjunct2 [OF conjunct2 [OF both, rule_format, of "''1''" "''Monday''" 3]]
  from l two have l1: "length (filter (\<lambda>e. te_teacherId e = ''1'' \<and> te_day e = ''Monday'' \<and> te_period e = 3) offending) = 1"
    by simp
  have run: "validateConstraints [sarahJohnson] [] 45
      [lesson ''a'' ''1'' ''1'' ''1'' ''Monday'' 3, lesson ''b'' ''2'' ''1'' ''1'' ''Monday'' 3]
     = [\<lparr>cf_type = teacher_double_booking,
         cf_message = TeacherDoubleBooked (Some ''Dr. Sarah Johnson'') ''Monday'' 3,
         cf_severity = Error,
         cf_affectedEntries = [''b'']\<rparr>]"
    by (simp add: validate_defs lesson_def sarahJohnson_def)
  from o l1 have "filter (\<lambda>c. cf_type c = teacher_double_booking)
       (validateConstraints [sarahJohnson] [] 45
          [lesson ''a'' ''1'' ''1'' ''1'' ''Monday'' 3, lesson ''b'' ''2'' ''1'' ''1'' ''Monday'' 3])
       = map (\<lambda>e. \<lparr>cf_type = teacher_double_booking,
                    cf_message = TeacherDoubleBooked
                       (map_option t_name (find (\<lambda>t. t_id t = te_teacherId e) [sarahJohnson]))
                       (te_day e) (te_period e),
                    cf_severity = Error,
                    cf_affectedEntries = [te_id e]\<rparr>) offending \<and>
     length (filter (\<lambda>e. te_teacherId e = ''1'' \<and> te_day e = ''Monday'' \<and> te_period e = 3) offending) = 1"
    by (rule conjI)
  then have "\<exists>offending :: TimetableEntry list. filter (\<lambda>c. cf_type c = teacher_double_booking)
       (validateConstraints [sarahJohnson] [] 45
          [lesson ''a'' ''1'' ''1'' ''1'' ''Monday'' 3, lesson ''b'' ''2'' ''1'' ''1'' ''Monday'' 3])
       = map (\<lambda>e. \<lparr>cf_type = teacher_double_booking,
                    cf_message = TeacherDoubleBooked
                       (map_option t_name (find (\<lambda>t. t_id t = te_teacherId e) [sarahJohnson]))
                       (te_day e) (te_period e),
                    cf_severity = Error,
                    cf_affectedEntries = [te_id e]\<rparr>) offending \<and>
     length (filter (\<lambda>e. te_teacherId e = ''1'' \<and> te_day e = ''Monday'' \<and> te_period e = 3) offending) = 1"
    by (rule exI [where x = offending])
  then show ?thesis using run by (rule conjI)
qed

section \<open>Properties of the teacher hours\<close>

lemma map_of_mapSet: "map_of (mapSet m k v) = (map_of m)(k \<mapsto> v)"
  by (induction m k v rule: mapSet.induct) (auto simp: fun_eq_iff)

lemma keys_mapSet: "fst ` set (mapSet m k v) = insert k (fst ` set m)"
  by (induction m k v rule: mapSet.induct) auto

lemma distinct_mapSet: "distinct (map fst m) \<Longrightarrow> distinct (map fst (mapSet m k v))"
proof (induction m k v rule: mapSet.induct)
  case (1 k v)
  show ?case by simp
next
  case (2 k' v' m k v)
  show ?case
  proof (cases "k' = k")
    case True
    with 2 show ?thesis by simp
  next
    case False
    from 2(2) have d: "distinct (map fst m)" and n: "k' \<notin> fst ` set m" by simp_all
    from 2(1) [OF False d] have "distinct (map fst (mapSet m k v))" .
    moreover have "k' \<notin> fst ` set (mapSet m k v)" using n False by (simp add: keys_mapSet)
    ultimately show ?thesis using False by simp
  qed
qed

lemma scheduledHours_Cons:
  "scheduledHours pd (e # es) tid
     = (if te_teacherId e = tid then of_nat pd / 60 else 0) + scheduledHours pd es tid"
  by (simp add: scheduledHours_def algebra_simps)

lemma scheduledHours_absent: "tid \<notin> te_teacherId ` set es \<Longrightarrow> scheduledHours pd es tid = 0"
proof -
  assume "tid \<notin> te_teacherId ` set es"
  then have "filter (\<lambda>e. te_teacherId e = tid) es = []" by (auto simp: filter_empty_conv)
  then show ?thesis by (simp add: scheduledHours_def)
qed

lemma addTeacherHours_map_of:
  "map_of (addTeacherHours pd hs e)
     = (map_of hs)(te_teacherId e \<mapsto>
          (case map_of hs (te_teacherId e) of None \<Rightarrow> 0 | Some h \<Rightarrow> h) + of_nat pd / 60)"
  by (simp add: addTeacherHours_def Let_def map_of_mapSet)

lemma addTeacherHours_distinct:
  "distinct (map fst hs) \<Longrightarrow> distinct (map fst (addTeacherHours pd hs e))"
  by (simp add: addTeacherHours_def Let_def distinct_mapSet)

lemma foldl_addTeacherHours_distinct:
  "distinct (map fst hs) \<Longrightarrow> distinct (map fst (foldl (addTeacherHours pd) hs es))"
proof (induction es arbitrary: hs)
  case Nil
  then show ?case by simp
next
  case (Cons e es)
  from Cons.prems have "distinct (map fst (addTeacherHours pd hs e))" by (rule addTeacherHours_distinct)
  then have "distinct (map fst (foldl (addTeacherHours pd) (addTeacherHours pd hs e) es))" by (rule Cons.IH)
  then show ?case by (simp only: foldl_Cons)
qed

lemma foldl_addTeacherHours_map_of:
  "map_of (foldl (addTeacherHours pd) hs es) tid
     = (if tid \<in> te_teacherId ` set es
        then Some ((case map_of hs tid of None \<Rightarrow> 0 | Some h \<Rightarrow> h) + scheduledHours pd es tid)
        else map_of hs tid)"
proof (induction es arbitrary: hs)
  case Nil
  show ?case by simp
next
  case (Cons e es)
  let ?hs = "addTeacherHours pd hs e"
  have ih: "map_of (foldl (addTeacherHours pd) ?hs es) tid
     = (if tid \<in> te_teacherId ` set es
        then Some ((case map_of ?hs tid of None \<Rightarrow> 0 | Some h \<Rightarrow> h) + scheduledHours pd es tid)
        else map_of ?hs tid)"
    by (rule Cons.IH)
  show ?case
  proof (cases "tid = te_teacherId e")
    case True
    have now: "map_of ?hs tid = Some ((case map_of hs tid of None \<Rightarrow> 0 | Some h \<Rightarrow> h) + of_nat pd / 60)"
      unfolding True addTeacherHours_map_of by simp
    show ?thesis
    proof (cases "tid \<in> te_teacherId ` set es")
      case in_rest: True
      have "map_of (foldl (addTeacherHours pd) hs (e # es)) tid
              = Some (((case map_of hs tid of None \<Rightarrow> 0 | Some h \<Rightarrow> h) + of_nat pd / 60)
                        + scheduledHours pd es tid)"
        using ih in_rest now by simp
      moreover have "scheduledHours pd (e # es) tid = of_nat pd / 60 + scheduledHours pd es tid"
        using True by (simp add: scheduledHours_Cons)
      ultimately show ?thesis using True by simp
    next
      case not_in_rest: False
      have "map_of (foldl (addTeacherHours pd) hs (e # es)) tid
              = Some ((case map_of hs tid of None \<Rightarrow> 0 | Some h \<Rightarrow> h) + of_nat pd / 60)"
        using ih not_in_rest now by simp
      moreover have "scheduledHours pd (e # es) tid = of_nat pd / 60"
        using True scheduledHours_absent [OF not_in_rest, of pd] by (simp add: scheduledHours_Cons)
      ultimately show ?thesis using True by simp
    qed
  next
    case False
    have now: "map_of ?hs tid = map_of hs tid"
      unfolding addTeacherHours_map_of using False by simp
    have s: "scheduledHours pd (e # es) tid = scheduledHours pd es tid"
      using False by (simp add: scheduledHours_Cons)
    have m: "tid \<in> te_teacherId ` set (e # es) \<longleftrightarrow> tid \<in> te_teacherId ` set es"
      using False by auto
    have "map_of (foldl (addTeacherHours pd) hs (e # es)) tid
            = (if tid \<in> te_teacherId ` set es
               then Some ((case map_of hs tid of None \<Rightarrow> 0 | Some h \<Rightarrow> h) + scheduledHours pd es tid)
               else map_of hs tid)"
      using ih now by simp
    then show ?thesis unfolding s m .
  qed
qed

lemma teacherHours_member:
  "(tid, h) \<in> set (foldl (addTeacherHours pd) [] entries)
     \<longleftrightarrow> tid \<in> te_teacherId ` set entries \<and> h = scheduledHours pd entries tid"
proof -
  have d: "distinct (map fst (foldl (addTeacherHours pd) [] entries))"
    by (rule foldl_addTeacherHours_distinct) simp
  have "(tid, h) \<in> set (foldl (addTeacherHours pd) [] entries)
          \<longleftrightarrow> map_of (foldl (addTeacherHours pd) [] entries) tid = Some h"
    using map_of_eq_Some_iff [OF d] by simp
  also have "\<dots> \<longleftrightarrow> tid \<in> te_teacherId ` set entries \<and> h = scheduledHours pd entries tid"
    unfolding foldl_addTeacherHours_map_of by auto
  finally show ?thesis .
qed

lemma find_teacher:
  "find (\<lambda>t. t_id t = tid) teachers = Some t \<Longrightarrow> t_id t = tid \<and> t \<in> set teachers"
  by (auto simp: find_Some_iff)

lemma overload_of_pair:
  assumes "h = scheduledHours pd entries tid"
  shows "(case find (\<lambda>t. t_id t = tid) teachers of
              None \<Rightarrow> []
            | Some teacher \<Rightarrow>
                if t_weeklyHourLimit teacher < h
                then [\<lparr>cf_type = teacher_overload,
                       cf_message = ExceedsWeeklyLimit (t_name teacher) h (t_weeklyHourLimit teacher),
                       cf_severity = Warning,
                       cf_affectedEntries = map te_id (filter (\<lambda>e. te_teacherId e = tid) entries)\<rparr>]
                else [])
         = map (\<lambda>t. \<lparr>cf_type = teacher_overload,
                      cf_message = ExceedsWeeklyLimit (t_name t) (scheduledHours pd entries (t_id t))
                                     (t_weeklyHourLimit t),
                      cf_severity = Warning,
                      cf_affectedEntries = map te_id (filter (\<lambda>e. te_teacherId e = t_id t) entries)\<rparr>)
             (case find (\<lambda>t. t_id t = tid) teachers of
                  None \<Rightarrow> []
                | Some teacher \<Rightarrow> if t_weeklyHourLimit teacher < h then [teacher] else [])"
proof (cases "find (\<lambda>t. t_id t = tid) teachers")
  case None
  then show ?thesis by simp
next
  case (Some t)
  from find_teacher [OF Some] have i: "t_id t = tid" by (rule conjunct1)
  show ?thesis
  proof (cases "t_weeklyHourLimit t < h")
    case True
    then show ?thesis unfolding Some option.case assms [symmetric] by (simp add: i assms)
  next
    case False
    then show ?thesis unfolding Some option.case by simp
  qed
qed

lemma overloads_as_map:
  assumes "list_all (\<lambda>(tid, h). h = scheduledHours pd entries tid) L"
  shows "concat (map (\<lambda>(tid, hours).
            case find (\<lambda>t. t_id t = tid) teachers of
              None \<Rightarrow> []
            | Some teacher \<Rightarrow>
                if t_weeklyHourLimit teacher < hours
                then [\<lparr>cf_type = teacher_overload,
                       cf_message = ExceedsWeeklyLimit (t_name teacher) hours (t_weeklyHourLimit teacher),
                       cf_severity = Warning,
                       cf_affectedEntries = map te_id (filter (\<lambda>e. te_teacherId e = tid) entries)\<rparr>]
                else []) L)
         = map (\<lambda>t. \<lparr>cf_type = teacher_overload,
                      cf_message = ExceedsWeeklyLimit (t_name t) (scheduledHours pd entries (t_id t))
                                     (t_weeklyHourLimit t),
                      cf_severity = Warning,
                      cf_affectedEntries = map te_id (filter (\<lambda>e. te_teacherId e = t_id t) entries)\<rparr>)
             (concat (map (\<lambda>(tid, hours).
                case find (\<lambda>t. t_id t = tid) teachers of
                  None \<Rightarrow> []
                | Some teacher \<Rightarrow> if t_weeklyHourLimit teacher < hours then [teacher] else []) L))"
  using assms
proof (induction L)
  case Nil
  show ?case by simp
next
  case (Cons a L)
  obtain tid h where a: "a = (tid, h)" by (cases a)
  from Cons.prems have h: "h = scheduledHours pd entries tid"
    and rest: "list_all (\<lambda>(tid, h). h = scheduledHours pd entries tid) L"
    unfolding a by simp_all
  note ih = Cons.IH [OF rest]
  note hd = overload_of_pair [OF h, of teachers]
  show ?case unfolding a list.map concat.simps prod.case map_append ih hd ..
qed

lemma selected_set:
  "t \<in> set (concat (map (\<lambda>(tid, hours).
                case find (\<lambda>t. t_id t = tid) teachers of
                  None \<Rightarrow> []
                | Some teacher \<Rightarrow> if t_weeklyHourLimit teacher < hours then [teacher] else []) L))
     \<longleftrightarrow> (\<exists>tid h. (tid, h) \<in> set L \<and> find (\<lambda>x. t_id x = tid) teachers = Some t \<and>
                  t_weeklyHourLimit t < h)"
proof (induction L)
  case Nil
  show ?case by simp
next
  case (Cons a L)
  obtain tid0 h0 where a: "a = (tid0, h0)" by (cases a)
  have head: "t \<in> set (case find (\<lambda>t. t_id t = tid0) teachers of
                  None \<Rightarrow> []
                | Some teacher \<Rightarrow> if t_weeklyHourLimit teacher < h0 then [teacher] else [])
              \<longleftrightarrow> find (\<lambda>x. t_id x = tid0) teachers = Some t \<and> t_weeklyHourLimit t < h0"
    by (cases "find (\<lambda>t. t_id t = tid0) teachers") auto
  have "t \<in> set (concat (map (\<lambda>(tid, hours).
                case find (\<lambda>t. t_id t = tid) teachers of
                  None \<Rightarrow> []
                | Some teacher \<Rightarrow> if t_weeklyHourLimit teacher < hours then [teacher] else []) (a # L)))
        \<longleftrightarrow> (find (\<lambda>x. t_id x = tid0) teachers = Some t \<and> t_weeklyHourLimit t < h0) \<or>
            (\<exists>tid h. (tid, h) \<in> set L \<and> find (\<lambda>x. t_id x = tid) teachers = Some t \<and>
                  t_weeklyHourLimit t < h)"
    unfolding a using head Cons.IH by simp
  also have "\<dots> \<longleftrightarrow> (\<exists>tid h. (tid, h) \<in> set (a # L) \<and> find (\<lambda>x. t_id x = tid) teachers = Some t \<and>
                  t_weeklyHourLimit t < h)"
    unfolding a by auto
  finally show ?case .
qed

lemma selected_distinct:
  assumes "distinct (map fst L)"
  shows "distinct (map t_id (concat (map (\<lambda>(tid, hours).
                case find (\<lambda>t. t_id t = tid) teachers of
                  None \<Rightarrow> []
                | Some teacher \<Rightarrow> if t_weeklyHourLimit teacher < hours then [teacher] else []) L)))"
  using assms
proof (induction L)
  case Nil
  show ?case by simp
next
  case (Cons a L)
  obtain tid h where a: "a = (tid, h)" by (cases a)
  from Cons.prems have fresh: "tid \<notin> fst ` set L" and d: "distinct (map fst L)" by (simp_all add: a)
  note ih = Cons.IH [OF d]
  have other: "\<And>t. t \<in> set (concat (map (\<lambda>(tid, hours).
                case find (\<lambda>t. t_id t = tid) teachers of
                  None \<Rightarrow> []
                | Some teacher \<Rightarrow> if t_weeklyHourLimit teacher < hours then [teacher] else []) L))
              \<Longrightarrow> t_id t \<noteq> tid"
  proof
    fix t
    assume "t \<in> set (concat (map (\<lambda>(tid, hours).
                case find (\<lambda>t. t_id t = tid) teachers of
                  None \<Rightarrow> []
                | Some teacher \<Rightarrow> if t_weeklyHourLimit teacher < hours then [teacher] else []) L))"
      and e: "t_id t = tid"
    then obtain tid' h' where m: "(tid', h') \<in> set L" and f: "find (\<lambda>x. t_id x = tid') teachers = Some t"
      unfolding selected_set by blast
    from find_teacher [OF f] have "t_id t = tid'" by (rule conjunct1)
    with e m have "tid \<in> fst ` set L" by force
    with fresh show False by simp
  qed
  show ?case
  proof (cases "find (\<lambda>t. t_id t = tid) teachers")
    case None
    then show ?thesis unfolding a using ih by simp
  next
    case (Some t)
    from find_teacher [OF Some] have i: "t_id t = tid" by (rule conjunct1)
    define rest where "rest = concat (map (\<lambda>(tid, hours).
                case find (\<lambda>t. t_id t = tid) teachers of
                  None \<Rightarrow> []
                | Some teacher \<Rightarrow> if t_weeklyHourLimit teacher < hours then [teacher] else []) L)"
    from other have "\<And>x. x \<in> set rest \<Longrightarrow> t_id x \<noteq> tid" unfolding rest_def .
    then have out: "tid \<notin> t_id ` set rest" by (simp only: image_iff) metis
    from ih have dr: "distinct (map t_id rest)" unfolding rest_def .
    have "distinct (map t_id ((if t_weeklyHourLimit t < h then [t] else []) @ rest))"
      using out dr i by simp
    then show ?thesis
      unfolding a list.map concat.simps prod.case Some option.case rest_def .
  qed
qed

lemma distinct_singleton:
  assumes "distinct xs" "set xs = {x}"
  shows "xs = [x]"
proof (cases xs)
  case Nil
  with assms(2) show ?thesis by simp
next
  case outer: (Cons a ys)
  have "a \<in> set xs" unfolding outer by simp
  then have ax: "a = x" unfolding assms(2) by simp
  have "ys = []"
  proof (cases ys)
    case Nil
    then show ?thesis .
  next
    case (Cons b zs)
    have "b \<in> set xs" unfolding outer Cons by simp
    then have "b = x" unfolding assms(2) by simp
    moreover have "b \<noteq> a" using assms(1) unfolding outer Cons by auto
    ultimately show ?thesis using ax by simp
  qed
  with outer ax show ?thesis by simp
qed

text \<open>
  Claim C3. With no negative weekly limit in the teacher registry, the conflicts of
  type \<^verbatim>\<open>teacher_overload\<close> that \<^verbatim>\<open>validateConstraints\<close> returns are one
  warning per overloaded teacher: the overloaded teachers are a list without
  repetition of exactly those registered teachers whose scheduled hours, the number of
  their entries times the duration of a period in hours, exceed their weekly limit, and
  the warning of a teacher lists the ids of all entries of that teacher. The hours are
  exact rationals, as the source computes them for the period of 45 minutes.
\<close>

theorem validateConstraints_overload:
  assumes "list_all (\<lambda>t. 0 \<le> t_weeklyHourLimit t) teachers"
  shows "\<exists>overloaded.
     distinct (map t_id overloaded) \<and>
     set overloaded
       = {t. find (\<lambda>x. t_id x = t_id t) teachers = Some t \<and>
             t_weeklyHourLimit t < scheduledHours periodDuration entries (t_id t)} \<and>
     filter (\<lambda>c. cf_type c = teacher_overload)
       (validateConstraints teachers rooms periodDuration entries)
       = map (\<lambda>t. \<lparr>cf_type = teacher_overload,
                    cf_message = ExceedsWeeklyLimit (t_name t)
                                   (scheduledHours periodDuration entries (t_id t)) (t_weeklyHourLimit t),
                    cf_severity = Warning,
                    cf_affectedEntries = map te_id (filter (\<lambda>e. te_teacherId e = t_id t) entries)\<rparr>)
           overloaded"
proof -
  let ?H = "foldl (addTeacherHours periodDuration) [] entries"
  let ?mkdb = "\<lambda>e. \<lparr>cf_type = teacher_double_booking,
                    cf_message = TeacherDoubleBooked
                       (map_option t_name (find (\<lambda>t. t_id t = te_teacherId e) teachers))
                       (te_day e) (te_period e),
                    cf_severity = Error,
                    cf_affectedEntries = [te_id e]\<rparr>"
  let ?ws = "concat (map (\<lambda>(tid, hours).
            case find (\<lambda>t. t_id t = tid) teachers of
              None \<Rightarrow> []
            | Some teacher \<Rightarrow>
                if t_weeklyHourLimit teacher < hours
                then [\<lparr>cf_type = teacher_overload,
                       cf_message = ExceedsWeeklyLimit (t_name teacher) hours (t_weeklyHourLimit teacher),
                       cf_severity = Warning,
                       cf_affectedEntries = map te_id (filter (\<lambda>e. te_teacherId e = tid) entries)\<rparr>]
                else []) ?H)"
  let ?ts = "concat (map (\<lambda>(tid, hours).
                case find (\<lambda>t. t_id t = tid) teachers of
                  None \<Rightarrow> []
                | Some teacher \<Rightarrow> if t_weeklyHourLimit teacher < hours then [teacher] else []) ?H)"
  let ?mk = "\<lambda>t. \<lparr>cf_type = teacher_overload,
                    cf_message = ExceedsWeeklyLimit (t_name t)
                                   (scheduledHours periodDuration entries (t_id t)) (t_weeklyHourLimit t),
                    cf_severity = Warning,
                    cf_affectedEntries = map te_id (filter (\<lambda>e. te_teacherId e = t_id t) entries)\<rparr>"
  from validateConstraints_parts [of teachers rooms periodDuration entries]
  obtain offending :: "TimetableEntry list" and clashes
    where parts: "validateConstraints teachers rooms periodDuration entries = map ?mkdb offending @ ?ws @ clashes"
      and typed: "list_all (\<lambda>c. cf_type c = room_clash) clashes"
    by blast
  have 1: "filter (\<lambda>c. cf_type c = teacher_overload) (map ?mkdb offending) = []"
    by (rule filter_none [OF double_bookings_typed]) simp
  have 2: "filter (\<lambda>c. cf_type c = teacher_overload) ?ws = ?ws"
    by (rule filter_all [OF overloads_typed]) simp
  have 3: "filter (\<lambda>c. cf_type c = teacher_overload) clashes = []"
    by (rule filter_none [OF typed]) simp
  have out: "filter (\<lambda>c. cf_type c = teacher_overload)
               (validateConstraints teachers rooms periodDuration entries) = ?ws"
    unfolding parts filter_append 1 2 3 by simp
  have exact: "list_all (\<lambda>(tid, h). h = scheduledHours periodDuration entries tid) ?H"
    unfolding list_all_iff using teacherHours_member by fastforce
  have ws: "?ws = map ?mk ?ts" by (rule overloads_as_map [OF exact])
  have d: "distinct (map t_id ?ts)"
    by (rule selected_distinct) (rule foldl_addTeacherHours_distinct, simp)
  have s: "set ?ts = {t. find (\<lambda>x. t_id x = t_id t) teachers = Some t \<and>
             t_weeklyHourLimit t < scheduledHours periodDuration entries (t_id t)}"
  proof (intro set_eqI iffI)
    fix t
    assume "t \<in> set ?ts"
    then obtain tid h where m: "(tid, h) \<in> set ?H" and f: "find (\<lambda>x. t_id x = tid) teachers = Some t"
      and l: "t_weeklyHourLimit t < h"
      unfolding selected_set by blast
    from find_teacher [OF f] have i: "t_id t = tid" by (rule conjunct1)
    from m have "h = scheduledHours periodDuration entries tid" by (simp add: teacherHours_member)
    with f l i show "t \<in> {t. find (\<lambda>x. t_id x = t_id t) teachers = Some t \<and>
             t_weeklyHourLimit t < scheduledHours periodDuration entries (t_id t)}"
      by simp
  next
    fix t
    assume "t \<in> {t. find (\<lambda>x. t_id x = t_id t) teachers = Some t \<and>
             t_weeklyHourLimit t < scheduledHours periodDuration entries (t_id t)}"
    then have f: "find (\<lambda>x. t_id x = t_id t) teachers = Some t"
      and l: "t_weeklyHourLimit t < scheduledHours periodDuration entries (t_id t)"
      by simp_all
    from find_teacher [OF f] have "t \<in> set teachers" by (rule conjunct2)
    with assms have "0 \<le> t_weeklyHourLimit t" by (simp add: list_all_iff)
    with l have pos: "0 < scheduledHours periodDuration entries (t_id t)" by simp
    have "t_id t \<in> te_teacherId ` set entries"
    proof (rule ccontr)
      assume "t_id t \<notin> te_teacherId ` set entries"
      then have "scheduledHours periodDuration entries (t_id t) = 0" by (rule scheduledHours_absent)
      with pos show False by simp
    qed
    then have "(t_id t, scheduledHours periodDuration entries (t_id t)) \<in> set ?H"
      by (simp add: teacherHours_member)
    with f l show "t \<in> set ?ts" unfolding selected_set by blast
  qed
  from d s out ws show ?thesis by (intro exI [of _ ?ts] conjI) simp_all
qed

lemma thirtyLessons_length: "length thirtyLessons = 30"
  by (simp add: thirtyLessons_def DAYS_def)

lemma thirtyLessons_teacher: "filter (\<lambda>e. te_teacherId e = ''4'') thirtyLessons = thirtyLessons"
  by (rule filter_True) (simp add: thirtyLessons_def lesson_def)

lemma thirtyLessons_hours: "scheduledHours 45 thirtyLessons ''4'' = 45 / 2"
  unfolding scheduledHours_def thirtyLessons_teacher thirtyLessons_length by simp

lemma michaelBrown_overloaded:
  "{t. find (\<lambda>x. t_id x = t_id t) [michaelBrown] = Some t \<and>
       t_weeklyHourLimit t < scheduledHours 45 thirtyLessons (t_id t)} = {michaelBrown}"
proof (intro set_eqI iffI)
  fix t
  assume "t \<in> {t. find (\<lambda>x. t_id x = t_id t) [michaelBrown] = Some t \<and>
       t_weeklyHourLimit t < scheduledHours 45 thirtyLessons (t_id t)}"
  then have "find (\<lambda>x. t_id x = t_id t) [michaelBrown] = Some t" by simp
  then have "t = michaelBrown" by (simp split: if_splits)
  then show "t \<in> {michaelBrown}" by simp
next
  fix t
  assume "t \<in> {michaelBrown}"
  then have t: "t = michaelBrown" by simp
  have i: "t_id michaelBrown = ''4''" and l: "t_weeklyHourLimit michaelBrown = 20"
    by (simp_all add: michaelBrown_def)
  have "find (\<lambda>x. t_id x = t_id michaelBrown) [michaelBrown] = Some michaelBrown" by simp
  moreover have "t_weeklyHourLimit michaelBrown < scheduledHours 45 thirtyLessons (t_id michaelBrown)"
    unfolding i l thirtyLessons_hours by simp
  ultimately show "t \<in> {t. find (\<lambda>x. t_id x = t_id t) [michaelBrown] = Some t \<and>
       t_weeklyHourLimit t < scheduledHours 45 thirtyLessons (t_id t)}"
    unfolding t by simp
qed

theorem validateConstraints_overload_witness:
  "list_all (\<lambda>t. 0 \<le> t_weeklyHourLimit t) [michaelBrown] \<and>
   t_weeklyHourLimit michaelBrown = 20 \<and>
   length thirtyLessons = 30 \<and>
   filter (\<lambda>e. te_teacherId e = t_id michaelBrown) thirtyLessons = thirtyLessons \<and>
   scheduledHours 45 thirtyLessons (t_id michaelBrown) = 45 / 2 \<and>
   filter (\<lambda>c. cf_type c = teacher_overload) (validateConstraints [michaelBrown] [] 45 thirtyLessons)
     = [\<lparr>cf_type = teacher_overload,
         cf_message = ExceedsWeeklyLimit ''Prof. Michael Brown'' (45 / 2) 20,
         cf_severity = Warning,
         cf_affectedEntries = map te_id thirtyLessons\<rparr>]"
proof -
  have i: "t_id michaelBrown = ''4''" and l: "t_weeklyHourLimit michaelBrown = 20"
    and n: "t_name michaelBrown = ''Prof. Michael Brown''"
    by (simp_all add: michaelBrown_def)
  have h: "list_all (\<lambda>t. 0 \<le> t_weeklyHourLimit t) [michaelBrown]" by (simp add: l)
  from validateConstraints_overload [OF h, of 45 thirtyLessons "[]"]
  obtain warned :: "Teacher list" where d: "distinct (map t_id warned)"
    and s: "set warned = {t. find (\<lambda>x. t_id x = t_id t) [michaelBrown] = Some t \<and>
               t_weeklyHourLimit t < scheduledHours 45 thirtyLessons (t_id t)}"
    and f: "filter (\<lambda>c. cf_type c = teacher_overload) (validateConstraints [michaelBrown] [] 45 thirtyLessons)
       = map (\<lambda>t. \<lparr>cf_type = teacher_overload,
                    cf_message = ExceedsWeeklyLimit (t_name t)
                                   (scheduledHours 45 thirtyLessons (t_id t)) (t_weeklyHourLimit t),
                    cf_severity = Warning,
                    cf_affectedEntries = map te_id (filter (\<lambda>e. te_teacherId e = t_id t) thirtyLessons)\<rparr>)
           warned"
    by (elim exE conjE)
  from d have "distinct warned" by (rule distinct_map [THEN iffD1, THEN conjunct1])
  moreover from s have "set warned = {michaelBrown}" unfolding michaelBrown_overloaded .
  ultimately have o: "warned = [michaelBrown]" by (rule distinct_singleton)
  have out: "filter (\<lambda>c. cf_type c = teacher_overload) (validateConstraints [michaelBrown] [] 45 thirtyLessons)
     = [\<lparr>cf_type = teacher_overload,
         cf_message = ExceedsWeeklyLimit ''Prof. Michael Brown'' (45 / 2) 20,
         cf_severity = Warning,
         cf_affectedEntries = map te_id thirtyLessons\<rparr>]"
    unfolding f o list.map i l n thirtyLessons_hours thirtyLessons_teacher ..
  have t: "filter (\<lambda>e. te_teacherId e = t_id michaelBrown) thirtyLessons = thirtyLessons"
    unfolding i by (rule thirtyLessons_teacher)
  have hrs: "scheduledHours 45 thirtyLessons (t_id michaelBrown) = 45 / 2"
    unfolding i by (rule thirtyLessons_hours)
  from h l thirtyLessons_length t hrs out show ?thesis by (intro conjI)
qed

end
